(* ===== verification/Prelude.thy ===== *)
theory Prelude
  imports Main "HOL-Library.Sublist"
begin

text \<open>
  Shared vocabulary of the LinkCube model.  The pages of the application
  (\<open>src/src/pages/*.tsx\<close>) are written against a handful of JavaScript
  built-ins: \<open>String.prototype.toLowerCase\<close>, \<open>String.prototype.includes\<close>,
  \<open>String.prototype.trim\<close>, \<open>Array.prototype.find\<close> and \<open>Array.prototype.filter\<close>,
  and every user action ends in a call of \<open>toast({title, description})\<close> or
  of \<open>navigate(path)\<close>.  This theory gives those built-ins executable HOL
  definitions, the record of a toast, and the generic lemmas on strings and
  lists that the component theories share.

  Strings are \<open>char list\<close>.  HOL characters are bytes, so the model of
  \<open>toLowerCase\<close> and \<open>trim\<close> covers the ASCII range, which is all the
  fixtures and route names of the repository use; \<open>filter\<close> is \<open>List.filter\<close>
  and \<open>find\<close> is \<open>List.find\<close>, whose first-match semantics are those of the
  JavaScript methods.
\<close>

named_theorems js_simps "evaluation rules of the JavaScript built-ins"

type_synonym js_id = nat
type_synonym path = string

subsection \<open>Characters and strings\<close>

definition js_lower_char :: "char \<Rightarrow> char" where
  "js_lower_char c =
     (if 65 \<le> (of_char c :: nat) \<and> (of_char c :: nat) \<le> 90
      then char_of (of_char c + (32::nat)) else c)"

definition js_toLowerCase :: "string \<Rightarrow> string" where
  "js_toLowerCase s = map js_lower_char s"

text \<open>
  \<open>s.includes(t)\<close>: some position of \<open>s\<close> starts a copy of \<open>t\<close>
  (ECMAScript StringIndexOf, scanning from the left).
\<close>

fun js_includes :: "string \<Rightarrow> string \<Rightarrow> bool" where
  "js_includes [] t = (t = [])"
| "js_includes (c # cs) t = (take (length t) (c # cs) = t \<or> js_includes cs t)"

definition js_is_space :: "char \<Rightarrow> bool" where
  "js_is_space c = ((of_char c :: nat) \<in> {9, 10, 11, 12, 13, 32})"

definition js_trim :: "string \<Rightarrow> string" where
  "js_trim s = rev (dropWhile js_is_space (rev (dropWhile js_is_space s)))"

declare js_lower_char_def [js_simps] js_toLowerCase_def [js_simps]
  js_is_space_def [js_simps] js_trim_def [js_simps]

subsection \<open>Dates\<close>

text \<open>
  A JavaScript \<open>Date\<close> is its time value, milliseconds since the epoch, and
  \<open>d1 < d2\<close> on dates compares time values.  \<open>new Date(y, m, d)\<close> is
  local midnight of day \<open>d\<close> of the zero-based month \<open>m\<close>; ECMAScript's
  MakeDay carries months beyond eleven into the year.  The local zone is taken
  to be UTC: an offset moves every date of the fixtures and the current time
  alike and changes no comparison between them.
\<close>

type_synonym js_date = int

definition days_from_civil :: "int \<Rightarrow> int \<Rightarrow> int \<Rightarrow> int" where
  "days_from_civil y m d =
     (let y' = (if m \<le> 2 then y - 1 else y); era = y' div 400; yoe = y' - era * 400;
          mp = (m + 9) mod 12; doy = (153 * mp + 2) div 5 + d - 1;
          doe = yoe * 365 + yoe div 4 - yoe div 100 + doy
      in era * 146097 + doe - 719468)"

definition js_MakeDay :: "int \<Rightarrow> int \<Rightarrow> int \<Rightarrow> int" where
  "js_MakeDay year month date =
     days_from_civil (year + month div 12) (month mod 12 + 1) 1 + date - 1"

definition js_new_Date :: "int \<Rightarrow> int \<Rightarrow> int \<Rightarrow> js_date" where
  "js_new_Date year month date = js_MakeDay year month date * 86400000"

declare days_from_civil_def [js_simps] js_MakeDay_def [js_simps] js_new_Date_def [js_simps]

text \<open>YearFromTime, MonthFromTime and DateFromTime of ECMAScript on a day number (days since the epoch), the inverse of \<open>days_from_civil\<close>.\<close>

definition civil_from_days :: "int \<Rightarrow> int \<times> int \<times> int" where
  "civil_from_days z =
     (let z' = z + 719468; era = z' div 146097; doe = z' - era * 146097;
          yoe = (doe - doe div 1460 + doe div 36524 - doe div 146096) div 365;
          doy = doe - (365 * yoe + yoe div 4 - yoe div 100);
          mp = (5 * doy + 2) div 153; d = doy - (153 * mp + 2) div 5 + 1;
          m = (if mp < 10 then mp + 3 else mp - 9)
      in (yoe + era * 400 + (if m \<le> 2 then 1 else 0), m, d))"

definition month_short :: "string list" where
  "month_short = [''Jan'', ''Feb'', ''Mar'', ''Apr'', ''May'', ''Jun'', ''Jul'', ''Aug'', ''Sep'', ''Oct'',
     ''Nov'', ''Dec'']"

subsection \<open>Notifications\<close>

text \<open>The argument of \<open>toast(...)\<close> of \<open>use-toast\<close> and of \<open>sonner\<close>.\<close>

record toast =
  title :: string
  description :: string

definition mk_toast :: "string \<Rightarrow> string \<Rightarrow> toast" where
  "mk_toast t d = \<lparr>title = t, description = d\<rparr>"

lemma mk_toast_sel [simp]: "title (mk_toast t d) = t" "description (mk_toast t d) = d"
  by (simp_all add: mk_toast_def)

lemma mk_toast_eq [simp]: "mk_toast t d = mk_toast t' d' \<longleftrightarrow> t = t' \<and> d = d'"
  by (simp add: mk_toast_def)

subsection \<open>Lemmas on the built-ins\<close>

lemma take_length_eq_prefix: "(take (length t) s = t) \<longleftrightarrow> prefix t s"
proof
  assume "take (length t) s = t"
  then have "s = t @ drop (length t) s" by (metis append_take_drop_id)
  then show "prefix t s" by (rule prefixI)
next
  assume "prefix t s"
  then obtain zs where "s = t @ zs" by (auto elim: prefixE)
  then show "take (length t) s = t" by simp
qed

text \<open>The scanning search decides the substring relation of the library.\<close>

lemma js_includes_sublist [simp]: "js_includes s t \<longleftrightarrow> sublist t s"
proof (induction s)
  case Nil
  then show ?case by simp
next
  case (Cons c cs)
  then show ?case by (simp add: take_length_eq_prefix sublist_Cons_right)
qed

lemma js_lower_char_idem [simp]: "js_lower_char (js_lower_char c) = js_lower_char c"
proof -
  have "of_char c < (256::nat)" by simp
  then show ?thesis by (simp add: js_lower_char_def)
qed

lemma js_toLowerCase_idem [simp]:
  "js_toLowerCase (js_toLowerCase s) = js_toLowerCase s"
  by (simp add: js_toLowerCase_def)

lemma js_toLowerCase_Nil [simp]: "js_toLowerCase [] = []"
  by (simp add: js_toLowerCase_def)

lemma js_toLowerCase_eq_Nil [simp]: "js_toLowerCase s = [] \<longleftrightarrow> s = []"
  by (simp add: js_toLowerCase_def)

lemma length_js_toLowerCase [simp]: "length (js_toLowerCase s) = length s"
  by (simp add: js_toLowerCase_def)

text \<open>Emitting the toast of a handler that may find no record.\<close>

definition emit :: "toast option \<Rightarrow> toast list \<Rightarrow> toast list" where
  "emit t ts = (case t of None \<Rightarrow> ts | Some x \<Rightarrow> ts @ [x])"

lemma emit_simps [simp]: "emit None ts = ts" "emit (Some x) ts = ts @ [x]"
  by (simp_all add: emit_def)

text \<open>
  \<open>xs.find(r => r.id === k)\<close>: with distinct keys, the lookup of the key of a
  member is that member; a key of no member finds nothing.
\<close>

lemma find_key_member:
  assumes "distinct (map f xs)" and "x \<in> set xs"
  shows "find (\<lambda>y. f y = f x) xs = Some x"
  using assms
proof (induction xs)
  case Nil
  then show ?case by simp
next
  case (Cons y ys)
  then show ?case by (auto simp: image_iff)
qed

lemma find_key_Some: "find (\<lambda>y. f y = k) xs = Some x \<Longrightarrow> x \<in> set xs \<and> f x = k"
  by (auto simp: find_Some_iff)

lemma find_key_None: "find (\<lambda>y. f y = k) xs = None \<longleftrightarrow> k \<notin> f ` set xs"
  by (auto simp: find_None_iff)

text \<open>\<open>js_lower_char\<close> on each printable ASCII character, so that evaluation on literals needs no arithmetic.\<close>

lemma js_lower_char_ascii:
  "js_lower_char (CHR 0x20) = CHR 0x20"
  "js_lower_char (CHR 0x21) = CHR 0x21"
  "js_lower_char (CHR 0x22) = CHR 0x22"
  "js_lower_char (CHR 0x23) = CHR 0x23"
  "js_lower_char (CHR 0x24) = CHR 0x24"
  "js_lower_char (CHR 0x25) = CHR 0x25"
  "js_lower_char (CHR 0x26) = CHR 0x26"
  "js_lower_char (CHR 0x27) = CHR 0x27"
  "js_lower_char (CHR 0x28) = CHR 0x28"
  "js_lower_char (CHR 0x29) = CHR 0x29"
  "js_lower_char (CHR 0x2A) = CHR 0x2A"
  "js_lower_char (CHR 0x2B) = CHR 0x2B"
  "js_lower_char (CHR 0x2C) = CHR 0x2C"
  "js_lower_char (CHR 0x2D) = CHR 0x2D"
  "js_lower_char (CHR 0x2E) = CHR 0x2E"
  "js_lower_char (CHR 0x2F) = CHR 0x2F"
  "js_lower_char (CHR 0x30) = CHR 0x30"
  "js_lower_char (CHR 0x31) = CHR 0x31"
  "js_lower_char (CHR 0x32) = CHR 0x32"
  "js_lower_char (CHR 0x33) = CHR 0x33"
  "js_lower_char (CHR 0x34) = CHR 0x34"
  "js_lower_char (CHR 0x35) = CHR 0x35"
  "js_lower_char (CHR 0x36) = CHR 0x36"
  "js_lower_char (CHR 0x37) = CHR 0x37"
  "js_lower_char (CHR 0x38) = CHR 0x38"
  "js_lower_char (CHR 0x39) = CHR 0x39"
  "js_lower_char (CHR 0x3A) = CHR 0x3A"
  "js_lower_char (CHR 0x3B) = CHR 0x3B"
  "js_lower_char (CHR 0x3C) = CHR 0x3C"
  "js_lower_char (CHR 0x3D) = CHR 0x3D"
  "js_lower_char (CHR 0x3E) = CHR 0x3E"
  "js_lower_char (CHR 0x3F) = CHR 0x3F"
  "js_lower_char (CHR 0x40) = CHR 0x40"
  "js_lower_char (CHR 0x41) = CHR 0x61"
  "js_lower_char (CHR 0x42) = CHR 0x62"
  "js_lower_char (CHR 0x43) = CHR 0x63"
  "js_lower_char (CHR 0x44) = CHR 0x64"
  "js_lower_char (CHR 0x45) = CHR 0x65"
  "js_lower_char (CHR 0x46) = CHR 0x66"
  "js_lower_char (CHR 0x47) = CHR 0x67"
  "js_lower_char (CHR 0x48) = CHR 0x68"
  "js_lower_char (CHR 0x49) = CHR 0x69"
  "js_lower_char (CHR 0x4A) = CHR 0x6A"
  "js_lower_char (CHR 0x4B) = CHR 0x6B"
  "js_lower_char (CHR 0x4C) = CHR 0x6C"
  "js_lower_char (CHR 0x4D) = CHR 0x6D"
  "js_lower_char (CHR 0x4E) = CHR 0x6E"
  "js_lower_char (CHR 0x4F) = CHR 0x6F"
  "js_lower_char (CHR 0x50) = CHR 0x70"
  "js_lower_char (CHR 0x51) = CHR 0x71"
  "js_lower_char (CHR 0x52) = CHR 0x72"
  "js_lower_char (CHR 0x53) = CHR 0x73"
  "js_lower_char (CHR 0x54) = CHR 0x74"
  "js_lower_char (CHR 0x55) = CHR 0x75"
  "js_lower_char (CHR 0x56) = CHR 0x76"
  "js_lower_char (CHR 0x57) = CHR 0x77"
  "js_lower_char (CHR 0x58) = CHR 0x78"
  "js_lower_char (CHR 0x59) = CHR 0x79"
  "js_lower_char (CHR 0x5A) = CHR 0x7A"
  "js_lower_char (CHR 0x5B) = CHR 0x5B"
  "js_lower_char (CHR 0x5C) = CHR 0x5C"
  "js_lower_char (CHR 0x5D) = CHR 0x5D"
  "js_lower_char (CHR 0x5E) = CHR 0x5E"
  "js_lower_char (CHR 0x5F) = CHR 0x5F"
  "js_lower_char (CHR 0x60) = CHR 0x60"
  "js_lower_char (CHR 0x61) = CHR 0x61"
  "js_lower_char (CHR 0x62) = CHR 0x62"
  "js_lower_char (CHR 0x63) = CHR 0x63"
  "js_lower_char (CHR 0x64) = CHR 0x64"
  "js_lower_char (CHR 0x65) = CHR 0x65"
  "js_lower_char (CHR 0x66) = CHR 0x66"
  "js_lower_char (CHR 0x67) = CHR 0x67"
  "js_lower_char (CHR 0x68) = CHR 0x68"
  "js_lower_char (CHR 0x69) = CHR 0x69"
  "js_lower_char (CHR 0x6A) = CHR 0x6A"
  "js_lower_char (CHR 0x6B) = CHR 0x6B"
  "js_lower_char (CHR 0x6C) = CHR 0x6C"
  "js_lower_char (CHR 0x6D) = CHR 0x6D"
  "js_lower_char (CHR 0x6E) = CHR 0x6E"
  "js_lower_char (CHR 0x6F) = CHR 0x6F"
  "js_lower_char (CHR 0x70) = CHR 0x70"
  "js_lower_char (CHR 0x71) = CHR 0x71"
  "js_lower_char (CHR 0x72) = CHR 0x72"
  "js_lower_char (CHR 0x73) = CHR 0x73"
  "js_lower_char (CHR 0x74) = CHR 0x74"
  "js_lower_char (CHR 0x75) = CHR 0x75"
  "js_lower_char (CHR 0x76) = CHR 0x76"
  "js_lower_char (CHR 0x77) = CHR 0x77"
  "js_lower_char (CHR 0x78) = CHR 0x78"
  "js_lower_char (CHR 0x79) = CHR 0x79"
  "js_lower_char (CHR 0x7A) = CHR 0x7A"
  "js_lower_char (CHR 0x7B) = CHR 0x7B"
  "js_lower_char (CHR 0x7C) = CHR 0x7C"
  "js_lower_char (CHR 0x7D) = CHR 0x7D"
  "js_lower_char (CHR 0x7E) = CHR 0x7E"
  by (simp_all add: js_lower_char_def char_of_def bit_Suc_0_iff)

lemma filter_key_member:
  "distinct (map f xs) \<Longrightarrow> x \<in> set xs \<Longrightarrow> filter (\<lambda>y. f y = f x) xs = [x]"
proof (induction xs)
  case (Cons a xs)
  show ?case
  proof (cases "x = a")
    case True
    then show ?thesis using Cons.prems(1) by (auto simp: filter_empty_conv) (metis imageI)
  next
    case False
    then have "f a \<noteq> f x" using Cons.prems by auto
    then show ?thesis using Cons False by simp
  qed
qed simp

lemma find_Some_set: "find P xs = Some x \<Longrightarrow> x \<in> set xs \<and> P x"
  by (induction xs) (auto split: if_splits)

end
