(* ===== verification/SearchFilter.thy ===== *)
theory SearchFilter
  imports Prelude "HOL-Library.Multiset"
begin

text \<open>
  The two contracts that every list page of the application implements
  (spec sections 4.1 and 4.2), stated once over any record type:
  \<^item> the Filter Predicate \<open>matches_query whitelist q x\<close>: the lower-cased query
    is a substring of the lower-cased value of one of the whitelisted fields
    \<open>whitelist x\<close> of the record, and \<open>query_filter\<close> keeps the matching
    records of a fixture in their order;
  \<^item> the View Partitioner \<open>is_partition xs parts\<close>: every record of \<open>xs\<close>
    occurs in exactly one part, as often as in \<open>xs\<close>, and each part keeps the
    order of \<open>xs\<close>.
  The page theories (Jobs, Events, Connect, Resources) define their filters
  and tabs as the code writes them and prove that they refine these
  contracts; the lemmas below then carry over to every page.
\<close>

definition matches_query :: "('a \<Rightarrow> string list) \<Rightarrow> string \<Rightarrow> 'a \<Rightarrow> bool" where
  "matches_query whitelist q x =
     list_ex (\<lambda>f. sublist (js_toLowerCase q) (js_toLowerCase f)) (whitelist x)"

definition query_filter :: "('a \<Rightarrow> string list) \<Rightarrow> string \<Rightarrow> 'a list \<Rightarrow> 'a list" where
  "query_filter whitelist q xs = filter (matches_query whitelist q) xs"

definition is_partition :: "'a list \<Rightarrow> 'a list list \<Rightarrow> bool" where
  "is_partition xs parts \<longleftrightarrow>
     mset xs = sum_list (map mset parts) \<and> list_all (\<lambda>p. subseq p xs) parts"

subsection \<open>The Filter Predicate\<close>

lemma matches_query_Nil: "matches_query whitelist [] x \<longleftrightarrow> whitelist x \<noteq> []"
  by (simp add: matches_query_def list_ex_iff ex_in_conv)

lemma matches_query_lower:
  "js_toLowerCase q = js_toLowerCase q' \<Longrightarrow> matches_query whitelist q x = matches_query whitelist q' x"
  by (simp add: matches_query_def)

lemma matches_query_narrow:
  assumes "sublist (js_toLowerCase q) (js_toLowerCase q')" and "matches_query whitelist q' x"
  shows "matches_query whitelist q x"
  using assms by (auto simp: matches_query_def list_ex_iff intro: sublist_order.order.trans)

lemma query_filter_Nil: "(\<And>x. whitelist x \<noteq> []) \<Longrightarrow> query_filter whitelist [] xs = xs"
  by (simp add: query_filter_def matches_query_Nil)

lemma query_filter_idem:
  "query_filter whitelist q (query_filter whitelist q xs) = query_filter whitelist q xs"
  by (simp add: query_filter_def)

lemma query_filter_subseq: "subseq (query_filter whitelist q xs) xs"
  by (simp add: query_filter_def)

lemma query_filter_lower:
  assumes "js_toLowerCase q = js_toLowerCase q'"
  shows "query_filter whitelist q xs = query_filter whitelist q' xs"
proof -
  have "matches_query whitelist q = matches_query whitelist q'"
    using assms by (simp add: matches_query_def fun_eq_iff)
  then show ?thesis by (simp add: query_filter_def)
qed

text \<open>Typing one more character narrows the result: it is re-filtered from the earlier one.\<close>

lemma query_filter_narrow:
  assumes "sublist (js_toLowerCase q) (js_toLowerCase q')"
  shows "query_filter whitelist q' xs = query_filter whitelist q' (query_filter whitelist q xs)"
proof -
  have "\<And>x. matches_query whitelist q' x \<Longrightarrow> matches_query whitelist q x"
    by (rule matches_query_narrow [OF assms])
  then have "filter (matches_query whitelist q') xs =
      filter (\<lambda>x. matches_query whitelist q x \<and> matches_query whitelist q' x) xs"
    by (metis (mono_tags, lifting) filter_cong)
  then show ?thesis by (simp add: query_filter_def)
qed

subsection \<open>The View Partitioner\<close>

lemma sum_list_mset_pair: "sum_list (map mset [a, b]) = mset a + mset b"
  by simp

lemma is_partition_complement:
  assumes "\<And>x. x \<in> set xs \<Longrightarrow> Q x \<longleftrightarrow> \<not> P x"
  shows "is_partition xs [filter P xs, filter Q xs]"
proof -
  have q: "filter Q xs = filter (\<lambda>x. \<not> P x) xs"
    by (metis assms filter_cong)
  have m: "mset (filter P xs) + mset (filter (\<lambda>x. \<not> P x) xs) = mset xs"
    by (simp add: mset_filter flip: multiset_partition)
  have "mset xs = sum_list (map mset [filter P xs, filter Q xs])"
    by (subst sum_list_mset_pair, subst q, rule m [symmetric])
  moreover have "list_all (\<lambda>p. subseq p xs) [filter P xs, filter Q xs]"
    by simp
  ultimately show ?thesis unfolding is_partition_def by (rule conjI)
qed

lemma count_sum_list_mset: "count (sum_list (map mset ps)) x = (\<Sum>p \<leftarrow> ps. count (mset p) x)"
  by (induction ps) auto

lemma is_partition_count:
  "is_partition xs parts \<Longrightarrow> count (mset xs) x = (\<Sum>p \<leftarrow> parts. count (mset p) x)"
  by (simp add: is_partition_def count_sum_list_mset)

end
