(* ===== verification/Jobs.thy ===== *)
theory Jobs
  imports SearchFilter
begin

text \<open>
  The job board, \<open>src/src/pages/Jobs.tsx\<close>: the fixture \<open>jobsData\<close>, the two
  handlers \<open>handleApply\<close> and \<open>handleBookmark\<close>, the search filter
  \<open>filteredJobs\<close>, the Bookmarked tab \<open>bookmarkedJobs\<close>, and the page as a
  state (\<open>searchQuery\<close>, the active tab, the toasts shown so far) stepped by
  the user's events.  The card component \<open>JobCard\<close> contributes the arguments
  of the handlers: its bookmark button calls \<open>onBookmark(job.id, !job.isBookmarked)\<close>.
\<close>

record job =
  id' :: js_id
  title :: string
  company :: string
  location :: string
  type' :: string
  category :: string
  salary :: string
  posted :: string
  description :: string
  requirements :: "string list"
  logo :: string
  isBookmarked :: bool

definition jobsData :: "job list" where
  "jobsData = [
    \<lparr>id' = 1, title = ''Software Engineer'', company = ''Google'',
     location = ''Mountain View, CA'', type' = ''Full-time'', category = ''Engineering'',
     salary = ''$120,000 - $150,000'', posted = ''2 days ago'',
     description = ''Google is looking for Software Engineers to build the next generation of web applications. You'll work on challenging projects and collaborate with talented engineers.'',
     requirements = [''BS in Computer Science or related field'', ''3+ years of experience in web development'',
       ''Strong JavaScript and React skills'', ''Experience with backend technologies''],
     logo = ''/placeholder.svg'', isBookmarked = False\<rparr>,
    \<lparr>id' = 2, title = ''Product Manager'', company = ''Meta'',
     location = ''New York, NY'', type' = ''Full-time'', category = ''Product'',
     salary = ''$130,000 - $160,000'', posted = ''1 week ago'',
     description = ''Join Meta as a Product Manager to drive the development of innovative features. You'll work with cross-functional teams to deliver exceptional user experiences.'',
     requirements = [''BS/MS in Computer Science, Business, or related field'', ''3+ years of product management experience'',
       ''Strong analytical and communication skills'', ''Experience with agile methodologies''],
     logo = ''/placeholder.svg'', isBookmarked = True\<rparr>,
    \<lparr>id' = 3, title = ''Data Scientist'', company = ''Netflix'',
     location = ''Los Gatos, CA'', type' = ''Full-time'', category = ''Data Science'',
     salary = ''$125,000 - $155,000'', posted = ''3 days ago'',
     description = ''Netflix is seeking a Data Scientist to help optimize our recommendation systems. You'll analyze large datasets and develop models to enhance user experience.'',
     requirements = [''MS/PhD in Computer Science, Statistics, or related field'', ''2+ years of experience in data science'',
       ''Strong programming skills in Python, R, or similar'', ''Experience with machine learning algorithms''],
     logo = ''/placeholder.svg'', isBookmarked = False\<rparr>,
    \<lparr>id' = 4, title = ''UX Designer'', company = ''Apple'',
     location = ''Cupertino, CA'', type' = ''Full-time'', category = ''Design'',
     salary = ''$110,000 - $140,000'', posted = ''5 days ago'',
     description = ''Apple is looking for a UX Designer to create intuitive and elegant user experiences. You'll work on products used by millions of people worldwide.'',
     requirements = [''Bachelor's degree in Design, HCI, or related field'', ''3+ years of UX design experience'',
       ''Strong portfolio showcasing user-centered design'', ''Experience with design tools like Figma and Sketch''],
     logo = ''/placeholder.svg'', isBookmarked = False\<rparr>,
    \<lparr>id' = 5, title = ''Marketing Intern'', company = ''Spotify'',
     location = ''Remote'', type' = ''Internship'', category = ''Marketing'',
     salary = ''$25 - $30 per hour'', posted = ''1 day ago'',
     description = ''Spotify is seeking a Marketing Intern to support our campaigns. You'll gain hands-on experience in digital marketing and work with a dynamic team.'',
     requirements = [''Currently pursuing a degree in Marketing or related field'', ''Strong communication and organizational skills'',
       ''Familiarity with social media platforms'', ''Interest in music and entertainment industry''],
     logo = ''/placeholder.svg'', isBookmarked = False\<rparr>]"

subsection \<open>Handlers\<close>

definition handleApply :: "js_id \<Rightarrow> toast option" where
  "handleApply jobId =
     (case find (\<lambda>j. id' j = jobId) jobsData of
        None \<Rightarrow> None
      | Some job \<Rightarrow> Some (mk_toast ''Application Started''
          (''You're applying for '' @ title job @ '' at '' @ company job)))"

definition handleBookmark :: "js_id \<Rightarrow> bool \<Rightarrow> toast option" where
  "handleBookmark jobId isBookmarked' =
     (case find (\<lambda>j. id' j = jobId) jobsData of
        None \<Rightarrow> None
      | Some job \<Rightarrow> Some (mk_toast
          (if isBookmarked' then ''Job Bookmarked'' else ''Bookmark Removed'')
          (if isBookmarked'
           then title job @ '' at '' @ company job @ '' has been saved to your bookmarks.''
           else title job @ '' has been removed from your bookmarks.'')))"

subsection \<open>Search and tabs\<close>

definition job_matches :: "string \<Rightarrow> job \<Rightarrow> bool" where
  "job_matches searchQuery job =
     (js_includes (js_toLowerCase (title job)) (js_toLowerCase searchQuery) \<or>
      js_includes (js_toLowerCase (company job)) (js_toLowerCase searchQuery) \<or>
      js_includes (js_toLowerCase (description job)) (js_toLowerCase searchQuery) \<or>
      js_includes (js_toLowerCase (location job)) (js_toLowerCase searchQuery))"

definition filteredJobs :: "string \<Rightarrow> job list" where
  "filteredJobs searchQuery = filter (job_matches searchQuery) jobsData"

definition bookmarkedJobs :: "string \<Rightarrow> job list" where
  "bookmarkedJobs searchQuery = filter isBookmarked (filteredJobs searchQuery)"

text \<open>The whitelist of the Filter Predicate on this page.\<close>

definition job_whitelist :: "job \<Rightarrow> string list" where
  "job_whitelist job = [title job, company job, description job, location job]"

subsection \<open>The page\<close>

datatype jobs_tab = AllJobsTab | BookmarkedTab | AppliedTab

record jobs_page =
  searchQuery :: string
  activeTab :: jobs_tab
  toasts :: "toast list"

definition jobs_init :: jobs_page where
  "jobs_init = \<lparr>searchQuery = '''', activeTab = AllJobsTab, toasts = []\<rparr>"

text \<open>The cards the active tab renders; the Applied tab renders none.\<close>

definition jobs_cards :: "jobs_page \<Rightarrow> job list" where
  "jobs_cards s = (case activeTab s of
       AllJobsTab \<Rightarrow> filteredJobs (searchQuery s)
     | BookmarkedTab \<Rightarrow> bookmarkedJobs (searchQuery s)
     | AppliedTab \<Rightarrow> [])"

datatype jobs_event =
    TypeQuery string
  | SelectJobsTab jobs_tab
  | ClickApply job
  | ClickBookmark job

text \<open>
  A click reaches a handler only through a rendered card; a click on a card
  that is not rendered cannot happen and leaves the page as it is.
\<close>

fun jobs_step :: "jobs_page \<Rightarrow> jobs_event \<Rightarrow> jobs_page" where
  "jobs_step s (TypeQuery q) = s\<lparr>searchQuery := q\<rparr>"
| "jobs_step s (SelectJobsTab t) = s\<lparr>activeTab := t\<rparr>"
| "jobs_step s (ClickApply job) =
     (if job \<in> set (jobs_cards s)
      then s\<lparr>toasts := emit (handleApply (id' job)) (toasts s)\<rparr> else s)"
| "jobs_step s (ClickBookmark job) =
     (if job \<in> set (jobs_cards s)
      then s\<lparr>toasts := emit (handleBookmark (id' job) (\<not> isBookmarked job)) (toasts s)\<rparr> else s)"

definition jobs_run :: "jobs_page \<Rightarrow> jobs_event list \<Rightarrow> jobs_page" where
  "jobs_run s es = fold (\<lambda>e s. jobs_step s e) es s"

text \<open>What \<open>JobCard\<close> shows: the title, company and posting age, the bookmark icon (filled when the
  seed flag is set), the badges (type, category, and the salary when it is a non-empty string),
  location, company and description.  Its View Details button has no handler.\<close>

record job_view =
  jv_title :: string
  jv_company :: string
  jv_posted :: string
  jv_bookmark_filled :: bool
  jv_badges :: "string list"
  jv_location :: string
  jv_description :: string

definition job_card :: "job \<Rightarrow> job_view" where
  "job_card job =
     \<lparr>jv_title = title job, jv_company = company job, jv_posted = posted job,
      jv_bookmark_filled = isBookmarked job,
      jv_badges = [type' job, category job] @ (if salary job \<noteq> [] then [salary job] else []),
      jv_location = location job, jv_description = description job\<rparr>"

definition jobs_view :: "jobs_page \<Rightarrow> job_view list" where
  "jobs_view s = map job_card (jobs_cards s)"

subsection \<open>Lemmas\<close>

text \<open>The job fixture has pairwise distinct ids, so a lookup by id finds the one card that was clicked.\<close>

lemma jobsData_distinct_ids: "distinct (map id' jobsData)"
  by (simp add: jobsData_def)

lemma job_matches_refines: "job_matches q = matches_query job_whitelist q"
  by (simp add: fun_eq_iff job_matches_def matches_query_def job_whitelist_def)

text \<open>C1: the job search of the page implements the Filter Predicate of the specification over the whitelist title, company, description, location.\<close>

lemma filteredJobs_refines: "filteredJobs q = query_filter job_whitelist q jobsData"
  by (simp add: filteredJobs_def query_filter_def job_matches_refines)

lemma job_whitelist_nonempty: "job_whitelist j \<noteq> []"
  by (simp add: job_whitelist_def)

text \<open>With the empty query the job board shows the whole fixture in its order.\<close>

lemma filteredJobs_empty_query: "filteredJobs '''' = jobsData"
  by (simp add: filteredJobs_def job_matches_refines matches_query_Nil job_whitelist_nonempty)

lemma jobs_cards_fixture: "set (jobs_cards s) \<subseteq> set jobsData"
  by (auto simp: jobs_cards_def bookmarkedJobs_def filteredJobs_def split: jobs_tab.splits)

lemma find_job_id: "j \<in> set jobsData \<Longrightarrow> find (\<lambda>x. id' x = id' j) jobsData = Some j"
  by (rule find_key_member [OF jobsData_distinct_ids])

lemma handleApply_found:
  "j \<in> set jobsData \<Longrightarrow>
   handleApply (id' j) = Some (mk_toast ''Application Started''
     (''You're applying for '' @ title j @ '' at '' @ company j))"
  by (simp add: handleApply_def find_job_id)

text \<open>C5: the apply handler emits nothing exactly when the id belongs to no job: the not-found path is a silent no-op.\<close>

lemma handleApply_not_found: "handleApply k = None \<longleftrightarrow> k \<notin> id' ` set jobsData"
  by (auto simp: handleApply_def find_key_None dest: find_key_Some split: option.splits)

lemma handleBookmark_found:
  "j \<in> set jobsData \<Longrightarrow>
   handleBookmark (id' j) b = Some (mk_toast
     (if b then ''Job Bookmarked'' else ''Bookmark Removed'')
     (if b then title j @ '' at '' @ company j @ '' has been saved to your bookmarks.''
      else title j @ '' has been removed from your bookmarks.''))"
  by (simp add: handleBookmark_def find_job_id)

text \<open>The query Google finds exactly the job whose company is Google (spec section 8).\<close>

lemma filteredJobs_Google: "filteredJobs ''Google'' = filter (\<lambda>j. company j = ''Google'') jobsData"
  by (simp add: filteredJobs_def job_matches_def jobsData_def js_simps del: js_includes_sublist)

subsection \<open>The page\<close>

lemma jobs_cards_toasts [simp]: "jobs_cards (s\<lparr>toasts := ts\<rparr>) = jobs_cards s"
  by (simp add: jobs_cards_def split: jobs_tab.split)

text \<open>C6: clicking the bookmark button of a rendered job card leaves every tab as it was and only emits a toast that announces the opposite of the card flag; the bookmark is never toggled.\<close>

lemma bookmark_click_keeps_view:
  assumes "j \<in> set (jobs_cards s)"
  shows "jobs_cards (jobs_step s (ClickBookmark j)) = jobs_cards s \<and>
         toasts (jobs_step s (ClickBookmark j)) = toasts s @ [mk_toast
           (if isBookmarked j then ''Bookmark Removed'' else ''Job Bookmarked'')
           (if isBookmarked j then title j @ '' has been removed from your bookmarks.''
            else title j @ '' at '' @ company j @ '' has been saved to your bookmarks.'')]"
proof -
  have "j \<in> set jobsData" using assms jobs_cards_fixture by blast
  then show ?thesis using assms by (simp add: handleBookmark_found)
qed

lemma bookmark_click_keeps_view_witness:
  "jobsData ! 1 \<in> set (jobs_cards jobs_init) \<and>
   jobs_cards (jobs_step jobs_init (ClickBookmark (jobsData ! 1))) = jobs_cards jobs_init \<and>
   toasts (jobs_step jobs_init (ClickBookmark (jobsData ! 1))) =
     [mk_toast ''Bookmark Removed'' ''Product Manager has been removed from your bookmarks.'']"
proof -
  have "jobsData ! 1 \<in> set jobsData"
    by (rule nth_mem) (simp add: jobsData_def)
  then have m: "jobsData ! 1 \<in> set (jobs_cards jobs_init)"
    by (simp add: jobs_cards_def jobs_init_def filteredJobs_empty_query)
  have "isBookmarked (jobsData ! 1)" "title (jobsData ! 1) = ''Product Manager''"
    by (simp_all add: jobsData_def)
  moreover have "toasts jobs_init = []" by (simp add: jobs_init_def)
  ultimately show ?thesis using bookmark_click_keeps_view [OF m] m by simp
qed

text \<open>The rendered cards do not change when a bookmark is clicked, and the Bookmarked tab shows
  only filled bookmark icons: the icon follows the seed flag, never a click.\<close>

lemma jobs_view_bookmark_click: "jobs_view (jobs_step s (ClickBookmark j)) = jobs_view s"
  by (simp add: jobs_view_def)

lemma jobs_view_bookmarked_tab:
  "activeTab s = BookmarkedTab \<Longrightarrow> \<forall>v \<in> set (jobs_view s). jv_bookmark_filled v"
  by (auto simp: jobs_view_def jobs_cards_def bookmarkedJobs_def job_card_def)

lemma jobs_view_badges: "map (length \<circ> jv_badges) (jobs_view jobs_init) = [3, 3, 3, 3, 3]"
  by (simp add: jobs_view_def jobs_cards_def jobs_init_def filteredJobs_empty_query jobsData_def job_card_def)

end
