(* ===== verification/Validation.thy ===== *)
theory Validation
  imports Prelude
begin

text \<open>
  The field checks that the form schemas of \<open>src/src/pages/Login.tsx\<close>,
  \<open>src/src/pages/Register.tsx\<close> and \<open>src/src/pages/admin/Register.tsx\<close>
  compose, and the number conversions of the registration form:
  \<^item> zod's \<open>z.string().email()\<close>, whose pattern is
    \<open>^(?!\.)(?!.*\.\.)([A-Z0-9_'+\-\.]*)[A-Z0-9_+-]@([A-Z0-9][A-Z0-9\-]*\.)+[A-Z]{2,}$\<close>
    with the flag \<open>i\<close>, written out as a check on the local part and the
    labels of the domain;
  \<^item> \<open>.min(n)\<close> on the length, \<open>.regex(/[A-Z]/)\<close> and its kin as "some
    character of the class", and \<open>/^[0-9]{10}$/\<close>;
  \<^item> \<open>parseInt(s)\<close> without a radix (leading white space, a sign, a \<open>0x\<close>
    prefix switching to base 16, the longest run of digits, \<open>NaN\<close> as
    \<open>None\<close>) and \<open>Number.prototype.toString()\<close> on integers.
\<close>

subsection \<open>Character classes\<close>

definition is_upper :: "char \<Rightarrow> bool" where
  "is_upper c = (65 \<le> (of_char c :: nat) \<and> (of_char c :: nat) \<le> 90)"

definition is_lower :: "char \<Rightarrow> bool" where
  "is_lower c = (97 \<le> (of_char c :: nat) \<and> (of_char c :: nat) \<le> 122)"

definition is_digit :: "char \<Rightarrow> bool" where
  "is_digit c = (48 \<le> (of_char c :: nat) \<and> (of_char c :: nat) \<le> 57)"

definition is_alpha :: "char \<Rightarrow> bool" where
  "is_alpha c = (is_upper c \<or> is_lower c)"

definition is_alnum :: "char \<Rightarrow> bool" where
  "is_alnum c = (is_alpha c \<or> is_digit c)"

definition digit_val :: "char \<Rightarrow> nat" where
  "digit_val c = of_char c - 48"

definition hex_val :: "char \<Rightarrow> nat option" where
  "hex_val c =
     (if is_digit c then Some (digit_val c)
      else if 97 \<le> (of_char c :: nat) \<and> (of_char c :: nat) \<le> 102 then Some (of_char c - 87)
      else if 65 \<le> (of_char c :: nat) \<and> (of_char c :: nat) \<le> 70 then Some (of_char c - 55)
      else None)"

subsection \<open>zod's email pattern\<close>

fun split_on :: "char \<Rightarrow> string \<Rightarrow> string list" where
  "split_on d [] = [[]]"
| "split_on d (c # cs) =
     (if c = d then [] # split_on d cs
      else (case split_on d cs of w # ws \<Rightarrow> (c # w) # ws | [] \<Rightarrow> [[c]]))"

text \<open>\<open>[A-Z0-9_'+\-\.]*[A-Z0-9_+-]\<close> under the flag \<open>i\<close>.\<close>

definition email_local_char :: "char \<Rightarrow> bool" where
  "email_local_char c = (is_alnum c \<or> c \<in> set ''_'+-.'')"

definition email_local_last :: "char \<Rightarrow> bool" where
  "email_local_last c = (is_alnum c \<or> c \<in> set ''_+-'')"

definition email_local_ok :: "string \<Rightarrow> bool" where
  "email_local_ok l = (l \<noteq> [] \<and> list_all email_local_char l \<and> email_local_last (last l))"

text \<open>\<open>([A-Z0-9][A-Z0-9\-]*\.)+[A-Z]{2,}\<close>: one or more labels, then a top-level part of letters.\<close>

definition domain_label_ok :: "string \<Rightarrow> bool" where
  "domain_label_ok w = (w \<noteq> [] \<and> is_alnum (hd w) \<and> list_all (\<lambda>c. is_alnum c \<or> c = CHR ''-'') w)"

definition email_domain_ok :: "string \<Rightarrow> bool" where
  "email_domain_ok d =
     (let ws = split_on CHR ''.'' d in
      2 \<le> length ws \<and> list_all domain_label_ok (butlast ws) \<and>
      2 \<le> length (last ws) \<and> list_all is_alpha (last ws))"

definition has_double_dot :: "string \<Rightarrow> bool" where
  "has_double_dot s = js_includes s ''..''"

definition zod_email :: "string \<Rightarrow> bool" where
  "zod_email s =
     (case split_on CHR ''@'' s of
        [l, d] \<Rightarrow> \<not> (s \<noteq> [] \<and> hd s = CHR ''.'') \<and> \<not> has_double_dot s \<and>
                  email_local_ok l \<and> email_domain_ok d
      | _ \<Rightarrow> False)"

subsection \<open>Other checks\<close>

definition has_match :: "(char \<Rightarrow> bool) \<Rightarrow> string \<Rightarrow> bool" where
  "has_match P s = list_ex P s"

definition phone_ok :: "string \<Rightarrow> bool" where
  "phone_ok s = (length s = 10 \<and> list_all is_digit s)"

subsection \<open>Submitting a form\<close>

text \<open>
  \<open>handleSubmit(onSubmit)\<close> of react-hook-form with \<open>zodResolver\<close>: when
  the schema reports issues, the first message of each field is shown and
  \<open>onSubmit\<close> is not called; otherwise \<open>onSubmit\<close> runs, and its effects
  are the toasts it shows and the path it navigates to.
\<close>

type_synonym field_errors = "(string \<times> string) list"

datatype form_outcome = Rejected field_errors | Submitted "toast list" path

definition submit_with :: "field_errors \<Rightarrow> (toast list \<times> path) \<Rightarrow> form_outcome" where
  "submit_with errs r = (if errs = [] then Submitted (fst r) (snd r) else Rejected errs)"

definition check :: "bool \<Rightarrow> string \<Rightarrow> string \<Rightarrow> field_errors" where
  "check ok field msg = (if ok then [] else [(field, msg)])"

text \<open>The first failing check of a chain such as \<open>z.string().min(8, ...).regex(...)\<close>.\<close>

definition first_error :: "string \<Rightarrow> (bool \<times> string) list \<Rightarrow> field_errors" where
  "first_error field checks =
     (case find (\<lambda>c. \<not> fst c) checks of None \<Rightarrow> [] | Some c \<Rightarrow> [(field, snd c)])"

subsection \<open>Numbers\<close>

definition digit_char :: "nat \<Rightarrow> char" where
  "digit_char k = ''0123456789'' ! k"

fun nat_digits :: "nat \<Rightarrow> string" where
  "nat_digits n =
     (if n < 10 then [digit_char n] else nat_digits (n div 10) @ [digit_char (n mod 10)])"

declare nat_digits.simps [simp del]

definition js_int_toString :: "int \<Rightarrow> string" where
  "js_int_toString i = (if i < 0 then CHR ''-'' # nat_digits (nat (- i)) else nat_digits (nat i))"

definition digits_value :: "nat \<Rightarrow> nat list \<Rightarrow> nat" where
  "digits_value base ds = foldl (\<lambda>acc d. base * acc + d) 0 ds"

fun hex_prefix :: "string \<Rightarrow> nat list" where
  "hex_prefix [] = []"
| "hex_prefix (c # cs) = (case hex_val c of None \<Rightarrow> [] | Some v \<Rightarrow> v # hex_prefix cs)"

text \<open>
  \<open>parseInt(s)\<close> with the radix left out: the digits after an optional
  sign, in base 16 after a \<open>0x\<close> or \<open>0X\<close>, else in base 10; no digit is
  \<open>NaN\<close>.
\<close>

definition js_parseInt :: "string \<Rightarrow> int option" where
  "js_parseInt s =
     (let t = dropWhile js_is_space s;
          neg = (t \<noteq> [] \<and> hd t = CHR ''-'');
          u = (if t \<noteq> [] \<and> hd t \<in> {CHR ''-'', CHR ''+''} then tl t else t);
          ds = (if take 2 u \<in> {''0x'', ''0X''} then hex_prefix (drop 2 u)
                else map digit_val (takeWhile is_digit u));
          base = (if take 2 u \<in> {''0x'', ''0X''} then 16 else 10)
      in if ds = [] then None
         else Some ((if neg then -1 else 1) * int (digits_value base ds)))"

declare is_upper_def [js_simps] is_lower_def [js_simps] is_digit_def [js_simps]
  is_alpha_def [js_simps] is_alnum_def [js_simps] digit_val_def [js_simps] hex_val_def [js_simps]
  email_local_char_def [js_simps] email_local_last_def [js_simps] email_local_ok_def [js_simps]
  domain_label_ok_def [js_simps] email_domain_ok_def [js_simps] has_double_dot_def [js_simps]
  zod_email_def [js_simps] has_match_def [js_simps] phone_ok_def [js_simps]
  submit_with_def [js_simps] check_def [js_simps] first_error_def [js_simps]
  js_int_toString_def [js_simps] digit_char_def [js_simps] nat_digits.simps [js_simps] digits_value_def [js_simps] js_parseInt_def [js_simps]

subsection \<open>Lemmas\<close>

lemma zod_email_examples:
  "zod_email ''admin@linkcube.com''"
  "zod_email ''o'neil+tag@mail.example-site.org''"
  "\<not> zod_email ''a..b@x.com''" "\<not> zod_email ''.a@x.com''"
  "\<not> zod_email ''a@x.c''" "\<not> zod_email ''a.@x.com''" "\<not> zod_email ''a@b@c.com''"
  by (simp_all add: js_simps del: js_includes_sublist)

lemma js_parseInt_examples:
  "js_parseInt ''  2023abc'' = Some 2023" "js_parseInt ''0x1A'' = Some 26"
  "js_parseInt ''-17'' = Some (-17)" "js_parseInt ''abc'' = None" "js_parseInt '''' = None"
  by (simp_all add: js_simps)

lemma digit_char_ok: "(k::nat) < 10 \<Longrightarrow> is_digit (digit_char k) \<and> digit_val (digit_char k) = k"
  by (auto simp: less_Suc_eq numeral_eq_Suc digit_char_def is_digit_def digit_val_def)

lemma nat_digits_all_digits: "list_all is_digit (nat_digits n)"
proof (induction n rule: nat_digits.induct)
  case (1 n)
  then show ?case by (subst nat_digits.simps) (simp add: digit_char_ok)
qed

lemma nat_digits_not_Nil: "nat_digits n \<noteq> []"
  by (subst nat_digits.simps) simp

lemma digits_value_snoc: "digits_value b (ds @ [d]) = b * digits_value b ds + d"
  by (simp add: digits_value_def)

lemma nat_digits_value: "digits_value 10 (map digit_val (nat_digits n)) = n"
proof (induction n rule: nat_digits.induct)
  case (1 n)
  show ?case
  proof (cases "n < 10")
    case True
    then show ?thesis by (subst nat_digits.simps) (simp add: digits_value_def digit_char_ok)
  next
    case False
    then have "digits_value 10 (map digit_val (nat_digits n)) =
        10 * digits_value 10 (map digit_val (nat_digits (n div 10))) + n mod 10"
      by (subst nat_digits.simps) (simp add: digits_value_snoc digit_char_ok)
    with "1.IH" False show ?thesis by simp
  qed
qed

lemma parse_digits_only:
  assumes "list_all is_digit ds" and "ds \<noteq> []"
  shows "js_parseInt ds = Some (int (digits_value 10 (map digit_val ds)))"
proof -
  have sp: "\<not> js_is_space (hd ds)" "hd ds \<noteq> CHR ''-''" "hd ds \<noteq> CHR ''+''"
    using assms by (cases ds; auto simp: js_is_space_def is_digit_def)+
  have x: "take 2 ds \<notin> {''0x'', ''0X''}"
    using assms by (cases ds; cases "tl ds"; auto simp: is_digit_def)
  have tw: "takeWhile is_digit ds = ds" using assms by (simp add: list_all_iff)
  have dw: "dropWhile js_is_space ds = ds" using sp(1) assms by (cases ds) auto
  show ?thesis using assms sp x by (simp add: js_parseInt_def tw dw Let_def)
qed

lemma js_parseInt_toString: "js_parseInt (js_int_toString i) = Some i"
proof (cases "i < 0")
  case False
  then show ?thesis
    using parse_digits_only [OF nat_digits_all_digits nat_digits_not_Nil, of "nat i"]
    by (simp add: js_int_toString_def nat_digits_value)
next
  case True
  let ?ds = "nat_digits (nat (- i))"
  have d: "list_all is_digit ?ds" "?ds \<noteq> []" by (rule nat_digits_all_digits, rule nat_digits_not_Nil)
  have x: "take 2 ?ds \<notin> {''0x'', ''0X''}"
    using d by (cases ?ds; cases "tl ?ds"; auto simp: is_digit_def)
  have tw: "takeWhile is_digit ?ds = ?ds" using d by (simp add: list_all_iff)
  have ne: "takeWhile is_digit ?ds \<noteq> []" by (simp only: tw) (rule d(2))
  have dv: "digits_value 10 (map digit_val (takeWhile is_digit ?ds)) = nat (- i)"
    by (simp only: tw nat_digits_value)
  show ?thesis using True x ne dv
    by (simp add: js_parseInt_def js_int_toString_def js_is_space_def Let_def del: takeWhile_eq_Nil_iff)
qed

text \<open>\<open>parseInt\<close> stops at the first character that is not a digit: a printed number followed by a
  unit parses back to the number.\<close>

lemma parse_digits_suffix:
  assumes "list_all is_digit ds" and "ds \<noteq> []"
    and "rest = [] \<or> \<not> is_digit (hd rest) \<and> hd rest \<notin> {CHR ''x'', CHR ''X''}"
  shows "js_parseInt (ds @ rest) = Some (int (digits_value 10 (map digit_val ds)))"
proof -
  have h: "hd (ds @ rest) = hd ds" using assms(2) by simp
  have sp: "\<not> js_is_space (hd ds)" "hd ds \<noteq> CHR ''-''" "hd ds \<noteq> CHR ''+''"
    using assms(1,2) by (cases ds; auto simp: js_is_space_def is_digit_def)+
  have x: "take 2 (ds @ rest) \<notin> {''0x'', ''0X''}"
    using assms by (cases ds; cases "tl ds"; cases rest; auto simp: is_digit_def)
  have tw: "takeWhile is_digit (ds @ rest) = ds"
    using assms by (cases rest) (auto simp: list_all_iff takeWhile_append2)
  have dw: "dropWhile js_is_space (ds @ rest) = ds @ rest" using sp(1) assms(2) by (cases ds) auto
  show ?thesis using assms(2) sp x h by (simp add: js_parseInt_def tw dw Let_def)
qed

lemma js_parseInt_nat_digits_suffix:
  "rest = [] \<or> \<not> is_digit (hd rest) \<and> hd rest \<notin> {CHR ''x'', CHR ''X''} \<Longrightarrow>
   js_parseInt (nat_digits n @ rest) = Some (int n)"
  using parse_digits_suffix [OF nat_digits_all_digits nat_digits_not_Nil] by (simp add: nat_digits_value)

end
