(* ===== verification/Events.thy ===== *)
theory Events
  imports SearchFilter Validation
begin

text \<open>
  The events page, \<open>src/src/pages/Events.tsx\<close>: the fixture \<open>eventsData\<close>
  with its \<open>new Date(...)\<close> dates, the handlers \<open>handleRSVP\<close> and
  \<open>handleCreateEvent\<close>, the search \<open>filteredEvents\<close>, the split into
  \<open>upcomingEvents\<close> and \<open>pastEvents\<close> against the current time, and the card
  \<open>EventCard\<close>, whose RSVP button is disabled when \<open>event.date < new Date()\<close>.
  The page state holds the query, the active tab, the current time and the
  toasts shown; time only moves forward.
\<close>

record event =
  id' :: js_id
  title :: string
  description :: string
  date :: js_date
  time :: string
  location :: string
  type' :: string
  category :: string
  attendees :: nat
  image :: string

definition eventsData :: "event list" where
  "eventsData = [
    \<lparr>id' = 1, title = ''Annual Alumni Gala'',
     description = ''Join us for an evening of networking, dinner, and inspiring talks from distinguished alumni.'',
     date = js_new_Date 2023 5 20, time = ''6:00 PM - 10:00 PM'',
     location = ''Grand Ballroom, University Center'', type' = ''in-person'', category = ''networking'',
     attendees = 155, image = ''/placeholder.svg''\<rparr>,
    \<lparr>id' = 2, title = ''Career Development Workshop'',
     description = ''Learn how to build an effective resume and prepare for job interviews from industry experts.'',
     date = js_new_Date 2023 5 25, time = ''2:00 PM - 4:00 PM'',
     location = ''Virtual - Zoom'', type' = ''virtual'', category = ''workshop'',
     attendees = 87, image = ''/placeholder.svg''\<rparr>,
    \<lparr>id' = 3, title = ''Tech Networking Meetup'',
     description = ''Network with alumni and students in tech fields and discover new career opportunities.'',
     date = js_new_Date 2023 6 5, time = ''5:30 PM - 7:30 PM'',
     location = ''Innovation Hub, Engineering Building'', type' = ''in-person'', category = ''networking'',
     attendees = 62, image = ''/placeholder.svg''\<rparr>,
    \<lparr>id' = 4, title = ''Entrepreneurship Seminar'',
     description = ''Hear from successful alumni entrepreneurs about their journey from classroom to startup success.'',
     date = js_new_Date 2023 6 12, time = ''3:00 PM - 5:00 PM'',
     location = ''Business School Auditorium'', type' = ''in-person'', category = ''seminar'',
     attendees = 94, image = ''/placeholder.svg''\<rparr>,
    \<lparr>id' = 5, title = ''Industry Panel: Future of AI'',
     description = ''Join a panel discussion with industry leaders discussing the future of AI and its impact on various fields.'',
     date = js_new_Date 2023 6 18, time = ''1:00 PM - 3:00 PM'',
     location = ''Virtual - Zoom'', type' = ''virtual'', category = ''panel'',
     attendees = 118, image = ''/placeholder.svg''\<rparr>]"

subsection \<open>Card and handlers\<close>

text \<open>\<open>EventCard\<close>: the RSVP button is disabled for a past event.\<close>

definition isPast :: "event \<Rightarrow> js_date \<Rightarrow> bool" where
  "isPast ev now = (date ev < now)"

definition handleRSVP :: "js_id \<Rightarrow> toast option" where
  "handleRSVP eventId =
     (case find (\<lambda>e. id' e = eventId) eventsData of
        None \<Rightarrow> None
      | Some ev \<Rightarrow> Some (mk_toast ''RSVP Confirmed!''
          (''You've successfully RSVP'd to '' @ title ev)))"

definition handleCreateEvent :: toast where
  "handleCreateEvent = mk_toast ''Coming Soon'' ''Event creation functionality will be available soon!''"

subsection \<open>Search and tabs\<close>

definition event_matches :: "string \<Rightarrow> event \<Rightarrow> bool" where
  "event_matches searchQuery ev =
     (js_includes (js_toLowerCase (title ev)) (js_toLowerCase searchQuery) \<or>
      js_includes (js_toLowerCase (description ev)) (js_toLowerCase searchQuery))"

definition filteredEvents :: "string \<Rightarrow> event list" where
  "filteredEvents searchQuery = filter (event_matches searchQuery) eventsData"

definition upcomingEvents :: "js_date \<Rightarrow> string \<Rightarrow> event list" where
  "upcomingEvents now searchQuery = filter (\<lambda>ev. date ev \<ge> now) (filteredEvents searchQuery)"

definition pastEvents :: "js_date \<Rightarrow> string \<Rightarrow> event list" where
  "pastEvents now searchQuery = filter (\<lambda>ev. date ev < now) (filteredEvents searchQuery)"

definition event_whitelist :: "event \<Rightarrow> string list" where
  "event_whitelist ev = [title ev, description ev]"

subsection \<open>The page\<close>

datatype events_tab = UpcomingTab | PastTab | MyEventsTab

record events_page =
  searchQuery :: string
  activeTab :: events_tab
  clock :: js_date
  toasts :: "toast list"

definition events_init :: "js_date \<Rightarrow> events_page" where
  "events_init t = \<lparr>searchQuery = '''', activeTab = UpcomingTab, clock = t, toasts = []\<rparr>"

text \<open>The cards of the active tab; My Events is a placeholder without cards.\<close>

definition events_cards :: "events_page \<Rightarrow> event list" where
  "events_cards s = (case activeTab s of
       UpcomingTab \<Rightarrow> upcomingEvents (clock s) (searchQuery s)
     | PastTab \<Rightarrow> pastEvents (clock s) (searchQuery s)
     | MyEventsTab \<Rightarrow> [])"

datatype events_event =
    TypeQuery string
  | SelectEventsTab events_tab
  | ClickRSVP event
  | ClickCreateEvent
  | Tick js_date

text \<open>
  An RSVP click reaches \<open>handleRSVP\<close> only through a rendered card whose
  button is enabled.  The Create Event button of the header is always
  rendered.  A tick sets the clock to a later time.
\<close>

fun events_step :: "events_page \<Rightarrow> events_event \<Rightarrow> events_page" where
  "events_step s (TypeQuery q) = s\<lparr>searchQuery := q\<rparr>"
| "events_step s (SelectEventsTab t) = s\<lparr>activeTab := t\<rparr>"
| "events_step s (ClickRSVP ev) =
     (if ev \<in> set (events_cards s) \<and> \<not> isPast ev (clock s)
      then s\<lparr>toasts := emit (handleRSVP (id' ev)) (toasts s)\<rparr> else s)"
| "events_step s ClickCreateEvent = s\<lparr>toasts := toasts s @ [handleCreateEvent]\<rparr>"
| "events_step s (Tick t) = (if clock s \<le> t then s\<lparr>clock := t\<rparr> else s)"

text \<open>date-fns \<open>format(date, 'MMM d')\<close> in the local zone (UTC, as in \<open>Prelude\<close>): the short month
  name and the day of the month.\<close>

definition format_MMM_d :: "js_date \<Rightarrow> string" where
  "format_MMM_d t =
     (let (y, m, d) = civil_from_days (t div 86400000) in month_short ! nat (m - 1) @ '' '' @ js_int_toString d)"

text \<open>What \<open>EventCard\<close> shows at the time \<open>now\<close> of its render: the Virtual or In-Person badge, the
  category, the title, the date badge, the description, time, location and attendance, and the RSVP
  button (disabled and reading Event Ended for a past event).\<close>

record event_view =
  evv_type :: string
  evv_category :: string
  evv_title :: string
  evv_date :: string
  evv_description :: string
  evv_time :: string
  evv_location :: string
  evv_attendees :: string
  evv_rsvp_disabled :: bool
  evv_rsvp_label :: string

definition event_card :: "js_date \<Rightarrow> event \<Rightarrow> event_view" where
  "event_card now ev =
     \<lparr>evv_type = (if type' ev = ''virtual'' then ''Virtual'' else ''In-Person''),
      evv_category = category ev, evv_title = title ev, evv_date = format_MMM_d (date ev),
      evv_description = description ev, evv_time = time ev, evv_location = location ev,
      evv_attendees = nat_digits (attendees ev) @ '' attending'',
      evv_rsvp_disabled = isPast ev now,
      evv_rsvp_label = (if isPast ev now then ''Event Ended'' else ''RSVP Now'')\<rparr>"

definition events_view :: "events_page \<Rightarrow> event_view list" where
  "events_view s = map (event_card (clock s)) (events_cards s)"

subsection \<open>Lemmas\<close>

lemma eventsData_distinct_ids: "distinct (map id' eventsData)"
  by (simp add: eventsData_def)

lemma event_matches_refines: "event_matches q = matches_query event_whitelist q"
  by (simp add: fun_eq_iff event_matches_def matches_query_def event_whitelist_def)

text \<open>C11: the event search implements the Filter Predicate over title and description.\<close>

lemma filteredEvents_refines: "filteredEvents q = query_filter event_whitelist q eventsData"
  by (simp add: filteredEvents_def query_filter_def event_matches_refines)

text \<open>C7: the Upcoming and Past tabs partition the filtered events: every filtered event is in exactly one of them, and both keep the fixture order.\<close>

lemma events_tabs_partition:
  "is_partition (filteredEvents q) [upcomingEvents t q, pastEvents t q]"
  unfolding upcomingEvents_def pastEvents_def
  by (rule is_partition_complement) auto

text \<open>On 1 July 2023 the Upcoming tab lists events 3, 4, 5 and the Past tab events 1 and 2.\<close>

lemma events_on_2023_07_01:
  "map id' (upcomingEvents (js_new_Date 2023 6 1) '''') = [3, 4, 5] \<and>
   map id' (pastEvents (js_new_Date 2023 6 1) '''') = [1, 2]"
  by (simp add: upcomingEvents_def pastEvents_def filteredEvents_def event_matches_def
      eventsData_def js_simps del: js_includes_sublist)

lemma events_cards_fixture: "set (events_cards s) \<subseteq> set eventsData"
  by (auto simp: events_cards_def upcomingEvents_def pastEvents_def filteredEvents_def
      split: events_tab.splits)

lemma handleRSVP_found:
  "ev \<in> set eventsData \<Longrightarrow>
   handleRSVP (id' ev) = Some (mk_toast ''RSVP Confirmed!'' (''You've successfully RSVP'd to '' @ title ev))"
  by (simp add: handleRSVP_def find_key_member [OF eventsData_distinct_ids])

lemma rendered_not_past_upcoming:
  assumes "ev \<in> set (events_cards s)" and "\<not> isPast ev (clock s)"
  shows "ev \<in> set (upcomingEvents (clock s) (searchQuery s))"
  using assms
  by (auto simp: events_cards_def isPast_def pastEvents_def split: events_tab.splits)

text \<open>C9: an RSVP click emits a toast only for an upcoming event, and the toast confirms that event by title.\<close>

lemma rsvp_only_upcoming:
  assumes "toasts (events_step s (ClickRSVP ev)) \<noteq> toasts s"
  shows "ev \<in> set (upcomingEvents (clock s) (searchQuery s)) \<and>
         toasts (events_step s (ClickRSVP ev)) =
           toasts s @ [mk_toast ''RSVP Confirmed!'' (''You've successfully RSVP'd to '' @ title ev)]"
proof -
  have g: "ev \<in> set (events_cards s) \<and> \<not> isPast ev (clock s)"
    using assms by (auto split: if_splits)
  then have "ev \<in> set eventsData" using events_cards_fixture by blast
  with g show ?thesis by (simp add: rendered_not_past_upcoming handleRSVP_found)
qed

lemma rsvp_only_upcoming_witness:
  "toasts (events_step (events_init (js_new_Date 2023 6 1)) (ClickRSVP (eventsData ! 2)))
     \<noteq> toasts (events_init (js_new_Date 2023 6 1)) \<and>
   eventsData ! 2 \<in> set (upcomingEvents (js_new_Date 2023 6 1) '''')"
proof -
  let ?s = "events_init (js_new_Date 2023 6 1)"
  have up: "eventsData ! 2 \<in> set (upcomingEvents (js_new_Date 2023 6 1) '''')"
    by (simp add: upcomingEvents_def filteredEvents_def event_matches_def eventsData_def
        js_simps del: js_includes_sublist)
  have "toasts (events_step ?s (ClickRSVP (eventsData ! 2))) \<noteq> toasts ?s"
  proof -
    have "eventsData ! 2 \<in> set eventsData" by (rule nth_mem) (simp add: eventsData_def)
    moreover have "\<not> isPast (eventsData ! 2) (js_new_Date 2023 6 1)"
      using up by (simp add: upcomingEvents_def isPast_def)
    ultimately show ?thesis using up
      by (simp add: events_init_def events_cards_def handleRSVP_found)
  qed
  with rsvp_only_upcoming [OF this] up show ?thesis by (simp add: events_init_def)
qed

text \<open>C10: on the Past tab every RSVP button is disabled: a click changes nothing.\<close>

lemma past_tab_rsvp_disabled:
  "activeTab s = PastTab \<Longrightarrow> events_step s (ClickRSVP ev) = s"
  by (auto simp: events_cards_def pastEvents_def isPast_def)

lemma past_tab_rsvp_disabled_witness:
  "activeTab ((events_init (js_new_Date 2023 6 1))\<lparr>activeTab := PastTab\<rparr>) = PastTab \<and>
   hd eventsData \<in> set (events_cards ((events_init (js_new_Date 2023 6 1))\<lparr>activeTab := PastTab\<rparr>)) \<and>
   events_step ((events_init (js_new_Date 2023 6 1))\<lparr>activeTab := PastTab\<rparr>) (ClickRSVP (hd eventsData)) =
     (events_init (js_new_Date 2023 6 1))\<lparr>activeTab := PastTab\<rparr>"
proof -
  have "hd eventsData \<in> set (pastEvents (js_new_Date 2023 6 1) '''')"
    by (simp add: pastEvents_def filteredEvents_def event_matches_def eventsData_def js_simps
        del: js_includes_sublist)
  then have "hd eventsData \<in> set (events_cards ((events_init (js_new_Date 2023 6 1))\<lparr>activeTab := PastTab\<rparr>))"
    by (simp add: events_cards_def events_init_def)
  then show ?thesis
    using past_tab_rsvp_disabled [of "(events_init (js_new_Date 2023 6 1))\<lparr>activeTab := PastTab\<rparr>" "hd eventsData"]
    by simp
qed

lemma events_step_clock_mono: "clock s \<le> clock (events_step s e)"
  by (cases e) auto

text \<open>Every card of the Upcoming tab offers an enabled RSVP Now button and every card of the Past tab
  a disabled Event Ended button; the fixture's date badges read the dates it was written with.\<close>

lemma events_view_rsvp:
  "activeTab s = UpcomingTab \<Longrightarrow> \<forall>v \<in> set (events_view s). \<not> evv_rsvp_disabled v \<and> evv_rsvp_label v = ''RSVP Now''"
  "activeTab s = PastTab \<Longrightarrow> \<forall>v \<in> set (events_view s). evv_rsvp_disabled v \<and> evv_rsvp_label v = ''Event Ended''"
  by (auto simp: events_view_def events_cards_def upcomingEvents_def pastEvents_def event_card_def isPast_def)

lemma fixture_days:
  "js_new_Date 2023 5 20 div 86400000 = 19528" "js_new_Date 2023 5 25 div 86400000 = 19533"
  "js_new_Date 2023 6 5 div 86400000 = 19543" "js_new_Date 2023 6 12 div 86400000 = 19550"
  "js_new_Date 2023 6 18 div 86400000 = 19556"
  by (simp_all add: js_new_Date_def js_MakeDay_def days_from_civil_def Let_def)
lemma fixture_civil:
  "civil_from_days 19528 = (2023, 6, 20)" "civil_from_days 19533 = (2023, 6, 25)"
  "civil_from_days 19543 = (2023, 7, 5)" "civil_from_days 19550 = (2023, 7, 12)"
  "civil_from_days 19556 = (2023, 7, 18)"
  unfolding civil_from_days_def Let_def by simp_all
lemma events_date_badges:
  "map (evv_date \<circ> event_card t) eventsData = [''Jun 20'', ''Jun 25'', ''Jul 5'', ''Jul 12'', ''Jul 18'']"
proof -
  have d: "map date eventsData = [js_new_Date 2023 5 20, js_new_Date 2023 5 25, js_new_Date 2023 6 5,
      js_new_Date 2023 6 12, js_new_Date 2023 6 18]"
    by (simp add: eventsData_def)
  have "map format_MMM_d (map date eventsData) = [''Jun 20'', ''Jun 25'', ''Jul 5'', ''Jul 12'', ''Jul 18'']"
    unfolding d by (simp add: format_MMM_d_def fixture_days fixture_civil month_short_def js_simps)
  then show ?thesis by (simp add: event_card_def comp_def)
qed

end
