(* ===== verification/Connect.thy ===== *)
theory Connect
  imports SearchFilter Validation
begin

text \<open>
  The people directory, \<open>src/src/pages/Connect.tsx\<close>: the fixture
  \<open>peopleData\<close> (a student has \<open>company: null\<close>, modelled as \<open>None\<close>), the
  handlers \<open>handleConnect\<close> and \<open>handleMessage\<close>, the search
  \<open>filteredPeople\<close> (the company is searched only when it is a non-empty
  string, as \<open>person.company && ...\<close> does), and the Alumni and Students tabs,
  which test the \<open>status\<close> string.  \<open>PersonCard\<close> renders a Connect button
  only for a person whose seed flag \<open>isConnected\<close> is false.
\<close>

record person =
  id' :: js_id
  name :: string
  role :: string
  company :: "string option"
  location :: string
  education :: string
  graduationYear :: int
  avatar :: string
  status :: string
  connections :: nat
  isConnected :: bool

definition peopleData :: "person list" where
  "peopleData = [
    \<lparr>id' = 1, name = ''Emma Thompson'', role = ''Software Engineer'', company = Some ''Google'',
     location = ''San Francisco, CA'', education = ''Stanford University'', graduationYear = 2019,
     avatar = ''/placeholder.svg'', status = ''alumni'', connections = 145, isConnected = False\<rparr>,
    \<lparr>id' = 2, name = ''David Chen'', role = ''Product Manager'', company = Some ''Meta'',
     location = ''New York, NY'', education = ''Stanford University'', graduationYear = 2020,
     avatar = ''/placeholder.svg'', status = ''alumni'', connections = 98, isConnected = True\<rparr>,
    \<lparr>id' = 3, name = ''Miguel Rodriguez'', role = ''UX Designer'', company = Some ''Apple'',
     location = ''Cupertino, CA'', education = ''Stanford University'', graduationYear = 2018,
     avatar = ''/placeholder.svg'', status = ''alumni'', connections = 210, isConnected = False\<rparr>,
    \<lparr>id' = 4, name = ''Sarah Johnson'', role = ''Data Scientist'', company = Some ''Amazon'',
     location = ''Seattle, WA'', education = ''Stanford University'', graduationYear = 2017,
     avatar = ''/placeholder.svg'', status = ''alumni'', connections = 175, isConnected = True\<rparr>,
    \<lparr>id' = 5, name = ''Alex Kim'', role = ''Computer Science'', company = None,
     location = ''Palo Alto, CA'', education = ''Stanford University'', graduationYear = 2023,
     avatar = ''/placeholder.svg'', status = ''student'', connections = 42, isConnected = False\<rparr>,
    \<lparr>id' = 6, name = ''Priya Patel'', role = ''Business Administration'', company = None,
     location = ''Stanford, CA'', education = ''Stanford University'', graduationYear = 2024,
     avatar = ''/placeholder.svg'', status = ''student'', connections = 37, isConnected = False\<rparr>]"

subsection \<open>Handlers\<close>

definition handleConnect :: "js_id \<Rightarrow> toast option" where
  "handleConnect personId =
     (case find (\<lambda>p. id' p = personId) peopleData of
        None \<Rightarrow> None
      | Some p \<Rightarrow> Some (mk_toast ''Connection Request Sent''
          (''Your connection request to '' @ name p @ '' has been sent.'')))"

definition handleMessage :: "js_id \<Rightarrow> toast option" where
  "handleMessage personId =
     (case find (\<lambda>p. id' p = personId) peopleData of
        None \<Rightarrow> None
      | Some p \<Rightarrow> Some (mk_toast ''Message Feature Coming Soon''
          ''Messaging functionality will be available soon!''))"

subsection \<open>Search and tabs\<close>

text \<open>\<open>person.company && person.company.toLowerCase().includes(q)\<close>: null and the empty string are falsy.\<close>

definition company_matches :: "string option \<Rightarrow> string \<Rightarrow> bool" where
  "company_matches c searchQuery =
     (case c of None \<Rightarrow> False
      | Some s \<Rightarrow> s \<noteq> [] \<and> js_includes (js_toLowerCase s) (js_toLowerCase searchQuery))"

definition person_matches :: "string \<Rightarrow> person \<Rightarrow> bool" where
  "person_matches searchQuery p =
     (js_includes (js_toLowerCase (name p)) (js_toLowerCase searchQuery) \<or>
      js_includes (js_toLowerCase (role p)) (js_toLowerCase searchQuery) \<or>
      company_matches (company p) searchQuery)"

definition filteredPeople :: "string \<Rightarrow> person list" where
  "filteredPeople searchQuery = filter (person_matches searchQuery) peopleData"

definition alumni :: "string \<Rightarrow> person list" where
  "alumni searchQuery = filter (\<lambda>p. status p = ''alumni'') (filteredPeople searchQuery)"

definition students :: "string \<Rightarrow> person list" where
  "students searchQuery = filter (\<lambda>p. status p = ''student'') (filteredPeople searchQuery)"

definition person_whitelist :: "person \<Rightarrow> string list" where
  "person_whitelist p =
     [name p, role p] @ (case company p of None \<Rightarrow> [] | Some c \<Rightarrow> if c = [] then [] else [c])"

subsection \<open>The page\<close>

datatype connect_tab = AllTab | AlumniTab | StudentsTab | MyConnectionsTab

record connect_page =
  searchQuery :: string
  activeTab :: connect_tab
  toasts :: "toast list"

definition connect_init :: connect_page where
  "connect_init = \<lparr>searchQuery = '''', activeTab = AllTab, toasts = []\<rparr>"

definition connect_cards :: "connect_page \<Rightarrow> person list" where
  "connect_cards s = (case activeTab s of
       AllTab \<Rightarrow> filteredPeople (searchQuery s)
     | AlumniTab \<Rightarrow> alumni (searchQuery s)
     | StudentsTab \<Rightarrow> students (searchQuery s)
     | MyConnectionsTab \<Rightarrow> [])"

datatype connect_event =
    TypeQuery string
  | SelectConnectTab connect_tab
  | ClickConnect person
  | ClickMessage person

text \<open>The Connect button exists only on the card of a person not connected in the seed data.\<close>

fun connect_step :: "connect_page \<Rightarrow> connect_event \<Rightarrow> connect_page" where
  "connect_step s (TypeQuery q) = s\<lparr>searchQuery := q\<rparr>"
| "connect_step s (SelectConnectTab t) = s\<lparr>activeTab := t\<rparr>"
| "connect_step s (ClickConnect p) =
     (if p \<in> set (connect_cards s) \<and> \<not> isConnected p
      then s\<lparr>toasts := emit (handleConnect (id' p)) (toasts s)\<rparr> else s)"
| "connect_step s (ClickMessage p) =
     (if p \<in> set (connect_cards s)
      then s\<lparr>toasts := emit (handleMessage (id' p)) (toasts s)\<rparr> else s)"

text \<open>What \<open>PersonCard\<close> shows: the name, the status badge, the year line, the role line (the
  company after \<open>at\<close> when it is a non-empty string, else \<open>Student\<close> after the role), the location,
  the connection count, and beside the Message button either Connect or a disabled Connected.\<close>

datatype connect_button = ConnectButton | ConnectedButton

record person_view =
  pv_name :: string
  pv_badge :: string
  pv_year :: string
  pv_role :: string
  pv_location :: string
  pv_connections :: string
  pv_button :: connect_button

definition person_card :: "person \<Rightarrow> person_view" where
  "person_card p =
     \<lparr>pv_name = name p,
      pv_badge = (if status p = ''alumni'' then ''Alumni'' else ''Student''),
      pv_year = (if status p = ''alumni'' then ''Class of '' else ''Expected '') @ js_int_toString (graduationYear p),
      pv_role = (case company p of
                   Some c \<Rightarrow> if c \<noteq> [] then role p @ '' at '' @ c else role p @ '' Student''
                 | None \<Rightarrow> role p @ '' Student''),
      pv_location = location p,
      pv_connections = nat_digits (connections p) @ '' connections'',
      pv_button = (if isConnected p then ConnectedButton else ConnectButton)\<rparr>"

definition connect_view :: "connect_page \<Rightarrow> person_view list" where
  "connect_view s = map person_card (connect_cards s)"

subsection \<open>Lemmas\<close>

lemma peopleData_distinct_ids: "distinct (map id' peopleData)"
  by (simp add: peopleData_def)

lemma person_matches_refines: "person_matches q = matches_query person_whitelist q"
  by (auto simp: fun_eq_iff person_matches_def matches_query_def person_whitelist_def
      company_matches_def split: option.splits)

text \<open>C15: the people search implements the Filter Predicate over name, role and a non-empty company.\<close>

lemma filteredPeople_refines: "filteredPeople q = query_filter person_whitelist q peopleData"
  by (simp add: filteredPeople_def query_filter_def person_matches_refines)

lemma peopleData_status: "\<forall>p \<in> set peopleData. status p = ''alumni'' \<or> status p = ''student''"
  by (simp add: peopleData_def)

lemma status_split_complete:
  "\<forall>p \<in> set xs. status p = ''alumni'' \<or> status p = ''student'' \<Longrightarrow>
   is_partition xs [filter (\<lambda>p. status p = ''alumni'') xs, filter (\<lambda>p. status p = ''student'') xs]"
  by (intro is_partition_complement) auto

text \<open>The split by the status string is a partition of a list of people exactly when every status is alumni or student; a record with any other status would vanish from both tabs.\<close>

lemma status_split_partition_iff:
  "is_partition xs [filter (\<lambda>p. status p = ''alumni'') xs, filter (\<lambda>p. status p = ''student'') xs]
   \<longleftrightarrow> (\<forall>p \<in> set xs. status p = ''alumni'' \<or> status p = ''student'')"
proof
  assume part: "is_partition xs [filter (\<lambda>p. status p = ''alumni'') xs, filter (\<lambda>p. status p = ''student'') xs]"
  show "\<forall>p \<in> set xs. status p = ''alumni'' \<or> status p = ''student''"
  proof
    fix p assume "p \<in> set xs"
    then have pos: "0 < count (mset xs) p" by simp
    show "status p = ''alumni'' \<or> status p = ''student''"
      using is_partition_count [OF part, of p] pos by (auto split: if_splits)
  qed
next
  assume "\<forall>p \<in> set xs. status p = ''alumni'' \<or> status p = ''student''"
  then show "is_partition xs [filter (\<lambda>p. status p = ''alumni'') xs, filter (\<lambda>p. status p = ''student'') xs]"
    by (rule status_split_complete)
qed

lemma status_split_partition_iff_witness:
  "is_partition peopleData [filter (\<lambda>p. status p = ''alumni'') peopleData,
     filter (\<lambda>p. status p = ''student'') peopleData]"
  using status_split_partition_iff [of peopleData] peopleData_status by simp

text \<open>C12: the Alumni and Students tabs partition the filtered people of the fixture.\<close>

lemma alumni_students_partition: "is_partition (filteredPeople q) [alumni q, students q]"
proof -
  have "\<forall>p \<in> set (filteredPeople q). status p = ''alumni'' \<or> status p = ''student''"
    using peopleData_status by (auto simp: filteredPeople_def)
  then show ?thesis unfolding alumni_def students_def by (rule status_split_complete)
qed

lemma connect_cards_fixture: "set (connect_cards s) \<subseteq> set peopleData"
  by (auto simp: connect_cards_def alumni_def students_def filteredPeople_def
      split: connect_tab.splits)

lemma connect_cards_toasts [simp]: "connect_cards (s\<lparr>toasts := ts\<rparr>) = connect_cards s"
  by (simp add: connect_cards_def split: connect_tab.split)

lemma handleConnect_found:
  "p \<in> set peopleData \<Longrightarrow>
   handleConnect (id' p) = Some (mk_toast ''Connection Request Sent''
     (''Your connection request to '' @ name p @ '' has been sent.''))"
  by (simp add: handleConnect_def find_key_member [OF peopleData_distinct_ids])

text \<open>C14: a connection request is not recorded: the Connect button of the card stays, and a second click sends the same request again.\<close>

lemma connect_request_not_recorded:
  assumes "p \<in> set (connect_cards s)" and "\<not> isConnected p"
  shows "toasts (connect_step (connect_step s (ClickConnect p)) (ClickConnect p)) =
         toasts s @ replicate 2 (mk_toast ''Connection Request Sent''
           (''Your connection request to '' @ name p @ '' has been sent.''))"
proof -
  have "p \<in> set peopleData" using assms(1) connect_cards_fixture by blast
  with assms show ?thesis by (simp add: handleConnect_found numeral_2_eq_2)
qed

lemma connect_request_not_recorded_witness:
  "hd peopleData \<in> set (connect_cards connect_init) \<and> \<not> isConnected (hd peopleData) \<and>
   toasts (connect_step (connect_step connect_init (ClickConnect (hd peopleData))) (ClickConnect (hd peopleData))) =
     replicate 2 (mk_toast ''Connection Request Sent'' ''Your connection request to Emma Thompson has been sent.'')"
proof -
  have h: "hd peopleData \<in> set peopleData" by (simp add: peopleData_def)
  have m: "hd peopleData \<in> set (connect_cards connect_init)"
    using h by (simp add: connect_cards_def connect_init_def filteredPeople_def
        person_matches_refines matches_query_Nil person_whitelist_def)
  have c: "\<not> isConnected (hd peopleData)" "name (hd peopleData) = ''Emma Thompson''"
    by (simp_all add: peopleData_def)
  have "toasts connect_init = []" by (simp add: connect_init_def)
  with connect_request_not_recorded [OF m c(1)] m c show ?thesis by simp
qed

text \<open>A card's badge agrees with the tab that lists it: every card of the Alumni tab reads Alumni
  and Class of, every card of the Students tab Student and Expected.  A status other than the two
  literals would read Student on the All tab while neither tab lists it.\<close>

lemma connect_view_badges:
  "activeTab s = AlumniTab \<Longrightarrow> \<forall>v \<in> set (connect_view s). pv_badge v = ''Alumni'' \<and> take 9 (pv_year v) = ''Class of ''"
  "activeTab s = StudentsTab \<Longrightarrow> \<forall>v \<in> set (connect_view s). pv_badge v = ''Student'' \<and> take 9 (pv_year v) = ''Expected ''"
  by (auto simp: connect_view_def connect_cards_def alumni_def students_def person_card_def)

text \<open>The role line of the fixture's cards: the four alumni at their companies, the two students
  by their programme.\<close>

lemma connect_view_roles:
  "map pv_role (connect_view connect_init) =
     [''Software Engineer at Google'', ''Product Manager at Meta'', ''UX Designer at Apple'',
      ''Data Scientist at Amazon'', ''Computer Science Student'', ''Business Administration Student'']"
  by (simp add: connect_view_def connect_cards_def connect_init_def filteredPeople_def person_matches_def
      company_matches_def peopleData_def person_card_def)

end
