(* ===== verification/Resources.thy ===== *)
theory Resources
  imports SearchFilter Validation
begin

text \<open>
  The resource library, \<open>src/src/pages/Resources.tsx\<close>: the fixture
  \<open>resourcesData\<close>, the handlers \<open>handleBookmark\<close> (here \<open>handleBookmark_resource\<close>), \<open>handleDownload\<close> and
  \<open>handleView\<close>, the search \<open>filteredResources\<close> and the Bookmarked tab.
  \<open>ResourceCard\<close> always renders a View button; it renders a Download
  button for a downloadable resource and an Access Now button, which calls
  \<open>onView\<close>, for the others.  The Career Development and Tech Skills tabs are
  placeholders without cards.
\<close>

record resource =
  id' :: js_id
  title :: string
  description :: string
  type' :: string
  category :: string
  author :: string
  publishedDate :: string
  readTime :: string
  views :: nat
  likes :: nat
  image :: string
  isBookmarked :: bool
  downloadable :: bool

definition resourcesData :: "resource list" where
  "resourcesData = [
    \<lparr>id' = 1, title = ''Ultimate Resume Guide for New Graduates'',
     description = ''Learn how to create a standout resume that will get you noticed by recruiters and hiring managers.'',
     type' = ''Guide'', category = ''Career Development'', author = ''Career Services Team'',
     publishedDate = ''May 15, 2023'', readTime = ''10 min read'', views = 1245, likes = 182,
     image = ''/placeholder.svg'', isBookmarked = False, downloadable = True\<rparr>,
    \<lparr>id' = 2, title = ''Mastering the Technical Interview'',
     description = ''Prepare for technical interviews with this comprehensive guide covering common questions and best practices.'',
     type' = ''E-Book'', category = ''Career Development'', author = ''Engineering Alumni Association'',
     publishedDate = ''June 3, 2023'', readTime = ''25 min read'', views = 876, likes = 134,
     image = ''/placeholder.svg'', isBookmarked = True, downloadable = True\<rparr>,
    \<lparr>id' = 3, title = ''Networking Strategies for Introverts'',
     description = ''Effective networking approaches for introverts to build meaningful professional relationships.'',
     type' = ''Article'', category = ''Networking'', author = ''Dr. Sarah Chen'',
     publishedDate = ''April 22, 2023'', readTime = ''8 min read'', views = 932, likes = 156,
     image = ''/placeholder.svg'', isBookmarked = False, downloadable = False\<rparr>,
    \<lparr>id' = 4, title = ''Entrepreneurship 101: From Idea to Launch'',
     description = ''A step-by-step guide to starting your own venture, from ideation to product launch.'',
     type' = ''Course'', category = ''Entrepreneurship'', author = ''Business School'',
     publishedDate = ''March 10, 2023'', readTime = ''5 hours total'', views = 543, likes = 98,
     image = ''/placeholder.svg'', isBookmarked = False, downloadable = False\<rparr>,
    \<lparr>id' = 5, title = ''AI and Machine Learning: Career Paths'',
     description = ''Explore different career paths in the field of artificial intelligence and machine learning.'',
     type' = ''Webinar Recording'', category = ''Tech Careers'', author = ''Dr. James Wilson'',
     publishedDate = ''May 28, 2023'', readTime = ''45 min watch'', views = 721, likes = 112,
     image = ''/placeholder.svg'', isBookmarked = False, downloadable = True\<rparr>]"

subsection \<open>Handlers\<close>

definition handleBookmark_resource :: "js_id \<Rightarrow> bool \<Rightarrow> toast option" where
  "handleBookmark_resource resourceId isBookmarked' =
     (case find (\<lambda>r. id' r = resourceId) resourcesData of
        None \<Rightarrow> None
      | Some r \<Rightarrow> Some (mk_toast
          (if isBookmarked' then ''Resource Bookmarked'' else ''Bookmark Removed'')
          (if isBookmarked' then title r @ '' has been saved to your bookmarks.''
           else title r @ '' has been removed from your bookmarks.'')))"

definition handleDownload :: "js_id \<Rightarrow> toast option" where
  "handleDownload resourceId =
     (case find (\<lambda>r. id' r = resourceId) resourcesData of
        None \<Rightarrow> None
      | Some r \<Rightarrow> Some (mk_toast ''Download Started'' (title r @ '' is being downloaded.'')))"

definition handleView :: "js_id \<Rightarrow> toast option" where
  "handleView resourceId =
     (case find (\<lambda>r. id' r = resourceId) resourcesData of
        None \<Rightarrow> None
      | Some r \<Rightarrow> Some (mk_toast ''Opening Resource'' (''Opening '' @ title r)))"

subsection \<open>Search and tabs\<close>

definition resource_matches :: "string \<Rightarrow> resource \<Rightarrow> bool" where
  "resource_matches searchQuery r =
     (js_includes (js_toLowerCase (title r)) (js_toLowerCase searchQuery) \<or>
      js_includes (js_toLowerCase (description r)) (js_toLowerCase searchQuery) \<or>
      js_includes (js_toLowerCase (category r)) (js_toLowerCase searchQuery) \<or>
      js_includes (js_toLowerCase (author r)) (js_toLowerCase searchQuery))"

definition filteredResources :: "string \<Rightarrow> resource list" where
  "filteredResources searchQuery = filter (resource_matches searchQuery) resourcesData"

definition bookmarkedResources :: "string \<Rightarrow> resource list" where
  "bookmarkedResources searchQuery = filter isBookmarked (filteredResources searchQuery)"

definition resource_whitelist :: "resource \<Rightarrow> string list" where
  "resource_whitelist r = [title r, description r, category r, author r]"

subsection \<open>The page\<close>

datatype resources_tab = AllResourcesTab | CareerTab | TechTab | BookmarkedResourcesTab

record resources_page =
  searchQuery :: string
  activeTab :: resources_tab
  toasts :: "toast list"

definition resources_init :: resources_page where
  "resources_init = \<lparr>searchQuery = '''', activeTab = AllResourcesTab, toasts = []\<rparr>"

definition resources_cards :: "resources_page \<Rightarrow> resource list" where
  "resources_cards s = (case activeTab s of
       AllResourcesTab \<Rightarrow> filteredResources (searchQuery s)
     | CareerTab \<Rightarrow> []
     | TechTab \<Rightarrow> []
     | BookmarkedResourcesTab \<Rightarrow> bookmarkedResources (searchQuery s))"

datatype resources_event =
    TypeQuery string
  | SelectResourcesTab resources_tab
  | ClickBookmark resource
  | ClickView resource
  | ClickDownload resource
  | ClickAccessNow resource

text \<open>
  Each card button calls its handler; the Download button exists only on a
  downloadable resource, the Access Now button only on the others.
\<close>

fun resources_step :: "resources_page \<Rightarrow> resources_event \<Rightarrow> resources_page" where
  "resources_step s (TypeQuery q) = s\<lparr>searchQuery := q\<rparr>"
| "resources_step s (SelectResourcesTab t) = s\<lparr>activeTab := t\<rparr>"
| "resources_step s (ClickBookmark r) =
     (if r \<in> set (resources_cards s)
      then s\<lparr>toasts := emit (handleBookmark_resource (id' r) (\<not> isBookmarked r)) (toasts s)\<rparr> else s)"
| "resources_step s (ClickView r) =
     (if r \<in> set (resources_cards s)
      then s\<lparr>toasts := emit (handleView (id' r)) (toasts s)\<rparr> else s)"
| "resources_step s (ClickDownload r) =
     (if r \<in> set (resources_cards s) \<and> downloadable r
      then s\<lparr>toasts := emit (handleDownload (id' r)) (toasts s)\<rparr> else s)"
| "resources_step s (ClickAccessNow r) =
     (if r \<in> set (resources_cards s) \<and> \<not> downloadable r
      then s\<lparr>toasts := emit (handleView (id' r)) (toasts s)\<rparr> else s)"

text \<open>The invariant of the toast list: a download toast names a downloadable resource.\<close>

definition download_toasts_ok :: "resources_page \<Rightarrow> bool" where
  "download_toasts_ok s \<longleftrightarrow>
     (\<forall>t \<in> set (toasts s). toast.title t = ''Download Started'' \<longrightarrow>
        (\<exists>r \<in> set resourcesData. downloadable r \<and> toast.description t = title r @ '' is being downloaded.''))"

definition resources_run :: "resources_page \<Rightarrow> resources_event list \<Rightarrow> resources_page" where
  "resources_run s es = fold (\<lambda>e s. resources_step s e) es s"

text \<open>What \<open>ResourceCard\<close> shows: the type and category badges, the title, the author line, the
  bookmark icon (filled when the seed flag is set), the description, the reading time, the view and
  like counts, and beside View either Download or Access Now.\<close>

datatype resource_action = DownloadButton | AccessNowButton

record resource_view =
  rv_type :: string
  rv_category :: string
  rv_title :: string
  rv_author :: string
  rv_bookmark_filled :: bool
  rv_description :: string
  rv_readTime :: string
  rv_views :: string
  rv_likes :: string
  rv_action :: resource_action

definition resource_card :: "resource \<Rightarrow> resource_view" where
  "resource_card resource =
     \<lparr>rv_type = type' resource, rv_category = category resource, rv_title = title resource,
      rv_author = ''By '' @ author resource, rv_bookmark_filled = isBookmarked resource,
      rv_description = description resource, rv_readTime = readTime resource,
      rv_views = nat_digits (views resource), rv_likes = nat_digits (likes resource),
      rv_action = (if downloadable resource then DownloadButton else AccessNowButton)\<rparr>"

definition resources_view :: "resources_page \<Rightarrow> resource_view list" where
  "resources_view s = map resource_card (resources_cards s)"

subsection \<open>Lemmas\<close>

lemma resourcesData_distinct_ids: "distinct (map id' resourcesData)"
  by (simp add: resourcesData_def)

lemma resource_matches_refines: "resource_matches q = matches_query resource_whitelist q"
  by (simp add: fun_eq_iff resource_matches_def matches_query_def resource_whitelist_def)

text \<open>C17: the resource search implements the Filter Predicate over title, description, category and author.\<close>

lemma filteredResources_refines:
  "filteredResources q = query_filter resource_whitelist q resourcesData"
  by (simp add: filteredResources_def query_filter_def resource_matches_refines)

lemma resources_cards_fixture: "set (resources_cards s) \<subseteq> set resourcesData"
  by (auto simp: resources_cards_def bookmarkedResources_def filteredResources_def
      split: resources_tab.splits)

lemma handle_toast_Some:
  "handleDownload k = Some t \<Longrightarrow> \<exists>r \<in> set resourcesData. id' r = k \<and> t = mk_toast ''Download Started'' (title r @ '' is being downloaded.'')"
  "handleView k = Some t \<Longrightarrow> toast.title t = ''Opening Resource''"
  "handleBookmark_resource k b = Some t \<Longrightarrow> toast.title t \<in> {''Resource Bookmarked'', ''Bookmark Removed''}"
  by (auto simp: handleDownload_def handleView_def handleBookmark_resource_def
      dest!: find_key_Some split: option.splits if_splits)

lemma download_toasts_ok_step:
  assumes "download_toasts_ok s"
  shows "download_toasts_ok (resources_step s e)"
proof (cases e)
  case (ClickDownload r)
  show ?thesis
  proof (cases "r \<in> set (resources_cards s) \<and> downloadable r")
    case True
    then have "r \<in> set resourcesData" using resources_cards_fixture by blast
    then have "handleDownload (id' r) = Some (mk_toast ''Download Started'' (title r @ '' is being downloaded.''))"
      by (simp add: handleDownload_def find_key_member [OF resourcesData_distinct_ids])
    with True assms ClickDownload \<open>r \<in> set resourcesData\<close> show ?thesis
      by (auto simp: download_toasts_ok_def)
  next
    case False
    with assms ClickDownload show ?thesis by auto
  qed
qed (use assms in \<open>auto simp: download_toasts_ok_def emit_def dest: handle_toast_Some split: option.splits\<close>)

lemma download_toasts_ok_run:
  "download_toasts_ok s \<Longrightarrow> download_toasts_ok (resources_run s es)"
proof (induction es arbitrary: s)
  case Nil
  then show ?case by (simp add: resources_run_def)
next
  case (Cons e es)
  then show ?case by (simp add: resources_run_def download_toasts_ok_step)
qed

text \<open>C16: in every run of the page from its initial state, each Download Started toast names a downloadable resource of the fixture.\<close>

lemma download_only_downloadable:
  assumes "t \<in> set (toasts (resources_run resources_init es))" and "toast.title t = ''Download Started''"
  shows "\<exists>r \<in> set resourcesData. downloadable r \<and> toast.description t = title r @ '' is being downloaded.''"
proof -
  have "download_toasts_ok resources_init" by (simp add: download_toasts_ok_def resources_init_def)
  then have "download_toasts_ok (resources_run resources_init es)" by (rule download_toasts_ok_run)
  with assms show ?thesis by (auto simp: download_toasts_ok_def)
qed

lemma download_only_downloadable_witness:
  "mk_toast ''Download Started'' ''Ultimate Resume Guide for New Graduates is being downloaded.''
     \<in> set (toasts (resources_run resources_init [ClickDownload (hd resourcesData)])) \<and>
   (\<exists>r \<in> set resourcesData. downloadable r \<and>
      ''Ultimate Resume Guide for New Graduates is being downloaded.'' = title r @ '' is being downloaded.'')"
proof -
  have h: "hd resourcesData \<in> set resourcesData" "downloadable (hd resourcesData)"
    "title (hd resourcesData) = ''Ultimate Resume Guide for New Graduates''"
    by (simp_all add: resourcesData_def)
  have c: "hd resourcesData \<in> set (resources_cards resources_init)"
    using h(1) by (simp add: resources_cards_def resources_init_def filteredResources_def
        resource_matches_refines matches_query_Nil resource_whitelist_def)
  have m: "mk_toast ''Download Started'' ''Ultimate Resume Guide for New Graduates is being downloaded.''
     \<in> set (toasts (resources_run resources_init [ClickDownload (hd resourcesData)]))"
    using h c by (simp add: resources_run_def resources_init_def handleDownload_def
        find_key_member [OF resourcesData_distinct_ids])
  show ?thesis using download_only_downloadable [OF m] m by simp
qed

lemma toasts_append_neq: "s\<lparr>toasts := toasts s @ [x]\<rparr> \<noteq> (s :: resources_page)"
  by (auto dest: arg_cong [where f = toasts])



text \<open>The view and like counts of a card parse back to the record's numbers.\<close>

lemma resource_card_counts:
  "js_parseInt (rv_views (resource_card r)) = Some (int (views r)) \<and>
   js_parseInt (rv_likes (resource_card r)) = Some (int (likes r))"
  using js_parseInt_nat_digits_suffix [of "[]"] by (simp add: resource_card_def)

end
