(* ===== verification/Login.thy ===== *)
theory Login
  imports Validation
begin

text \<open>
  The sign-in page, \<open>src/src/pages/Login.tsx\<close>: the schema \<open>loginSchema\<close>
  (a zod email and a password of at least six characters) and \<open>onSubmit\<close>,
  which sends an email that contains the text \<open>admin\<close> to \<open>/admin\<close> and
  every other to \<open>/dashboard\<close>.  No credential is checked; the
  \<open>try\<close>/\<open>catch\<close> around the navigation has no throwing call in it.
\<close>

record login_form =
  email :: string
  password :: string

definition loginSchema :: "login_form \<Rightarrow> field_errors" where
  "loginSchema data =
     check (zod_email (email data)) ''email'' ''Invalid email address'' @
     check (6 \<le> length (password data)) ''password'' ''Password must be at least 6 characters''"

definition login_onSubmit :: "login_form \<Rightarrow> toast list \<times> path" where
  "login_onSubmit data =
     ([], if js_includes (email data) ''admin'' then ''/admin'' else ''/dashboard'')"

definition login_submit :: "login_form \<Rightarrow> form_outcome" where
  "login_submit data = submit_with (loginSchema data) (login_onSubmit data)"

subsection \<open>Lemmas\<close>

text \<open>C19: a login form that passes the schema goes to the admin path exactly when the email contains admin, and to the dashboard otherwise (spec section 8).\<close>

lemma login_routes:
  assumes "loginSchema data = []"
  shows "login_submit data =
           Submitted [] (if sublist ''admin'' (email data) then ''/admin'' else ''/dashboard'')"
  using assms by (simp add: login_submit_def submit_with_def login_onSubmit_def)

lemma login_routes_witness:
  "loginSchema \<lparr>email = ''admin@linkcube.com'', password = ''secret1''\<rparr> = [] \<and>
   login_submit \<lparr>email = ''admin@linkcube.com'', password = ''secret1''\<rparr> = Submitted [] ''/admin''"
proof -
  have v: "loginSchema \<lparr>email = ''admin@linkcube.com'', password = ''secret1''\<rparr> = []"
    by (simp add: loginSchema_def js_simps del: js_includes_sublist)
  show ?thesis using login_routes [OF v] v by simp
qed

text \<open>The admin test is a case-sensitive substring test on the whole address: badminton@club.org reaches the admin dashboard, Admin@linkcube.com does not.\<close>

lemma login_admin_substring:
  "login_submit \<lparr>email = ''badminton@club.org'', password = ''secret1''\<rparr> = Submitted [] ''/admin'' \<and>
   login_submit \<lparr>email = ''Admin@linkcube.com'', password = ''secret1''\<rparr> = Submitted [] ''/dashboard''"
  by (simp add: login_submit_def submit_with_def login_onSubmit_def loginSchema_def js_simps
      del: js_includes_sublist)

text \<open>C21: every form that fails the schema is rejected without navigating, with the schema's
  errors: one message per failing field, under \<open>email\<close> exactly when the address is not a zod email
  and under \<open>password\<close> exactly when the password is shorter than six characters.\<close>

lemma login_rejects_invalid:
  assumes "loginSchema data \<noteq> []"
  shows "login_submit data = Rejected (loginSchema data) \<and> distinct (map fst (loginSchema data)) \<and>
         (''email'' \<in> fst ` set (loginSchema data) \<longleftrightarrow> \<not> zod_email (email data)) \<and>
         (''password'' \<in> fst ` set (loginSchema data) \<longleftrightarrow> length (password data) < 6)"
  using assms by (auto simp: login_submit_def submit_with_def loginSchema_def check_def)

lemma login_rejects_invalid_witness:
  "loginSchema \<lparr>email = ''not-an-email'', password = ''123''\<rparr> \<noteq> [] \<and>
   login_submit \<lparr>email = ''not-an-email'', password = ''123''\<rparr> =
     Rejected [(''email'', ''Invalid email address''), (''password'', ''Password must be at least 6 characters'')]"
proof -
  have e: "loginSchema \<lparr>email = ''not-an-email'', password = ''123''\<rparr> =
     [(''email'', ''Invalid email address''), (''password'', ''Password must be at least 6 characters'')]"
    by (simp add: loginSchema_def js_simps del: js_includes_sublist)
  show ?thesis using login_rejects_invalid [of "\<lparr>email = ''not-an-email'', password = ''123''\<rparr>"] e by simp
qed

lemma login_submit_Submitted:
  "login_submit data = Submitted ts p \<Longrightarrow> ts = [] \<and> p \<in> {''/admin'', ''/dashboard''}"
  by (auto simp: login_submit_def submit_with_def login_onSubmit_def split: if_splits)

end
