(* ===== verification/Register.thy ===== *)
theory Register
  imports Validation
begin

text \<open>
  The registration page, \<open>src/src/pages/Register.tsx\<close>: the schema
  \<open>registrationSchema\<close>, the batch years offered by the select
  (\<open>currentYear - 5 + i\<close> for \<open>i < 10\<close>, each as \<open>year.toString()\<close>), and
  \<open>onSubmit\<close>, which computes the role from \<open>parseInt(batchYear)\<close>, logs
  it, shows a success toast and navigates to \<open>/login\<close>.

  The text inputs are registered, so their value is a string (empty when
  untouched).  Degree, batch year and college are set by \<open>setValue\<close> from a
  select and are \<open>undefined\<close> until something is selected; \<open>None\<close> models
  that, and zod reports \<open>Required\<close> for it before any \<open>.min(1, ...)\<close>
  message.  \<open>z.string().url()\<close> is a parameter \<open>is_url\<close> of the model:
  zod delegates it to the WHATWG URL parser, which is not part of the
  repository.
\<close>

record registration_form =
  fullName :: string
  email :: string
  password :: string
  degree :: "string option"
  batchYear :: "string option"
  collegeName :: "string option"
  phoneNumber :: string
  linkedinProfile :: string

datatype role = Alumni | Student

definition password_checks :: "string \<Rightarrow> (bool \<times> string) list" where
  "password_checks p =
     [(8 \<le> length p, ''Password must be at least 8 characters''),
      (has_match is_upper p, ''Password must contain at least one uppercase letter''),
      (has_match is_lower p, ''Password must contain at least one lowercase letter''),
      (has_match is_digit p, ''Password must contain at least one number'')]"

text \<open>A select value: \<open>undefined\<close> fails \<open>z.string()\<close> with Required; an empty string fails \<open>.min(1)\<close>.\<close>

definition select_checks :: "string option \<Rightarrow> string \<Rightarrow> (bool \<times> string) list" where
  "select_checks v msg =
     (case v of None \<Rightarrow> [(False, ''Required'')] | Some s \<Rightarrow> [(1 \<le> length s, msg)])"

definition registrationSchema :: "(string \<Rightarrow> bool) \<Rightarrow> registration_form \<Rightarrow> field_errors" where
  "registrationSchema is_url data =
     check (2 \<le> length (fullName data)) ''fullName'' ''Name must be at least 2 characters'' @
     check (zod_email (email data)) ''email'' ''Invalid email address'' @
     first_error ''password'' (password_checks (password data)) @
     first_error ''degree'' (select_checks (degree data) ''Please select a degree'') @
     first_error ''batchYear'' (select_checks (batchYear data) ''Please select a batch year'') @
     first_error ''collegeName'' (select_checks (collegeName data) ''Please select a college'') @
     check (phone_ok (phoneNumber data)) ''phoneNumber'' ''Phone number must be 10 digits'' @
     check (linkedinProfile data = [] \<or> is_url (linkedinProfile data))
       ''linkedinProfile'' ''Invalid LinkedIn URL''"

definition years :: "int \<Rightarrow> int list" where
  "years currentYear = map (\<lambda>i. currentYear - 5 + int i) [0..<10]"

definition batch_year_options :: "int \<Rightarrow> string list" where
  "batch_year_options currentYear = map js_int_toString (years currentYear)"

text \<open>\<open>parseInt(data.batchYear) <= currentYear\<close>: a comparison with \<open>NaN\<close> is false.\<close>

definition register_role :: "int \<Rightarrow> string \<Rightarrow> role" where
  "register_role currentYear batchYear' =
     (case js_parseInt batchYear' of
        Some y \<Rightarrow> if y \<le> currentYear then Alumni else Student
      | None \<Rightarrow> Student)"

definition register_onSubmit :: "int \<Rightarrow> registration_form \<Rightarrow> role \<times> toast list \<times> path" where
  "register_onSubmit currentYear data =
     (register_role currentYear (case batchYear data of Some b \<Rightarrow> b | None \<Rightarrow> []),
      [mk_toast ''Registration successful!'' []], ''/login'')"

definition register_submit :: "(string \<Rightarrow> bool) \<Rightarrow> int \<Rightarrow> registration_form \<Rightarrow> form_outcome" where
  "register_submit is_url currentYear data =
     submit_with (registrationSchema is_url data) (snd (register_onSubmit currentYear data))"

text \<open>A complete, valid registration, used by the examples below.\<close>

definition sample_registration :: registration_form where
  "sample_registration = \<lparr>fullName = ''Jal Patel'', email = ''jal@linkcube.com'', password = ''Secret123'',
     degree = Some ''btech'', batchYear = Some ''2020'', collegeName = Some ''iit'',
     phoneNumber = ''9876543210'', linkedinProfile = ''''\<rparr>"

subsection \<open>Lemmas\<close>

lemma register_role_toString:
  "register_role currentYear (js_int_toString y) = (if y \<le> currentYear then Alumni else Student)"
  by (simp add: register_role_def js_parseInt_toString)

text \<open>C22: submitting with a batch year chosen from the select classifies the user as Alumni when the year is at most the current year and as Student otherwise (spec section 8).\<close>

lemma register_onSubmit_role:
  "fst (register_onSubmit currentYear (data\<lparr>batchYear := Some (js_int_toString y)\<rparr>)) =
     (if y \<le> currentYear then Alumni else Student)"
  by (simp add: register_onSubmit_def register_role_toString)

lemma years_expand:
  "years c = [c - 5, c - 4, c - 3, c - 2, c - 1, c, c + 1, c + 2, c + 3, c + 4]"
  by (simp add: years_def upt_rec)

lemma filter_check_other:
  "f \<noteq> g \<Longrightarrow> filter (\<lambda>e. fst e = f) (check ok g m) = []"
  by (simp add: check_def)

lemma filter_first_error_other:
  "f \<noteq> g \<Longrightarrow> filter (\<lambda>e. fst e = f) (first_error g cs) = []"
  by (simp add: first_error_def split: option.split)

lemma filter_first_error_same:
  "filter (\<lambda>e. fst e = f) (first_error f cs) = first_error f cs"
  by (simp add: first_error_def split: option.split)

lemma first_error_unselected: "first_error f (select_checks None msg) = [(f, ''Required'')]"
  by (simp add: first_error_def select_checks_def)


text \<open>C24: whatever else the form holds, a select never chosen (still \<open>undefined\<close>) is reported
  with exactly one message, Required, and never with the schema's own Please select message.\<close>

lemma unselected_select_required:
  "(degree d = None \<longrightarrow>
      filter (\<lambda>e. fst e = ''degree'') (registrationSchema is_url d) = [(''degree'', ''Required'')]) \<and>
   (batchYear d = None \<longrightarrow>
      filter (\<lambda>e. fst e = ''batchYear'') (registrationSchema is_url d) = [(''batchYear'', ''Required'')]) \<and>
   (collegeName d = None \<longrightarrow>
      filter (\<lambda>e. fst e = ''collegeName'') (registrationSchema is_url d) = [(''collegeName'', ''Required'')])"
  by (simp add: registrationSchema_def filter_check_other filter_first_error_other filter_first_error_same
      first_error_unselected)

lemma unselected_select_required_witness:
  "degree (sample_registration\<lparr>degree := None\<rparr>) = None \<and>
   filter (\<lambda>e. fst e = ''degree'') (registrationSchema (\<lambda>_. False) (sample_registration\<lparr>degree := None\<rparr>)) =
     [(''degree'', ''Required'')]"
  using unselected_select_required [of "sample_registration\<lparr>degree := None\<rparr>" "\<lambda>_. False"] by simp

lemma sample_registration_valid: "registrationSchema is_url sample_registration = []"
  by (simp add: registrationSchema_def sample_registration_def password_checks_def select_checks_def
      js_simps del: js_includes_sublist)

text \<open>C25: a registration that passes the schema shows the success toast and navigates to the login page; the computed role has no effect beyond the console.\<close>

lemma register_submit_valid:
  assumes "registrationSchema is_url data = []"
  shows "register_submit is_url currentYear data = Submitted [mk_toast ''Registration successful!'' []] ''/login''"
  using assms by (simp add: register_submit_def submit_with_def register_onSubmit_def)

lemma register_submit_valid_witness:
  "registrationSchema (\<lambda>_. False) sample_registration = [] \<and>
   register_submit (\<lambda>_. False) 2025 sample_registration = Submitted [mk_toast ''Registration successful!'' []] ''/login''"
proof -
  have v: "registrationSchema (\<lambda>_. False) sample_registration = []"
    by (rule sample_registration_valid)
  show ?thesis using register_submit_valid [OF v] v by simp
qed

lemma weak_password_message:
  "registrationSchema is_url (sample_registration\<lparr>password := ''secret123''\<rparr>) =
     [(''password'', ''Password must contain at least one uppercase letter'')]"
  by (simp add: registrationSchema_def sample_registration_def password_checks_def select_checks_def
      js_simps del: js_includes_sublist)

lemma register_submit_Submitted:
  "register_submit is_url currentYear data = Submitted ts p \<Longrightarrow> p = ''/login''"
  by (auto simp: register_submit_def submit_with_def register_onSubmit_def split: if_splits)

end
