(* ===== verification/AdminRegister.thy ===== *)
theory AdminRegister
  imports Register
begin

text \<open>
  The admin sign-up page, \<open>src/src/pages/admin/Register.tsx\<close>: the schema
  \<open>adminRegistrationSchema\<close> (name, email and password checked as on the
  registration page, whose password chain it repeats verbatim, and an admin
  code of at least six characters) and \<open>onSubmit\<close>, which shows a success
  toast and navigates to \<open>/admin\<close>.  The admin code is compared with nothing.
\<close>

record admin_registration_form =
  fullName :: string
  email :: string
  password :: string
  adminCode :: string

definition adminRegistrationSchema :: "admin_registration_form \<Rightarrow> field_errors" where
  "adminRegistrationSchema data =
     check (2 \<le> length (fullName data)) ''fullName'' ''Name must be at least 2 characters'' @
     check (zod_email (email data)) ''email'' ''Invalid email address'' @
     first_error ''password'' (password_checks (password data)) @
     check (6 \<le> length (adminCode data)) ''adminCode'' ''Admin code must be at least 6 characters''"

definition admin_onSubmit :: "admin_registration_form \<Rightarrow> toast list \<times> path" where
  "admin_onSubmit data = ([mk_toast ''Admin registration successful!'' []], ''/admin'')"

definition admin_submit :: "admin_registration_form \<Rightarrow> form_outcome" where
  "admin_submit data = submit_with (adminRegistrationSchema data) (admin_onSubmit data)"

subsection \<open>Lemmas\<close>

text \<open>C26: the admin code is checked for its length only: once name, email and password pass, every code of six or more characters registers an administrator and opens the admin dashboard.\<close>

lemma admin_code_unchecked:
  assumes "adminRegistrationSchema data = []" and "6 \<le> length c"
  shows "admin_submit (data\<lparr>adminCode := c\<rparr>) =
           Submitted [mk_toast ''Admin registration successful!'' []] ''/admin''"
  using assms by (simp add: admin_submit_def submit_with_def admin_onSubmit_def
      adminRegistrationSchema_def check_def split: if_splits)

lemma admin_code_unchecked_witness:
  "adminRegistrationSchema \<lparr>fullName = ''Jal Patel'', email = ''jal@linkcube.com'',
      password = ''Secret123'', adminCode = ''LINKCUBE-2024''\<rparr> = [] \<and>
   6 \<le> length ''123456'' \<and>
   admin_submit (\<lparr>fullName = ''Jal Patel'', email = ''jal@linkcube.com'',
      password = ''Secret123'', adminCode = ''LINKCUBE-2024''\<rparr>\<lparr>adminCode := ''123456''\<rparr>) =
     Submitted [mk_toast ''Admin registration successful!'' []] ''/admin''"
proof -
  have v: "adminRegistrationSchema \<lparr>fullName = ''Jal Patel'', email = ''jal@linkcube.com'',
      password = ''Secret123'', adminCode = ''LINKCUBE-2024''\<rparr> = []"
    by (simp add: adminRegistrationSchema_def password_checks_def js_simps del: js_includes_sublist)
  have l: "6 \<le> length ''123456''" by simp
  show ?thesis using admin_code_unchecked [OF v l] v l by simp
qed

lemma admin_submit_Submitted: "admin_submit data = Submitted ts p \<Longrightarrow> p = ''/admin''"
  by (auto simp: admin_submit_def submit_with_def admin_onSubmit_def split: if_splits)

end
