(* ===== verification/AuthForm.thy ===== *)
theory AuthForm
  imports Validation
begin

text \<open>
  The stub sign-in/sign-up form \<open>src/src/components/auth/AuthForms.tsx\<close>
  and the page \<open>src/src/pages/Auth.tsx\<close> that mounts it.  The form keeps
  its inputs, the password visibility, the remember-me box and
  \<open>loading\<close> in local state; \<open>handleSubmit\<close> sets \<open>loading\<close>, waits on a
  1500 ms timer, then shows a success toast, navigates (with \<open>replace\<close>)
  and clears \<open>loading\<close> in its \<open>finally\<close>.  The model counts the pending timers
  (\<open>timers\<close>) and makes the expiry of one an event, which can occur even after the
  form has unmounted (a browser timer is not cancelled by unmounting), so that the phases
  idle, submitting and resolved of the specification are states of a step
  function.  The browser blocks submission while the submit button is
  disabled and while a \<open>required\<close> or \<open>type="email"\<close> input is invalid
  (HTML constraint validation, modelled from the HTML standard).
  \<open>auth_render\<close> is what the JSX shows of a state.
\<close>

datatype auth_type = LoginType | SignupType

record auth_form =
  type' :: auth_type
  adminAuth :: bool
  passwordVisible :: bool
  email :: string
  password :: string
  name :: string
  rememberMe :: bool
  loading :: bool
  timers :: nat
  toasts :: "toast list"
  navigation :: "path option"

definition auth_init :: "auth_type \<Rightarrow> bool \<Rightarrow> auth_form" where
  "auth_init t a = \<lparr>type' = t, adminAuth = a, passwordVisible = False, email = [], password = [],
     name = [], rememberMe = False, loading = False, timers = 0, toasts = [], navigation = None\<rparr>"

subsection \<open>HTML constraint validation\<close>

text \<open>The valid e-mail address of the HTML standard: \<open>atext\<close> and dots, an \<open>@\<close>, and dot-separated labels of 1 to 63 letters, digits and hyphens that begin and end with a letter or digit.\<close>

definition html_atext :: "char \<Rightarrow> bool" where
  "html_atext c = (is_alnum c \<or> c \<in> set ''.!#$%&'*+/=?^_`{|}~-'')"

definition html_label_ok :: "string \<Rightarrow> bool" where
  "html_label_ok l = (l \<noteq> [] \<and> length l \<le> 63 \<and> is_alnum (hd l) \<and> is_alnum (last l) \<and>
     list_all (\<lambda>c. is_alnum c \<or> c = CHR ''-'') l)"

definition html_email_ok :: "string \<Rightarrow> bool" where
  "html_email_ok s =
     (case split_on CHR ''@'' s of
        [l, d] \<Rightarrow> l \<noteq> [] \<and> list_all html_atext l \<and> list_all html_label_ok (split_on CHR ''.'' d)
      | _ \<Rightarrow> False)"

text \<open>The inputs rendered for a form type: the name only for sign-up; each is \<open>required\<close>.\<close>

definition auth_form_valid :: "auth_form \<Rightarrow> bool" where
  "auth_form_valid s =
     ((type' s = SignupType \<longrightarrow> name s \<noteq> []) \<and> email s \<noteq> [] \<and> html_email_ok (email s) \<and>
      password s \<noteq> [])"

subsection \<open>Handlers\<close>

definition auth_target :: "auth_type \<Rightarrow> path" where
  "auth_target t = (case t of LoginType \<Rightarrow> ''/dashboard'' | SignupType \<Rightarrow> ''/login'')"

definition auth_success_toast :: "auth_type \<Rightarrow> toast" where
  "auth_success_toast t = (case t of LoginType \<Rightarrow> mk_toast ''Login successful!'' []
     | SignupType \<Rightarrow> mk_toast ''Account created successfully!'' [])"

definition auth_title :: "bool \<Rightarrow> auth_type \<Rightarrow> string" where
  "auth_title a t =
     (if a then (if t = LoginType then ''Admin Login'' else ''Admin Signup'')
      else (if t = LoginType then ''Log in to LinkCube'' else ''Create your account''))"

text \<open>The part of \<open>handleSubmit\<close> before the \<open>await\<close>: \<open>setLoading(true)\<close> and one more
  \<open>setTimeout\<close> pending; \<open>timers\<close> counts the pending timers.\<close>

definition handleSubmit_start :: "auth_form \<Rightarrow> auth_form" where
  "handleSubmit_start s = s\<lparr>loading := True, timers := Suc (timers s)\<rparr>"

text \<open>The continuation of one elapsed timer: the toast and the navigation of the form type, then
  \<open>finally\<close>.  The toast and \<open>navigate\<close> act outside the component and happen even after it has
  unmounted; \<open>setLoading(false)\<close> is dropped once the form has navigated away.\<close>

definition handleSubmit_resume :: "auth_form \<Rightarrow> auth_form" where
  "handleSubmit_resume s =
     s\<lparr>toasts := toasts s @ [auth_success_toast (type' s)], navigation := Some (auth_target (type' s)),
       timers := timers s - 1, loading := (if navigation s = None then False else loading s)\<rparr>"

datatype auth_event =
  TypeName string | TypeEmail string | TypePassword string
  | TogglePasswordVisibility | SetRememberMe bool | SubmitForm | TimerElapsed

fun auth_handle :: "auth_form \<Rightarrow> auth_event \<Rightarrow> auth_form" where
  "auth_handle s (TypeName v) = (if type' s = SignupType then s\<lparr>name := v\<rparr> else s)"
| "auth_handle s (TypeEmail v) = s\<lparr>email := v\<rparr>"
| "auth_handle s (TypePassword v) = s\<lparr>password := v\<rparr>"
| "auth_handle s TogglePasswordVisibility = s\<lparr>passwordVisible := \<not> passwordVisible s\<rparr>"
| "auth_handle s (SetRememberMe b) = (if type' s = LoginType then s\<lparr>rememberMe := b\<rparr> else s)"
| "auth_handle s SubmitForm = (if \<not> loading s \<and> auth_form_valid s then handleSubmit_start s else s)"
| "auth_handle s TimerElapsed = (if 0 < timers s then handleSubmit_resume s else s)"

text \<open>Once the form has navigated away it is unmounted and takes no further input; a timer still
  pending then fires all the same.\<close>

definition auth_step :: "auth_form \<Rightarrow> auth_event \<Rightarrow> auth_form" where
  "auth_step s e = (if navigation s = None \<or> e = TimerElapsed then auth_handle s e else s)"

inductive auth_reach :: "auth_type \<Rightarrow> bool \<Rightarrow> auth_form \<Rightarrow> bool" for t a where
  auth_reach_init: "auth_reach t a (auth_init t a)"
| auth_reach_step: "auth_reach t a s \<Longrightarrow> auth_reach t a (auth_step s e)"

subsection \<open>The specification's three phases\<close>

datatype auth_phase = Idle | Submitting | Resolved

definition phase_of :: "auth_form \<Rightarrow> auth_phase" where
  "phase_of s = (if navigation s \<noteq> None then Resolved else if loading s then Submitting else Idle)"

inductive phase_trans :: "auth_phase \<Rightarrow> auth_phase \<Rightarrow> bool" where
  phase_stay: "phase_trans p p"
| phase_submit: "phase_trans Idle Submitting"
| phase_resolve: "phase_trans Submitting Resolved"

inductive_simps phase_trans_simps: "phase_trans p q"

subsection \<open>The page \<open>Auth.tsx\<close>\<close>

text \<open>The redirect effect of the page, by path and the \<open>authType\<close> route parameter.\<close>

definition auth_redirect :: "path \<Rightarrow> string option \<Rightarrow> path option" where
  "auth_redirect pathname authType =
     (if pathname = ''/auth/signup'' then Some ''/register''
      else if pathname \<noteq> ''/login'' \<and> authType \<noteq> None \<and> authType \<noteq> Some [] \<and>
              the authType \<notin> set [''login'', ''admin-login'', ''admin-signup''] then Some ''/login''
      else None)"

definition auth_page_form :: "string option \<Rightarrow> auth_form" where
  "auth_page_form authType =
     auth_init LoginType (authType = Some ''admin-login'' \<or> authType = Some ''admin-signup'')"

text \<open>What every reachable state satisfies: one timer is pending while \<open>loading\<close> is set and none otherwise, and until the form navigates there is no toast; after it, exactly the success toast of its type and the target of its type.\<close>

definition auth_inv :: "auth_type \<Rightarrow> bool \<Rightarrow> auth_form \<Rightarrow> bool" where
  "auth_inv t a s =
     (type' s = t \<and> adminAuth s = a \<and> timers s = (if loading s then 1 else 0) \<and>
      (case navigation s of
         None \<Rightarrow> toasts s = []
       | Some p \<Rightarrow> p = auth_target t \<and> \<not> loading s \<and> toasts s = [auth_success_toast t]))"

subsection \<open>The rendered form\<close>

definition auth_subtitle :: "bool \<Rightarrow> auth_type \<Rightarrow> string" where
  "auth_subtitle a t =
     (if a then ''Access the admin dashboard''
      else if t = LoginType then ''Welcome back! Enter your details to continue.''
      else ''Join the LinkCube community and connect with alumni and students.'')"

text \<open>What the form shows: title and subtitle, the name input (sign-up only), the password input's \<open>type\<close> and the toggle's label, the remember-me checkbox (login only), the submit button's \<open>disabled\<close> and label, and its link targets in document order (back home, forgot password for login, the other form).  The two social buttons have no handler.\<close>

record auth_view =
  afv_title :: string
  afv_subtitle :: string
  afv_name_field :: bool
  afv_password_type :: string
  afv_toggle_label :: string
  afv_remember :: bool
  afv_submit_disabled :: bool
  afv_submit_label :: string
  afv_links :: "path list"

definition auth_render :: "auth_form \<Rightarrow> auth_view" where
  "auth_render s =
     \<lparr>afv_title = auth_title (adminAuth s) (type' s), afv_subtitle = auth_subtitle (adminAuth s) (type' s),
      afv_name_field = (type' s = SignupType),
      afv_password_type = (if passwordVisible s then ''text'' else ''password''),
      afv_toggle_label = (if passwordVisible s then ''Hide password'' else ''Show password''),
      afv_remember = (type' s = LoginType), afv_submit_disabled = loading s,
      afv_submit_label = (if loading s then ''Loading...'' else if type' s = LoginType then ''Log in'' else ''Sign up''),
      afv_links = ''/'' # (if type' s = LoginType then [''/auth/reset-password'', ''/register''] else [''/login''])\<rparr>"

text \<open>The link targets of \<open>Auth.tsx\<close>: the brand logo of the wide layout, the one of the narrow layout, and those of the form it mounts.\<close>

definition auth_page_links :: "string option \<Rightarrow> path list" where
  "auth_page_links authType = ''/'' # ''/'' # afv_links (auth_render (auth_page_form authType))"

subsection \<open>Lemmas\<close>

lemma auth_inv_init: "auth_inv t a (auth_init t a)"
  by (simp add: auth_inv_def auth_init_def)

lemma auth_inv_step:
  assumes "auth_inv t a s"
  shows "auth_inv t a (auth_step s e)"
  using assms
  by (cases e) (auto simp: auth_step_def auth_inv_def handleSubmit_start_def handleSubmit_resume_def
      split: option.splits)

lemma auth_reach_auth_inv: "auth_reach t a s \<Longrightarrow> auth_inv t a s"
  by (induction s rule: auth_reach.induct) (simp_all add: auth_inv_init auth_inv_step)

lemma auth_success_not_failure:
  "auth_success_toast t \<noteq> mk_toast ''Authentication failed. Please try again.'' []"
  by (cases t) (simp_all add: auth_success_toast_def)

text \<open>C27: in every reachable state of the form at most one timer is pending, exactly while \<open>loading\<close> is set, the toasts are none or the one success toast of the form type, navigation goes nowhere or to the target of the type, and the failure toast of the \<open>catch\<close> never appears.\<close>

theorem auth_reach_safe:
  assumes "auth_reach t a s"
  shows "timers s \<le> 1 \<and> (timers s = 1) = loading s \<and> toasts s \<in> {[], [auth_success_toast t]} \<and>
         navigation s \<in> {None, Some (auth_target t)} \<and>
         mk_toast ''Authentication failed. Please try again.'' [] \<notin> set (toasts s)"
  using auth_reach_auth_inv [OF assms] auth_success_not_failure [of t]
  by (auto simp: auth_inv_def split: option.splits)

lemma auth_reach_example:
  "auth_reach LoginType False (auth_step (auth_step (auth_step (auth_step (auth_init LoginType False)
     (TypeEmail ''jal@linkcube.com'')) (TypePassword ''secret'')) SubmitForm) TimerElapsed)"
  by (intro auth_reach.intros)

lemma auth_reach_safe_witness:
  "auth_reach LoginType False (auth_step (auth_step (auth_step (auth_step (auth_init LoginType False)
     (TypeEmail ''jal@linkcube.com'')) (TypePassword ''secret'')) SubmitForm) TimerElapsed) \<and>
   toasts (auth_step (auth_step (auth_step (auth_step (auth_init LoginType False)
     (TypeEmail ''jal@linkcube.com'')) (TypePassword ''secret'')) SubmitForm) TimerElapsed)
     \<in> {[], [auth_success_toast LoginType]}"
  using auth_reach_safe [OF auth_reach_example] auth_reach_example by simp

text \<open>C28: the form refines the specification's degenerate state machine: from a reachable state every event either stays in its phase, moves from idle to submitting, or from submitting to resolved; resolved is final.\<close>

theorem auth_phase_refines:
  assumes "auth_reach t a s"
  shows "phase_trans (phase_of s) (phase_of (auth_step s e))"
proof -
  have i: "timers s = (if loading s then 1 else 0)" using auth_reach_auth_inv [OF assms] by (simp add: auth_inv_def)
  show ?thesis
    using i by (cases e) (auto simp: auth_step_def phase_of_def phase_trans_simps handleSubmit_start_def
        handleSubmit_resume_def)
qed

lemma auth_phase_refines_witness:
  "auth_reach LoginType False (auth_step (auth_step (auth_init LoginType False)
     (TypeEmail ''jal@linkcube.com'')) (TypePassword ''secret'')) \<and>
   phase_trans Idle Submitting \<and>
   phase_of (auth_step (auth_step (auth_init LoginType False)
     (TypeEmail ''jal@linkcube.com'')) (TypePassword ''secret'')) = Idle"
proof -
  have r: "auth_reach LoginType False (auth_step (auth_step (auth_init LoginType False)
     (TypeEmail ''jal@linkcube.com'')) (TypePassword ''secret''))"
    by (intro auth_reach.intros)
  show ?thesis
    using auth_phase_refines [OF r, of SubmitForm] r
    by (simp add: auth_step_def auth_init_def phase_of_def phase_trans.intros)
qed

text \<open>C29: a submission always completes: from a reachable idle state whose inputs pass constraint validation, submitting and letting the timer elapse navigates to the target of the form type (the dashboard for login, the login page for sign-up) with exactly the success toast.\<close>

theorem auth_submit_resolves:
  assumes "auth_reach t a s" and "phase_of s = Idle" and "auth_form_valid s"
  shows "navigation (auth_step (auth_step s SubmitForm) TimerElapsed) = Some (auth_target t) \<and>
         toasts (auth_step (auth_step s SubmitForm) TimerElapsed) = [auth_success_toast t] \<and>
         phase_of (auth_step (auth_step s SubmitForm) TimerElapsed) = Resolved"
proof -
  have "auth_inv t a s" using auth_reach_auth_inv [OF assms(1)] .
  then show ?thesis using assms(2,3)
    by (auto simp: auth_inv_def auth_step_def phase_of_def handleSubmit_start_def handleSubmit_resume_def
        split: if_splits)
qed

lemma auth_submit_resolves_witness:
  "auth_reach SignupType False (auth_step (auth_step (auth_step (auth_init SignupType False)
     (TypeName ''Jal'')) (TypeEmail ''jal@linkcube.com'')) (TypePassword ''secret'')) \<and>
   phase_of (auth_step (auth_step (auth_step (auth_init SignupType False)
     (TypeName ''Jal'')) (TypeEmail ''jal@linkcube.com'')) (TypePassword ''secret'')) = Idle \<and>
   auth_form_valid (auth_step (auth_step (auth_step (auth_init SignupType False)
     (TypeName ''Jal'')) (TypeEmail ''jal@linkcube.com'')) (TypePassword ''secret'')) \<and>
   navigation (auth_step (auth_step (auth_step (auth_step (auth_step (auth_init SignupType False)
     (TypeName ''Jal'')) (TypeEmail ''jal@linkcube.com'')) (TypePassword ''secret'')) SubmitForm)
     TimerElapsed) = Some ''/login''"
proof -
  let ?s = "auth_step (auth_step (auth_step (auth_init SignupType False)
     (TypeName ''Jal'')) (TypeEmail ''jal@linkcube.com'')) (TypePassword ''secret'')"
  have r: "auth_reach SignupType False ?s" by (intro auth_reach.intros)
  have s: "?s = (auth_init SignupType False)\<lparr>name := ''Jal'', email := ''jal@linkcube.com'',
      password := ''secret''\<rparr>"
    by (simp add: auth_step_def auth_init_def)
  have p: "phase_of ?s = Idle" unfolding s by (simp add: phase_of_def auth_init_def)
  have v: "auth_form_valid ?s"
    unfolding s by (simp add: auth_form_valid_def auth_init_def html_email_ok_def html_atext_def html_label_ok_def
        js_simps)
  show ?thesis using auth_submit_resolves [OF r p v] r p v by (simp add: auth_target_def)
qed

text \<open>C30: the submit button is disabled while loading and the browser refuses a form whose required inputs are invalid: a submission is accepted exactly when the form is mounted, idle and valid, so a second click never starts a second timer.\<close>

theorem auth_submit_accepted_iff:
  "auth_step s SubmitForm \<noteq> s \<longleftrightarrow> navigation s = None \<and> \<not> loading s \<and> auth_form_valid s"
  by (cases s) (auto simp: auth_step_def handleSubmit_start_def)

lemma auth_submit_accepted_iff_witness:
  "auth_step (auth_init LoginType False) SubmitForm = auth_init LoginType False \<and>
   \<not> auth_form_valid (auth_init LoginType False)"
  using auth_submit_accepted_iff [of "auth_init LoginType False"]
  by (simp add: auth_init_def auth_form_valid_def)

text \<open>The page \<open>Auth.tsx\<close> always mounts the login form, whatever its route parameter: for \<open>admin-signup\<close> it shows the title Admin Login, and the sign-up branch of the form is unreachable from it.\<close>

theorem auth_page_login_only:
  "type' (auth_page_form authType) = LoginType \<and>
   auth_title (adminAuth (auth_page_form (Some ''admin-signup'')))
     (type' (auth_page_form (Some ''admin-signup''))) = ''Admin Login''"
  by (simp add: auth_page_form_def auth_init_def auth_title_def)

text \<open>The redirect effect of \<open>Auth.tsx\<close> sends the legacy sign-up path to the registration page, an unknown auth type to the login page, and leaves the three known types alone.\<close>

theorem auth_redirect_cases:
  "auth_redirect ''/auth/signup'' p = Some ''/register'' \<and>
   auth_redirect ''/auth/reset-password'' (Some ''reset-password'') = Some ''/login'' \<and>
   (\<forall>k \<in> set [''login'', ''admin-login'', ''admin-signup'']. auth_redirect (''/auth/'' @ k) (Some k) = None)"
  by (simp add: auth_redirect_def)

lemma auth_redirect_cases_witness:
  "auth_redirect (''/auth/'' @ ''admin-login'') (Some ''admin-login'') = None \<and>
   ''admin-login'' \<in> set [''login'', ''admin-login'', ''admin-signup'']"
  using auth_redirect_cases by simp



lemma auth_toggle_password_type:
  "navigation s = None \<Longrightarrow>
   afv_password_type (auth_render (auth_step s TogglePasswordVisibility)) =
     (if afv_password_type (auth_render s) = ''text'' then ''password'' else ''text'')"
  by (simp add: auth_render_def auth_step_def)

end
