(* ===== verification/Routes.thy ===== *)
theory Routes
  imports Validation
begin

text \<open>
  The client-side route table of \<open>src/src/App.tsx\<close> and how react-router
  (v6, outside the repository, modelled from its documented algorithm)
  resolves a path against it: the nested \<open><Route>\<close> elements are flattened
  into branches (children before their parent, paths joined with \<open>/\<close>),
  the branches are ranked by \<open>computeScore\<close> (a stable sort, higher score
  first), and the first branch whose path pattern matches is rendered:
  matching ignores case and trailing slashes, and \<open>*\<close> matches the rest of
  the path.  A \<open><Navigate to replace/>\<close> element navigates once more.
\<close>

datatype page =
  LoginPage | RegisterPage | AdminRegisterPage | AdminDashboardPage | IndexPage | HomePage
  | DashboardPage | EventsPage | ConnectPage | JobsPage | ResourcesPage | HallOfFamePage
  | NotFoundPage | AuthPage

datatype element = Elem page | Placeholder string | NavigateTo path | MainLayoutEl | AdminLayoutEl

datatype route = PathRoute string element "route list" | IndexRoute element

definition app_routes :: "route list" where
  "app_routes =
     [PathRoute ''/login'' (Elem LoginPage) [],
      PathRoute ''/register'' (Elem RegisterPage) [],
      PathRoute ''/admin/register'' (Elem AdminRegisterPage) [],
      PathRoute ''/auth/login'' (NavigateTo ''/login'') [],
      PathRoute ''/auth/signup'' (NavigateTo ''/register'') [],
      PathRoute ''/admin'' AdminLayoutEl
        [IndexRoute (Elem AdminDashboardPage),
         PathRoute ''users'' (Placeholder ''Users Management'') [],
         PathRoute ''events'' (Placeholder ''Events Management'') [],
         PathRoute ''jobs'' (Placeholder ''Jobs Management'') [],
         PathRoute ''resources'' (Placeholder ''Resources Management'') []],
      PathRoute ''/'' MainLayoutEl
        [IndexRoute (Elem IndexPage),
         PathRoute ''home'' (Elem HomePage) [],
         PathRoute ''dashboard'' (Elem DashboardPage) [],
         PathRoute ''events'' (Elem EventsPage) [],
         PathRoute ''connect'' (Elem ConnectPage) [],
         PathRoute ''jobs'' (Elem JobsPage) [],
         PathRoute ''resources'' (Elem ResourcesPage) [],
         PathRoute ''hall-of-fame'' (Elem HallOfFamePage) []],
      PathRoute ''*'' (Elem NotFoundPage) []]"

subsection \<open>Flattening and ranking\<close>

text \<open>\<open>joinPaths\<close>: join with \<open>/\<close>, then collapse runs of slashes.\<close>

fun collapse_slashes :: "string \<Rightarrow> string" where
  "collapse_slashes (a # b # cs) =
     (if a = CHR ''/'' \<and> b = CHR ''/'' then collapse_slashes (b # cs) else a # collapse_slashes (b # cs))"
| "collapse_slashes cs = cs"

definition joinPaths :: "string \<Rightarrow> string \<Rightarrow> string" where
  "joinPaths parent p = collapse_slashes (parent @ ''/'' @ p)"

record branch =
  b_path :: string
  b_index :: bool
  b_elems :: "element list"

text \<open>\<open>flattenRoutes\<close>: a route's children come before the route itself; an index route has its parent's path.\<close>

fun flatten_routes :: "string \<Rightarrow> element list \<Rightarrow> route list \<Rightarrow> branch list" where
  "flatten_routes parent els [] = []"
| "flatten_routes parent els (IndexRoute e # rs) =
     \<lparr>b_path = joinPaths parent [], b_index = True, b_elems = els @ [e]\<rparr> # flatten_routes parent els rs"
| "flatten_routes parent els (PathRoute p e cs # rs) =
     flatten_routes (joinPaths parent p) (els @ [e]) cs @
     [\<lparr>b_path = joinPaths parent p, b_index = False, b_elems = els @ [e]\<rparr>] @
     flatten_routes parent els rs"

text \<open>\<open>computeScore\<close>: the number of segments, minus 2 for a splat, plus 2 for an index route, plus 10 per static segment and 1 per empty one (the table has no dynamic segment).\<close>

definition computeScore :: "string \<Rightarrow> bool \<Rightarrow> int" where
  "computeScore p index =
     (let segs = split_on CHR ''/'' p
      in int (length segs) + (if ''*'' \<in> set segs then -2 else 0) + (if index then 2 else 0) +
         sum_list (map (\<lambda>s. if s = [] then 1 else 10) (filter (\<lambda>s. s \<noteq> ''*'') segs)))"

text \<open>\<open>rankRouteBranches\<close>: a stable sort by descending score.\<close>

definition rank_branches :: "branch list \<Rightarrow> branch list" where
  "rank_branches bs = sort_key (\<lambda>b. - computeScore (b_path b) (b_index b)) bs"

definition app_branches :: "branch list" where
  "app_branches = rank_branches (flatten_routes [] [] app_routes)"

subsection \<open>Matching\<close>

text \<open>\<open>compilePath\<close> with \<open>caseSensitive = false\<close> and \<open>end = true\<close>: the pattern without its final \<open>*\<close> and trailing slashes, with one leading slash; then \<open>(.*)$\<close> for \<open>*\<close> and \<open>/*\<close>, \<open>(?:\/(.+)|\/*)$\<close> for another splat, and \<open>\/*$\<close> otherwise, under the flag \<open>i\<close>.\<close>

definition pattern_base :: "string \<Rightarrow> string" where
  "pattern_base pat =
     (let q = (if pat \<noteq> [] \<and> last pat = CHR ''*'' then butlast pat else pat);
          q' = rev (dropWhile (\<lambda>c. c = CHR ''/'') (rev q))
      in CHR ''/'' # dropWhile (\<lambda>c. c = CHR ''/'') q')"

definition path_matches :: "string \<Rightarrow> path \<Rightarrow> bool" where
  "path_matches pat pathname =
     (let base = js_toLowerCase (pattern_base pat); s = js_toLowerCase pathname;
          rest = drop (length base) s
      in take (length base) s = base \<and>
         (if pat \<noteq> [] \<and> last pat = CHR ''*'' then
            (pat = ''*'' \<or> pat = ''/*'' \<or> rest = [] \<or> hd rest = CHR ''/'')
          else list_all (\<lambda>c. c = CHR ''/'') rest))"

text \<open>\<open>matchRoutes\<close>: the elements (layouts, then the leaf) of the first ranked branch that matches.\<close>

definition route_view :: "path \<Rightarrow> element list option" where
  "route_view pathname = map_option b_elems (find (\<lambda>b. path_matches (b_path b) pathname) app_branches)"

text \<open>Rendering a path: a \<open><Navigate>\<close> leaf navigates again; \<open>fuel\<close> bounds the number of hops.\<close>

fun app_navigate :: "nat \<Rightarrow> path \<Rightarrow> (path \<times> element list) option" where
  "app_navigate 0 p = None"
| "app_navigate (Suc n) p =
     (case route_view p of
        None \<Rightarrow> None
      | Some els \<Rightarrow> (case last els of NavigateTo q \<Rightarrow> app_navigate n q | _ \<Rightarrow> Some (p, els)))"

definition rendered_page :: "path \<Rightarrow> element option" where
  "rendered_page p = map_option (last \<circ> snd) (app_navigate 2 p)"

subsection \<open>Links of the mounted components\<close>

definition mainlayout_navigation :: "(string \<times> path) list" where
  "mainlayout_navigation =
     [(''Home'', ''/home''), (''Dashboard'', ''/dashboard''), (''Events'', ''/events''),
      (''Connect'', ''/connect''), (''Jobs'', ''/jobs''), (''Resources'', ''/resources''),
      (''Hall of Fame'', ''/hall-of-fame'')]"

definition adminlayout_navigation :: "(string \<times> path) list" where
  "adminlayout_navigation =
     [(''Dashboard'', ''/admin''), (''Users'', ''/admin/users''), (''Events'', ''/admin/events''),
      (''Jobs'', ''/admin/jobs''), (''Resources'', ''/admin/resources'')]"

text \<open>The \<open><Link to=...>\<close> targets of each page reachable from the route table, in source order.\<close>

definition hero_links :: "path list" where
  "hero_links = [''/auth/signup'', ''/about'']"

definition index_cta_links :: "path list" where
  "index_cta_links = [''/auth/signup'', ''/auth/login'']"

definition index_footer_links :: "path list" where
  "index_footer_links = [''/'', ''/events'', ''/connect'', ''/jobs'', ''/resources'',
     ''/about'', ''/privacy'', ''/terms'', ''/contact'']"

definition home_hero_links :: "path list" where
  "home_hero_links = [''/signup'', ''/dashboard'']"

definition home_cta_links :: "path list" where
  "home_cta_links = [''/signup'', ''/login'']"

definition dashboard_links :: "path list" where
  "dashboard_links = [''/notifications'', ''/connect'', ''/events'', ''/connect'']"

definition login_links :: "path list" where
  "login_links = [''/register'', ''/forgot-password'', ''/terms'', ''/privacy'']"

definition register_links :: "path list" where
  "register_links = [''/admin/register'', ''/login'']"

definition admin_register_links :: "path list" where
  "admin_register_links = [''/register'', ''/login'']"

text \<open>The Hall of Fame's innovators tab links with a plain anchor, a full page load of the path.\<close>

definition hall_of_fame_links :: "path list" where
  "hall_of_fame_links = [''/ideas-donations'']"

definition layout_links :: "path list" where
  "layout_links = [''/'', ''/login'', ''/register'', ''/login'', ''/register'', ''/'']"

definition mounted_links :: "path list" where
  "mounted_links = hero_links @ index_cta_links @ index_footer_links @ home_hero_links @ home_cta_links @
     dashboard_links @ login_links @ register_links @ admin_register_links @ hall_of_fame_links @ layout_links @ map snd mainlayout_navigation @ map snd adminlayout_navigation"

subsection \<open>Lemmas\<close>

text \<open>The ranked branches of the table, computed once.\<close>

lemma app_branches_eq:
  "app_branches =
    [\<lparr>b_path = ''/admin/register'', b_index = False, b_elems = [Elem AdminRegisterPage]\<rparr>,
     \<lparr>b_path = ''/auth/login'', b_index = False, b_elems = [NavigateTo ''/login'']\<rparr>,
     \<lparr>b_path = ''/auth/signup'', b_index = False, b_elems = [NavigateTo ''/register'']\<rparr>,
     \<lparr>b_path = ''/admin/users'', b_index = False, b_elems = [AdminLayoutEl, Placeholder ''Users Management'']\<rparr>,
     \<lparr>b_path = ''/admin/events'', b_index = False, b_elems = [AdminLayoutEl, Placeholder ''Events Management'']\<rparr>,
     \<lparr>b_path = ''/admin/jobs'', b_index = False, b_elems = [AdminLayoutEl, Placeholder ''Jobs Management'']\<rparr>,
     \<lparr>b_path = ''/admin/resources'', b_index = False, b_elems = [AdminLayoutEl, Placeholder ''Resources Management'']\<rparr>,
     \<lparr>b_path = ''/admin/'', b_index = True, b_elems = [AdminLayoutEl, Elem AdminDashboardPage]\<rparr>,
     \<lparr>b_path = ''/login'', b_index = False, b_elems = [Elem LoginPage]\<rparr>,
     \<lparr>b_path = ''/register'', b_index = False, b_elems = [Elem RegisterPage]\<rparr>,
     \<lparr>b_path = ''/admin'', b_index = False, b_elems = [AdminLayoutEl]\<rparr>,
     \<lparr>b_path = ''/home'', b_index = False, b_elems = [MainLayoutEl, Elem HomePage]\<rparr>,
     \<lparr>b_path = ''/dashboard'', b_index = False, b_elems = [MainLayoutEl, Elem DashboardPage]\<rparr>,
     \<lparr>b_path = ''/events'', b_index = False, b_elems = [MainLayoutEl, Elem EventsPage]\<rparr>,
     \<lparr>b_path = ''/connect'', b_index = False, b_elems = [MainLayoutEl, Elem ConnectPage]\<rparr>,
     \<lparr>b_path = ''/jobs'', b_index = False, b_elems = [MainLayoutEl, Elem JobsPage]\<rparr>,
     \<lparr>b_path = ''/resources'', b_index = False, b_elems = [MainLayoutEl, Elem ResourcesPage]\<rparr>,
     \<lparr>b_path = ''/hall-of-fame'', b_index = False, b_elems = [MainLayoutEl, Elem HallOfFamePage]\<rparr>,
     \<lparr>b_path = ''/'', b_index = True, b_elems = [MainLayoutEl, Elem IndexPage]\<rparr>,
     \<lparr>b_path = ''/'', b_index = False, b_elems = [MainLayoutEl]\<rparr>,
     \<lparr>b_path = ''/*'', b_index = False, b_elems = [Elem NotFoundPage]\<rparr>]"
  by (simp add: app_branches_def app_routes_def rank_branches_def joinPaths_def computeScore_def)

lemmas route_eval = rendered_page_def numeral_2_eq_2 route_view_def app_branches_eq path_matches_def
  pattern_base_def js_toLowerCase_def js_lower_char_ascii


lemma path_matches_splat: "p \<noteq> [] \<Longrightarrow> hd p = CHR ''/'' \<Longrightarrow> path_matches ''/*'' p"
  by (cases p) (simp_all add: path_matches_def pattern_base_def js_toLowerCase_def js_lower_char_def)

lemma app_branches_splat: "\<lparr>b_path = ''/*'', b_index = False, b_elems = [Elem NotFoundPage]\<rparr> \<in> set app_branches"
  by (simp add: app_branches_eq)

lemma app_branches_leaves:
  "\<forall>els \<in> set (map b_elems app_branches).
     (case last els of NavigateTo q \<Rightarrow> q \<in> {''/login'', ''/register''} | _ \<Rightarrow> True) \<and>
     Elem AuthPage \<notin> set els"
  by (simp add: app_branches_eq)

lemma route_view_login: "route_view ''/login'' = Some [Elem LoginPage]"
  by (simp add: route_eval)

lemma route_view_register: "route_view ''/register'' = Some [Elem RegisterPage]"
  by (simp add: route_eval)

lemma route_view_Some:
  assumes "p \<noteq> []" and "hd p = CHR ''/''"
  shows "\<exists>els \<in> set (map b_elems app_branches). route_view p = Some els"
proof -
  have "\<exists>b \<in> set app_branches. path_matches (b_path b) p"
    using app_branches_splat path_matches_splat [OF assms] by force
  then have "find (\<lambda>b. path_matches (b_path b) p) app_branches \<noteq> None"
    unfolding find_None_iff by blast
  then obtain b where "find (\<lambda>b. path_matches (b_path b) p) app_branches = Some b" by blast
  then show ?thesis by (force simp: route_view_def dest: find_Some_set)
qed

lemma rendered_targets:
  "rendered_page ''/admin'' = Some (Elem AdminDashboardPage) \<and>
   rendered_page ''/dashboard'' = Some (Elem DashboardPage) \<and>
   rendered_page ''/login'' = Some (Elem LoginPage) \<and>
   rendered_page ''/register'' = Some (Elem RegisterPage)"
  by (simp add: route_eval)

text \<open>C33: rendering terminates with a page: every path that begins with a slash resolves, within two navigations (a legacy alias and its target), to a leaf that is not a further redirect, and no path renders the page \<open>Auth.tsx\<close>.\<close>

theorem app_navigate_total:
  assumes "p \<noteq> []" and "hd p = CHR ''/''"
  shows "\<exists>q els. app_navigate 2 p = Some (q, els) \<and>
           (case last els of NavigateTo _ \<Rightarrow> False | _ \<Rightarrow> True) \<and> Elem AuthPage \<notin> set els"
proof -
  obtain els where e: "els \<in> set (map b_elems app_branches)" and rv: "route_view p = Some els"
    using route_view_Some [OF assms] by blast
  have l: "(case last els of NavigateTo q \<Rightarrow> q \<in> {''/login'', ''/register''} | _ \<Rightarrow> True) \<and>
      Elem AuthPage \<notin> set els"
    using app_branches_leaves e by blast
  show ?thesis
    using rv l by (cases "last els") (auto simp: numeral_2_eq_2 route_view_login route_view_register)
qed

lemma app_navigate_total_witness:
  "''/Auth/Login/'' \<noteq> [] \<and> hd ''/Auth/Login/'' = CHR ''/'' \<and>
   app_navigate 2 ''/Auth/Login/'' = Some (''/login'', [Elem LoginPage])"
  using app_navigate_total [of "''/Auth/Login/''"] by (simp add: route_eval)

text \<open>Every entry of the main layout's and the admin layout's navigation menus renders its own page: the seven user pages, and the admin dashboard and the four admin placeholders.\<close>

theorem menus_resolve:
  "map (rendered_page \<circ> snd) mainlayout_navigation =
     map (Some \<circ> Elem) [HomePage, DashboardPage, EventsPage, ConnectPage, JobsPage, ResourcesPage,
       HallOfFamePage] \<and>
   map (rendered_page \<circ> snd) adminlayout_navigation =
     [Some (Elem AdminDashboardPage), Some (Placeholder ''Users Management''),
      Some (Placeholder ''Events Management''), Some (Placeholder ''Jobs Management''),
      Some (Placeholder ''Resources Management'')]"
  by (simp add: mainlayout_navigation_def adminlayout_navigation_def route_eval)

text \<open>C35: exactly these links of the mounted pages lead to the catch-all 404 page: About, Privacy, Terms and Contact of the landing page, the sign-up links of Home, the notifications link of the dashboard, Forgot password, Terms and Privacy of the login page, and the innovation-platform link of the Hall of Fame.\<close>

theorem dead_links:
  "filter (\<lambda>p. rendered_page p = Some (Elem NotFoundPage)) mounted_links =
     [''/about'', ''/about'', ''/privacy'', ''/terms'', ''/contact'', ''/signup'', ''/signup'',
      ''/notifications'', ''/forgot-password'', ''/terms'', ''/privacy'', ''/ideas-donations'']"
  by (simp add: mounted_links_def hero_links_def index_cta_links_def index_footer_links_def
      home_hero_links_def home_cta_links_def dashboard_links_def login_links_def
      register_links_def admin_register_links_def hall_of_fame_links_def layout_links_def mainlayout_navigation_def
      adminlayout_navigation_def route_eval)

end
