(* ===== verification/Dashboard.thy ===== *)
theory Dashboard
  imports Validation
begin

text \<open>
  The user dashboard, \<open>src/src/pages/Dashboard.tsx\<close>: its three fixtures,
  the notification list whose items fade in after \<open>index * 150\<close> ms
  (\<open>NotificationItem\<close>, a \<open>setTimeout\<close> per item), the upcoming-event cards
  with their date badge and RSVP button, and the four tabs.  The date badge is
  \<open>new Date(event.date).toLocaleDateString('en-US', {month: 'short', day:
  'numeric'})\<close> on a date-only ISO string: ECMAScript parses that form as UTC
  midnight, and formats in the local zone, so the badge depends on the
  offset of the local zone from UTC, a parameter \<open>off\<close> (milliseconds)
  of the model.
\<close>

record notification =
  id' :: js_id
  type' :: string
  message :: string
  time :: string

definition notifications :: "notification list" where
  "notifications =
     [\<lparr>id' = 1, type' = ''connection'', message = ''John Doe accepted your connection request'',
       time = ''2 hours ago''\<rparr>,
      \<lparr>id' = 2, type' = ''event'', message = ''New event: Tech Talk on AI and Ethics'', time = ''1 day ago''\<rparr>,
      \<lparr>id' = 3, type' = ''message'', message = ''You have a new message from Sarah Johnson'',
       time = ''2 days ago''\<rparr>]"

record dash_event =
  id' :: js_id
  title :: string
  date :: string
  time :: string
  location :: string
  attendees :: nat

text \<open>The page's own \<open>upcomingEvents\<close> array (named apart from the Events page's function of the same name).\<close>

definition upcomingEvents_dashboard :: "dash_event list" where
  "upcomingEvents_dashboard =
     [\<lparr>id' = 1, title = ''Alumni Networking Mixer'', date = ''2023-06-15'', time = ''6:00 PM - 8:00 PM'',
       location = ''Student Union Building'', attendees = 56\<rparr>,
      \<lparr>id' = 2, title = ''Career Workshop: Resume Building'', date = ''2023-06-20'',
       time = ''3:00 PM - 5:00 PM'', location = ''Virtual - Zoom'', attendees = 112\<rparr>]"

record connection =
  id' :: js_id
  name :: string
  role :: string
  avatar :: string

definition recentConnections :: "connection list" where
  "recentConnections =
     [\<lparr>id' = 1, name = ''Alex Chen'', role = ''Software Engineer at Google'', avatar = ''/placeholder.svg''\<rparr>,
      \<lparr>id' = 2, name = ''Maria Rodriguez'', role = ''Product Manager at Meta'', avatar = ''/placeholder.svg''\<rparr>,
      \<lparr>id' = 3, name = ''David Kim'', role = ''Data Scientist at Amazon'', avatar = ''/placeholder.svg''\<rparr>]"

subsection \<open>Notification items\<close>

datatype dash_icon = UsersIcon | CalendarIcon | MessageIcon

text \<open>The icon of an item: one of three \<open>type === ...\<close> tests, none for any other type.\<close>

definition notification_icon :: "string \<Rightarrow> dash_icon option" where
  "notification_icon t =
     (if t = ''connection'' then Some UsersIcon else if t = ''event'' then Some CalendarIcon
      else if t = ''message'' then Some MessageIcon else None)"

text \<open>\<open>isVisible\<close> of the item at position \<open>i\<close>, \<open>elapsed\<close> ms after it mounted: the timer of \<open>delay = i * 150\<close> has fired.\<close>

definition notification_visible :: "nat \<Rightarrow> nat \<Rightarrow> bool" where
  "notification_visible i elapsed = (i * 150 \<le> elapsed)"

subsection \<open>Dates\<close>

text \<open>\<open>Date.parse\<close> of the date-only form \<open>YYYY-MM-DD\<close> of the ECMAScript date time string format: UTC midnight of that day; an out-of-range month or day is \<open>NaN\<close> (\<open>None\<close>).\<close>

definition digits_nat :: "string \<Rightarrow> nat" where
  "digits_nat s = digits_value 10 (map digit_val s)"

definition js_parse_date_only :: "string \<Rightarrow> js_date option" where
  "js_parse_date_only s =
     (if length s = 10 \<and> s ! 4 = CHR ''-'' \<and> s ! 7 = CHR ''-'' \<and>
         list_all is_digit (take 4 s @ take 2 (drop 5 s) @ drop 8 s)
      then (let y = int (digits_nat (take 4 s)); m = int (digits_nat (take 2 (drop 5 s)));
                d = int (digits_nat (drop 8 s))
            in if 1 \<le> m \<and> m \<le> 12 \<and> 1 \<le> d \<and> d \<le> 31
               then Some (days_from_civil y m d * 86400000) else None)
      else None)"

text \<open>\<open>toLocaleDateString('en-US', {month: 'short', day: 'numeric'})\<close> in a zone \<open>off\<close> ms ahead of UTC.\<close>

definition toLocaleDateString_short :: "int \<Rightarrow> js_date \<Rightarrow> string" where
  "toLocaleDateString_short off t =
     (let (y, m, d) = civil_from_days ((t + off) div 86400000)
      in month_short ! nat (m - 1) @ '' '' @ js_int_toString d)"

definition event_date_label :: "int \<Rightarrow> dash_event \<Rightarrow> string" where
  "event_date_label off ev =
     (case js_parse_date_only (date ev) of
        Some t \<Rightarrow> toLocaleDateString_short off t
      | None \<Rightarrow> ''Invalid Date'')"

subsection \<open>The page\<close>

definition dashboard_handleRSVP :: "js_id \<Rightarrow> string \<Rightarrow> toast" where
  "dashboard_handleRSVP eventId eventTitle =
     mk_toast ''RSVP Confirmed'' (''You've successfully RSVP'd to '' @ eventTitle)"

datatype dashboard_tab = OverviewTab | EventsTab | ConnectionsTab | MessagesTab

record dashboard_page =
  activeTab :: dashboard_tab
  toasts :: "toast list"

definition dashboard_init :: dashboard_page where
  "dashboard_init = \<lparr>activeTab = OverviewTab, toasts = []\<rparr>"

datatype dashboard_event = SelectDashboardTab dashboard_tab | ClickDashRSVP dash_event

text \<open>The RSVP buttons are rendered on the Overview tab only, one per fixture event; the other tabs hold placeholders.\<close>

fun dashboard_step :: "dashboard_page \<Rightarrow> dashboard_event \<Rightarrow> dashboard_page" where
  "dashboard_step s (SelectDashboardTab t) = s\<lparr>activeTab := t\<rparr>"
| "dashboard_step s (ClickDashRSVP ev) =
     (if activeTab s = OverviewTab \<and> ev \<in> set upcomingEvents_dashboard
      then s\<lparr>toasts := toasts s @ [dashboard_handleRSVP (dash_event.id' ev) (title ev)]\<rparr> else s)"

text \<open>What the active tab shows.  Radix's \<open>TabsContent\<close> unmounts an inactive panel, so the notification items remount, and their fade-in timers restart, whenever the Overview tab is shown again: \<open>elapsed\<close> is the time since it was last shown.  The Overview panel holds the notification rows (message, time, icon, visible), the event cards (title, date badge, attendees), the connection cards (name, role), the network figures and the link targets; the other tabs hold a card with a title, a description and a text.\<close>

datatype dashboard_panel =
  OverviewPanel "(string \<times> string \<times> dash_icon option \<times> bool) list" "(string \<times> string \<times> nat) list"
    "(string \<times> string) list" "(string \<times> nat) list" "path list"
  | PlaceholderPanel string string string

definition network_stats :: "(string \<times> nat) list" where
  "network_stats = [(''Connections'', 145), (''Events Attended'', 12), (''Profile Views'', 78)]"

definition dashboard_render :: "int \<Rightarrow> nat \<Rightarrow> dashboard_page \<Rightarrow> dashboard_panel" where
  "dashboard_render off elapsed s =
     (case activeTab s of
        OverviewTab \<Rightarrow> OverviewPanel
          (map (\<lambda>(i, n). (notification.message n, notification.time n, notification_icon (type' n),
                           notification_visible i elapsed)) (enumerate 0 notifications))
          (map (\<lambda>ev. (title ev, event_date_label off ev, attendees ev)) upcomingEvents_dashboard)
          (map (\<lambda>c. (connection.name c, connection.role c)) recentConnections)
          network_stats
          [''/notifications'', ''/connect'', ''/events'', ''/connect'']
      | EventsTab \<Rightarrow> PlaceholderPanel ''Upcoming Events'' ''Events you might be interested in''
          ''Events content coming soon''
      | ConnectionsTab \<Rightarrow> PlaceholderPanel ''Your Connections'' ''People in your professional network''
          ''Connections content coming soon''
      | MessagesTab \<Rightarrow> PlaceholderPanel ''Messages'' ''Your conversations'' ''Messages content coming soon'')"

subsection \<open>Lemmas\<close>

lemma day_of_shift:
  fixes t off :: int
  assumes "t mod 86400000 = 0" and "-86400000 < off" and "off < 86400000"
  shows "(t + off) div 86400000 = (if off < 0 then t div 86400000 - 1 else t div 86400000)"
proof -
  have "(t + off) div 86400000 = t div 86400000 + off div 86400000"
    using assms(1) by (subst div_add1_eq) simp
  moreover have "off div 86400000 = (if off < 0 then -1 else 0)"
    using assms(2,3) by (auto simp: div_eq_minus1 div_pos_pos_trivial)
  ultimately show ?thesis by simp
qed

lemma toLocaleDateString_short_day:
  assumes "t mod 86400000 = 0" and "-86400000 < off" and "off < 86400000"
  shows "toLocaleDateString_short off t =
    (let (y, m, d) = civil_from_days (if off < 0 then t div 86400000 - 1 else t div 86400000)
     in month_short ! nat (m - 1) @ '' '' @ js_int_toString d)"
  unfolding toLocaleDateString_short_def day_of_shift [OF assms] ..

lemma upcoming_days:
  "civil_from_days 19522 = (2023, 6, 14)" "civil_from_days 19523 = (2023, 6, 15)"
  "civil_from_days 19527 = (2023, 6, 19)" "civil_from_days 19528 = (2023, 6, 20)"
  unfolding civil_from_days_def Let_def by simp_all

text \<open>C37: the date badge of an upcoming-event card depends on the local zone: for every offset west of UTC (such as the Americas) both cards show the day before the fixture date, Jun 14 and Jun 19 instead of Jun 15 and Jun 20; at UTC or east of it they show the fixture dates.\<close>

theorem dashboard_date_badges:
  assumes "-86400000 < off" and "off < 86400000"
  shows "map (event_date_label off) upcomingEvents_dashboard =
           (if off < 0 then [''Jun 14'', ''Jun 19''] else [''Jun 15'', ''Jun 20''])"
proof -
  have e: "map (event_date_label off) upcomingEvents_dashboard =
      [toLocaleDateString_short off 1686787200000, toLocaleDateString_short off 1687219200000]"
    by (simp add: upcomingEvents_dashboard_def event_date_label_def js_parse_date_only_def digits_nat_def js_simps)
  show ?thesis
    unfolding e using assms
    by (simp add: toLocaleDateString_short_day upcoming_days month_short_def js_simps)
qed

lemma dashboard_date_badges_witness:
  "-86400000 < (-14400000::int) \<and> (-14400000::int) < 86400000 \<and>
   map (event_date_label (-14400000)) upcomingEvents_dashboard = [''Jun 14'', ''Jun 19'']"
  using dashboard_date_badges [of "-14400000"] by simp

lemma notification_icons_total: "list_all (\<lambda>n. notification_icon (type' n) \<noteq> None) notifications"
  by (simp add: notifications_def notification_icon_def)

lemma notification_visible_mono: "notification_visible i e \<Longrightarrow> e \<le> e' \<Longrightarrow> notification_visible i e'"
  by (simp add: notification_visible_def)

lemma dashboard_rsvp_overview_only:
  "activeTab s \<noteq> OverviewTab \<Longrightarrow> dashboard_step s (ClickDashRSVP ev) = s"
  by simp

text \<open>The notifications fade in one after another, 150 ms apart, each time the Overview tab is shown; the event cards carry the date badges of \<open>event_date_label\<close>.\<close>

lemma dashboard_overview_render:
  "dashboard_render off e (s\<lparr>activeTab := OverviewTab\<rparr>) =
     OverviewPanel
       [(''John Doe accepted your connection request'', ''2 hours ago'', Some UsersIcon, True),
        (''New event: Tech Talk on AI and Ethics'', ''1 day ago'', Some CalendarIcon, 150 \<le> e),
        (''You have a new message from Sarah Johnson'', ''2 days ago'', Some MessageIcon, 300 \<le> e)]
       (map (\<lambda>ev. (title ev, event_date_label off ev, attendees ev)) upcomingEvents_dashboard)
       [(''Alex Chen'', ''Software Engineer at Google''), (''Maria Rodriguez'', ''Product Manager at Meta''),
        (''David Kim'', ''Data Scientist at Amazon'')]
       network_stats [''/notifications'', ''/connect'', ''/events'', ''/connect'']"
  by (simp add: dashboard_render_def notifications_def recentConnections_def notification_icon_def
      notification_visible_def)

lemma dashboard_other_tabs_placeholders:
  "(\<exists>t d m. dashboard_render off e s = PlaceholderPanel t d m \<and> suffix '' content coming soon'' m) \<longleftrightarrow>
   activeTab s \<noteq> OverviewTab"
  by (cases "activeTab s") (simp_all add: dashboard_render_def suffix_def)

end
