(* ===== verification/Layouts.thy ===== *)
theory Layouts
  imports Routes
begin

text \<open>
  The chrome around the pages: \<open>components/layout/Navbar.tsx\<close> (scroll
  shadow, theme toggle, mobile menu), and the two layouts the route table
  mounts, \<open>components/layout/MainLayout.tsx\<close> (mobile menu) and
  \<open>components/layout/AdminLayout.tsx\<close> (collapsible sidebar).  Each is a
  record of its \<open>useState\<close> values with a step function over the events
  that change them; the Navbar also holds whether the document element
  carries the class \<open>dark\<close>, which its theme effect and toggle write
  directly.  A menu item is highlighted when \<open>location.pathname === href\<close>.
  The admin layout is also placed on a screen whose width is above or below
  the \<open>lg\<close> breakpoint (\<open>admin_screen\<close>): its menu button is
  \<open>lg:hidden\<close>, so a click reaches it only on a narrow screen, and
  \<open>content_covered\<close> says the sidebar is on screen over unpadded content.
\<close>

subsection \<open>Navbar\<close>

record navbar =
  isScrolled :: bool
  isMenuOpen :: bool
  isDarkMode :: bool
  dom_dark :: bool
  pathname :: path

definition navigationItems :: "(string \<times> path) list" where
  "navigationItems =
     [(''Home'', ''/''), (''Dashboard'', ''/dashboard''), (''Events'', ''/events''),
      (''Connect'', ''/connect''), (''Job Board'', ''/jobs''), (''Resources'', ''/resources''),
      (''Hall of Fame'', ''/hall-of-fame''), (''Admin'', ''/admin'')]"

text \<open>The first render (all \<open>useState(false)\<close>) followed by the mount effects: the theme effect copies \<open>prefers-color-scheme: dark\<close> into \<open>isDarkMode\<close> and adds the class \<open>dark\<close> when it is set; it never removes the class.  \<open>d0\<close> is whether the document already carries the class.\<close>

definition navbar_mount :: "bool \<Rightarrow> bool \<Rightarrow> path \<Rightarrow> navbar" where
  "navbar_mount prefersDark d0 p =
     \<lparr>isScrolled = False, isMenuOpen = False, isDarkMode = prefersDark, dom_dark = (d0 \<or> prefersDark),
      pathname = p\<rparr>"

datatype navbar_event =
  WindowScroll int | ToggleTheme | ToggleMenu | CloseMenuLink | LocationChange path

text \<open>\<open>handleScroll\<close>, \<open>toggleTheme\<close> (state negated, class toggled), the menu button, a link's \<open>onClick\<close>, and the effect on \<open>location.pathname\<close>, which runs only when the path changes.\<close>

fun navbar_step :: "navbar \<Rightarrow> navbar_event \<Rightarrow> navbar" where
  "navbar_step s (WindowScroll y) = s\<lparr>isScrolled := (y > 10)\<rparr>"
| "navbar_step s ToggleTheme = s\<lparr>isDarkMode := \<not> isDarkMode s, dom_dark := \<not> dom_dark s\<rparr>"
| "navbar_step s ToggleMenu = s\<lparr>isMenuOpen := \<not> isMenuOpen s\<rparr>"
| "navbar_step s CloseMenuLink = s\<lparr>isMenuOpen := False\<rparr>"
| "navbar_step s (LocationChange p) =
     (if p = pathname s then s else s\<lparr>pathname := p, isMenuOpen := False\<rparr>)"

definition navbar_run :: "navbar \<Rightarrow> navbar_event list \<Rightarrow> navbar" where
  "navbar_run s es = fold (\<lambda>e s. navbar_step s e) es s"

definition navbar_active :: "navbar \<Rightarrow> (string \<times> path) list" where
  "navbar_active s = filter (\<lambda>item. pathname s = snd item) navigationItems"

datatype theme_icon = SunIcon | MoonIcon

datatype menu_icon = MenuIcon | CloseIcon

text \<open>What the Navbar renders from its state: the header style (scrolled or not), the desktop and mobile link lists with their highlight flags, the theme icon, the menu button's label and icon, and whether the always-rendered mobile panel is expanded.\<close>

record navbar_view =
  nv_scrolled :: bool
  nv_desktop :: "(string \<times> path \<times> bool) list"
  nv_theme_icon :: theme_icon
  nv_menu_label :: string
  nv_menu_icon :: menu_icon
  nv_mobile_expanded :: bool
  nv_mobile :: "(string \<times> path \<times> bool) list"

definition navbar_items_view :: "navbar \<Rightarrow> (string \<times> path \<times> bool) list" where
  "navbar_items_view s = map (\<lambda>(name, p). (name, p, pathname s = p)) navigationItems"

definition navbar_render :: "navbar \<Rightarrow> navbar_view" where
  "navbar_render s =
     \<lparr>nv_scrolled = isScrolled s, nv_desktop = navbar_items_view s,
      nv_theme_icon = (if isDarkMode s then SunIcon else MoonIcon),
      nv_menu_label = (if isMenuOpen s then ''Close menu'' else ''Open menu''),
      nv_menu_icon = (if isMenuOpen s then CloseIcon else MenuIcon),
      nv_mobile_expanded = isMenuOpen s, nv_mobile = navbar_items_view s\<rparr>"

text \<open>Every link target of the Navbar in document order: the logo, the desktop items, the desktop auth buttons, the mobile items and the mobile auth links (the mobile panel is collapsed by CSS, never unmounted).\<close>

definition navbar_links :: "path list" where
  "navbar_links =
     ''/'' # map snd navigationItems @ [''/auth/login'', ''/auth/signup''] @
     map snd navigationItems @ [''/auth/login'', ''/auth/signup'']"

subsection \<open>Main layout\<close>

record main_layout =
  ml_menu_open :: bool
  ml_pathname :: path

definition main_layout_init :: "path \<Rightarrow> main_layout" where
  "main_layout_init p = \<lparr>ml_menu_open = False, ml_pathname = p\<rparr>"

datatype main_layout_event = MLToggleMenu | MLClickMobileLink path | MLNavigate path

text \<open>A mobile link closes the menu and navigates; any other navigation (a desktop link, the browser's back button) leaves the menu as it was, since the layout has no effect on the path.\<close>

fun main_layout_step :: "main_layout \<Rightarrow> main_layout_event \<Rightarrow> main_layout" where
  "main_layout_step s MLToggleMenu = s\<lparr>ml_menu_open := \<not> ml_menu_open s\<rparr>"
| "main_layout_step s (MLClickMobileLink p) = s\<lparr>ml_menu_open := False, ml_pathname := p\<rparr>"
| "main_layout_step s (MLNavigate p) = s\<lparr>ml_pathname := p\<rparr>"

definition mainlayout_active :: "path \<Rightarrow> (string \<times> path) list" where
  "mainlayout_active p = filter (\<lambda>item. p = snd item) mainlayout_navigation"

text \<open>What \<open>MainLayout\<close> renders: the desktop links with \<open>isActive\<close>, the menu button's icon, the mobile panel only while the menu is open, and every link target in document order.\<close>

record main_layout_view =
  mlv_desktop :: "(string \<times> path \<times> bool) list"
  mlv_menu_icon :: menu_icon
  mlv_mobile :: "(string \<times> path \<times> bool) list option"
  mlv_links :: "path list"

definition mainlayout_render :: "main_layout \<Rightarrow> main_layout_view" where
  "mainlayout_render s =
     (let items = map (\<lambda>(name, href). (name, href, ml_pathname s = href)) mainlayout_navigation
      in \<lparr>mlv_desktop = items, mlv_menu_icon = (if ml_menu_open s then CloseIcon else MenuIcon),
          mlv_mobile = (if ml_menu_open s then Some items else None),
          mlv_links = ''/'' # map snd mainlayout_navigation @ [''/login'', ''/register''] @
            (if ml_menu_open s then map snd mainlayout_navigation @ [''/login'', ''/register''] else [])\<rparr>)"

subsection \<open>Admin layout\<close>

record admin_layout =
  sidebar_open :: bool
  al_pathname :: path

definition admin_layout_init :: "path \<Rightarrow> admin_layout" where
  "admin_layout_init p = \<lparr>sidebar_open = True, al_pathname = p\<rparr>"

datatype admin_layout_event = ToggleSidebar | ALNavigate path

fun admin_layout_step :: "admin_layout \<Rightarrow> admin_layout_event \<Rightarrow> admin_layout" where
  "admin_layout_step s ToggleSidebar = s\<lparr>sidebar_open := \<not> sidebar_open s\<rparr>"
| "admin_layout_step s (ALNavigate p) = s\<lparr>al_pathname := p\<rparr>"

definition adminlayout_active :: "path \<Rightarrow> (string \<times> path) list" where
  "adminlayout_active p = filter (\<lambda>item. p = snd item) adminlayout_navigation"

text \<open>What the admin layout renders on a viewport that is \<open>lg\<close> wide or not: the menu button exists only below \<open>lg\<close> (\<open>lg:hidden\<close>); the sidebar is on screen when open, and always from \<open>lg\<close> up (\<open>lg:translate-x-0\<close>); the content is padded by the sidebar's width only from \<open>lg\<close> up and only while \<open>isSidebarOpen\<close> (\<open>lg:pl-64\<close> versus \<open>lg:pl-0\<close>).\<close>

record admin_layout_view =
  alv_menu_button :: bool
  alv_sidebar_shown :: bool
  alv_content_padded :: bool
  alv_nav :: "(string \<times> path \<times> bool) list"
  alv_exit :: path

definition adminlayout_render :: "bool \<Rightarrow> admin_layout \<Rightarrow> admin_layout_view" where
  "adminlayout_render lg s =
     \<lparr>alv_menu_button = (\<not> lg), alv_sidebar_shown = (lg \<or> sidebar_open s),
      alv_content_padded = (lg \<and> sidebar_open s),
      alv_nav = map (\<lambda>(name, href). (name, href, al_pathname s = href)) adminlayout_navigation,
      alv_exit = ''/''\<rparr>"

text \<open>The admin layout on a screen: the viewport is \<open>lg\<close> wide or not and can be resized; a click on
  the menu button happens only where the button is rendered.  The content is covered when, on an
  \<open>lg\<close> viewport, the sidebar is on screen but the content is not padded beside it.\<close>

record admin_screen =
  as_layout :: admin_layout
  as_wide :: bool

definition admin_screen_init :: "path \<Rightarrow> bool \<Rightarrow> admin_screen" where
  "admin_screen_init p w = \<lparr>as_layout = admin_layout_init p, as_wide = w\<rparr>"

datatype admin_screen_event = ClickMenu | Resize bool | ClickNav path

fun admin_screen_step :: "admin_screen \<Rightarrow> admin_screen_event \<Rightarrow> admin_screen" where
  "admin_screen_step sc ClickMenu =
     (if alv_menu_button (adminlayout_render (as_wide sc) (as_layout sc))
      then sc\<lparr>as_layout := admin_layout_step (as_layout sc) ToggleSidebar\<rparr> else sc)"
| "admin_screen_step sc (Resize w) = sc\<lparr>as_wide := w\<rparr>"
| "admin_screen_step sc (ClickNav p) = sc\<lparr>as_layout := admin_layout_step (as_layout sc) (ALNavigate p)\<rparr>"

definition admin_screen_run :: "admin_screen \<Rightarrow> admin_screen_event list \<Rightarrow> admin_screen" where
  "admin_screen_run sc es = fold (\<lambda>e sc. admin_screen_step sc e) es sc"

definition content_covered :: "admin_screen \<Rightarrow> bool" where
  "content_covered sc =
     (as_wide sc \<and> alv_sidebar_shown (adminlayout_render (as_wide sc) (as_layout sc)) \<and>
      \<not> alv_content_padded (adminlayout_render (as_wide sc) (as_layout sc)))"

subsection \<open>Lemmas\<close>

lemma navbar_step_theme_sync:
  "(isDarkMode (navbar_step s e) = dom_dark (navbar_step s e)) = (isDarkMode s = dom_dark s)"
  by (cases e) auto

lemma navbar_run_theme_sync:
  "(isDarkMode (navbar_run s es) = dom_dark (navbar_run s es)) = (isDarkMode s = dom_dark s)"
  by (induction es arbitrary: s) (simp_all add: navbar_run_def navbar_step_theme_sync)

lemma theme_icon_eq: "((if a then SunIcon else MoonIcon) = (if b then SunIcon else MoonIcon)) = (a = b)"
  by auto

text \<open>C38: the theme icon the Navbar renders (sun for dark, moon for light) matches the page's actual theme, the class dark on the document element, after any sequence of scrolls, toggles and navigations exactly when it matched after mounting; it fails only when the document already carried the class and the user prefers a light scheme, and then every toggle keeps the icon the opposite of the theme.\<close>

theorem navbar_theme_sync:
  "(nv_theme_icon (navbar_render (navbar_run (navbar_mount prefersDark d0 p) es)) =
      (if dom_dark (navbar_run (navbar_mount prefersDark d0 p) es) then SunIcon else MoonIcon)) \<longleftrightarrow>
   (prefersDark \<or> \<not> d0)"
  unfolding navbar_render_def by (auto simp: theme_icon_eq navbar_run_theme_sync navbar_mount_def)

lemma navbar_location_closes_menu:
  "p \<noteq> pathname s \<Longrightarrow> \<not> isMenuOpen (navbar_step s (LocationChange p))"
  by simp

lemma main_layout_menu_survives_navigation:
  "ml_menu_open (main_layout_step s (MLNavigate p)) = ml_menu_open s"
  by simp

lemma highlight_case_sensitive:
  "rendered_page ''/JOBS'' = Some (Elem JobsPage) \<and> mainlayout_active ''/JOBS'' = [] \<and>
   rendered_page ''/'' = Some (Elem IndexPage) \<and> mainlayout_active ''/'' = []"
  by (simp add: route_eval mainlayout_active_def mainlayout_navigation_def)

lemma navbar_links_resolve:
  "list_all (\<lambda>p. rendered_page p \<notin> {None, Some (Elem NotFoundPage)}) navbar_links"
  by (simp add: navbar_links_def navigationItems_def route_eval)

lemma mainlayout_links_resolve:
  "\<forall>p \<in> set (mlv_links (mainlayout_render s)). rendered_page p \<notin> {None, Some (Elem NotFoundPage)}"
proof -
  have "list_all (\<lambda>p. rendered_page p \<notin> {None, Some (Elem NotFoundPage)})
          (''/'' # map snd mainlayout_navigation @ [''/login'', ''/register''])"
    by (simp add: mainlayout_navigation_def route_eval)
  then show ?thesis by (auto simp: mainlayout_render_def Let_def list_all_iff)
qed

lemma mainlayout_mobile_link_closes:
  "mlv_mobile (mainlayout_render (main_layout_step s (MLClickMobileLink p))) = None"
  by (simp add: mainlayout_render_def Let_def)

lemma admin_screen_step_covered:
  "content_covered sc \<Longrightarrow> e \<noteq> Resize False \<Longrightarrow> content_covered (admin_screen_step sc e)"
  by (cases e) (auto simp: content_covered_def adminlayout_render_def)

lemma admin_screen_run_covered:
  "content_covered sc \<Longrightarrow> Resize False \<notin> set es \<Longrightarrow> content_covered (admin_screen_run sc es)"
  by (induction es arbitrary: sc) (auto simp: admin_screen_run_def admin_screen_step_covered)



end
