(* ===== verification/ChatBot.thy ===== *)
theory ChatBot
  imports Complex_Main Prelude
begin

text \<open>
  The assistant widget \<open>src/src/components/ui/ChatBot.tsx\<close>.  Its state is
  \<open>isOpen\<close>, the input \<open>message\<close> and the transcript \<open>messages\<close>;
  \<open>handleSendMessage\<close> ignores a blank input, appends the user's message,
  clears the input and starts a 1000 ms timer whose callback appends a bot
  reply chosen by \<open>Math.floor(Math.random() * responses.length)\<close>.  The
  model counts the pending timers and makes each expiry an event carrying
  the value \<open>Math.random()\<close> returned, a number in \<open>[0, 1)\<close> (every double
  is a rational).  The callback uses a functional update, so replies are
  never lost; the user's append reads the transcript of the last render,
  which is the current one because every event re-renders before the next.
\<close>

datatype sender = User | Bot

record chat =
  isOpen :: bool
  message :: string
  messages :: "(sender \<times> string) list"
  pending :: nat

text \<open>The greeting's waving-hand emoji (U+1F44B) is written as its four UTF-8 bytes.\<close>

definition greeting :: string where
  "greeting = ''Hi there! '' @ [CHR 0xF0, CHR 0x9F, CHR 0x91, CHR 0x8B] @
     '' I'm your LinkCube assistant. How can I help you today?''"

definition responses :: "string list" where
  "responses =
     [''Thanks for your message! Our team will get back to you soon.'',
      ''That's a great question about LinkCube. We connect students and alumni through events and networking.'',
      ''You can find more resources in our Resources section.'',
      ''The best way to connect with alumni is through our Connect page.'',
      ''Thanks for your interest in LinkCube!'']"

definition chat_init :: chat where
  "chat_init = \<lparr>isOpen = False, message = [], messages = [(Bot, greeting)], pending = 0\<rparr>"

text \<open>\<open>Math.floor(r * responses.length)\<close>.\<close>

definition reply_index :: "rat \<Rightarrow> nat" where
  "reply_index r = nat \<lfloor>r * of_nat (length responses)\<rfloor>"

definition handleSendMessage :: "chat \<Rightarrow> chat" where
  "handleSendMessage s =
     (if js_trim (message s) = [] then s
      else s\<lparr>messages := messages s @ [(User, message s)], pending := Suc (pending s), message := []\<rparr>)"

datatype chat_event = OpenChat | CloseChat | TypeChat string | SendChat | ReplyTimer rat

text \<open>The input and the Send button exist only while the card is open; a timer fires whether or not the card is open, and \<open>Math.random()\<close> lies in \<open>[0, 1)\<close>.\<close>

fun chat_step :: "chat \<Rightarrow> chat_event \<Rightarrow> chat" where
  "chat_step s OpenChat = s\<lparr>isOpen := True\<rparr>"
| "chat_step s CloseChat = s\<lparr>isOpen := False\<rparr>"
| "chat_step s (TypeChat v) = (if isOpen s then s\<lparr>message := v\<rparr> else s)"
| "chat_step s SendChat = (if isOpen s then handleSendMessage s else s)"
| "chat_step s (ReplyTimer r) =
     (if 0 < pending s \<and> 0 \<le> r \<and> r < 1
      then s\<lparr>messages := messages s @ [(Bot, responses ! reply_index r)], pending := pending s - 1\<rparr>
      else s)"

inductive chat_reach :: "chat \<Rightarrow> bool" where
  chat_reach_init: "chat_reach chat_init"
| chat_reach_step: "chat_reach s \<Longrightarrow> chat_reach (chat_step s e)"

definition count_sender :: "sender \<Rightarrow> chat \<Rightarrow> nat" where
  "count_sender w s = length (filter (\<lambda>m. fst m = w) (messages s))"

definition chat_inv :: "chat \<Rightarrow> bool" where
  "chat_inv s =
     (messages s \<noteq> [] \<and> hd (messages s) = (Bot, greeting) \<and>
      count_sender Bot s + pending s = Suc (count_sender User s) \<and>
      list_all (\<lambda>m. fst m = User \<longrightarrow> js_trim (snd m) \<noteq> []) (messages s) \<and>
      list_all (\<lambda>m. fst m = Bot \<longrightarrow> snd m \<in> set (greeting # responses)) (messages s))"

subsection \<open>Lemmas\<close>

lemma reply_index_bound:
  assumes "0 \<le> r" and "r < 1"
  shows "reply_index r < length responses"
proof -
  have "r * 5 < 5" using assms(2) by simp
  then have "\<lfloor>r * 5\<rfloor> < 5" by (simp add: floor_less_iff)
  moreover have "0 \<le> \<lfloor>r * 5\<rfloor>" using assms(1) by simp
  ultimately show ?thesis by (simp add: reply_index_def responses_def nat_less_iff)
qed

lemma chat_inv_init: "chat_inv chat_init"
  by (simp add: chat_inv_def chat_init_def count_sender_def greeting_def responses_def)

lemma chat_inv_step:
  assumes "chat_inv s"
  shows "chat_inv (chat_step s e)"
proof (cases e)
  case SendChat
  then show ?thesis using assms
    by (auto simp: chat_inv_def handleSendMessage_def count_sender_def)
next
  case (ReplyTimer r)
  then show ?thesis using assms reply_index_bound [of r]
    by (auto simp: chat_inv_def count_sender_def)
qed (use assms in \<open>auto simp: chat_inv_def count_sender_def\<close>)

lemma chat_reach_inv: "chat_reach s \<Longrightarrow> chat_inv s"
  by (induction rule: chat_reach.induct) (simp_all add: chat_inv_init chat_inv_step)

text \<open>C39: in every reachable state of the widget the transcript starts with the greeting, every bot message is the greeting or one of the five canned responses (the random index stays below five), no user message is blank, and the bot messages plus the pending replies are one more than the user messages, so every message sent is answered exactly once, even if the card is closed meanwhile.\<close>

theorem chat_reach_safe:
  assumes "chat_reach s"
  shows "hd (messages s) = (Bot, greeting) \<and>
         count_sender Bot s + pending s = Suc (count_sender User s) \<and>
         (\<forall>m \<in> set (messages s). fst m = User \<longrightarrow> js_trim (snd m) \<noteq> []) \<and>
         (\<forall>m \<in> set (messages s). fst m = Bot \<longrightarrow> snd m \<in> set (greeting # responses))"
  using chat_reach_inv [OF assms] by (simp add: chat_inv_def list_all_iff)

lemma chat_reach_example:
  "chat_reach (chat_step (chat_step (chat_step (chat_step chat_init OpenChat) (TypeChat ''hello''))
     SendChat) (ReplyTimer (1/2)))"
  by (intro chat_reach.intros)

lemma chat_reach_safe_witness:
  "chat_reach (chat_step (chat_step (chat_step (chat_step chat_init OpenChat) (TypeChat ''hello''))
     SendChat) (ReplyTimer (1/2))) \<and>
   messages (chat_step (chat_step (chat_step (chat_step chat_init OpenChat) (TypeChat ''hello''))
     SendChat) (ReplyTimer (1/2))) = [(Bot, greeting), (User, ''hello''), (Bot, responses ! 2)]"
proof -
  have f: "\<lfloor>(5 / 2 :: rat)\<rfloor> = 2" by (rule floor_unique) simp_all
  have m: "messages (chat_step (chat_step (chat_step (chat_step chat_init OpenChat) (TypeChat ''hello''))
     SendChat) (ReplyTimer (1/2))) = [(Bot, greeting), (User, ''hello''), (Bot, responses ! 2)]"
    by (simp add: chat_init_def handleSendMessage_def js_trim_def js_is_space_def reply_index_def
        responses_def f)
  show ?thesis using chat_reach_safe [OF chat_reach_example] chat_reach_example m by simp
qed

end
