(* ===== verification/HallOfFame.thy ===== *)
theory HallOfFame
  imports Validation
begin

text \<open>
  The Hall of Fame: the fixtures of \<open>src/src/data/hall-of-fame-data.ts\<close>,
  the page \<open>src/src/pages/HallOfFame.tsx\<close> with its three tabs, and the
  leaderboards \<open>components/hall-of-fame/TopContributors.tsx\<close> and
  \<open>TopInnovators.tsx\<close>, which number their rows \<open>index + 1\<close> in list order
  and colour the contributors' avatars gold, silver and bronze by index.
  The rank shown is therefore the rank by points (\<open>points_rank\<close>) exactly
  when the data arrive sorted by strictly descending points, as the
  fixtures are; the lemmas prove both directions.  The views give what
  each row and each tab renders, with \<open>RecentAchievements.tsx\<close>.
\<close>

record contributor =
  id' :: js_id
  name :: string
  role :: string
  contributions :: string
  avatar :: string
  badge :: string
  points :: nat

datatype achievement_icon = UsersIcon | GiftIcon | HeartIcon | ThumbsUpIcon

record achievement =
  id' :: js_id
  name :: string
  achievement :: string
  date :: string
  icon :: achievement_icon

record innovator =
  id' :: js_id
  name :: string
  innovation :: string
  impact :: string
  badge :: string
  avatar :: string
  points :: nat

definition topContributors :: "contributor list" where
  "topContributors =
     [\<lparr>contributor.id' = 1, contributor.name = ''Sarah Johnson'', contributor.role = ''Class of 2018'',
       contributor.contributions = ''Donated $50,000 to Scholarship Fund'', contributor.avatar = ''SJ'', contributor.badge = ''Platinum Donor'',
       contributor.points = 5280\<rparr>,
      \<lparr>contributor.id' = 2, contributor.name = ''Michael Chen'', contributor.role = ''Class of 2010'',
       contributor.contributions = ''Mentored 32 students, Organized 8 events'', contributor.avatar = ''MC'', contributor.badge = ''Master Mentor'',
       contributor.points = 4875\<rparr>,
      \<lparr>contributor.id' = 3, contributor.name = ''Priya Patel'', contributor.role = ''Class of 2015'',
       contributor.contributions = ''Created the Alumni Tech Workshop Series'', contributor.avatar = ''PP'',
       contributor.badge = ''Innovation Champion'', contributor.points = 4690\<rparr>]"

definition createRecentAchievements :: "achievement list" where
  "createRecentAchievements =
     [\<lparr>achievement.id' = 1, achievement.name = ''David Lee'', achievement.achievement = ''Launched career mentorship platform'',
       achievement.date = ''Last week'', achievement.icon = UsersIcon\<rparr>,
      \<lparr>achievement.id' = 2, achievement.name = ''Emma Wilson'', achievement.achievement = ''Funded 5 student scholarships'',
       achievement.date = ''2 weeks ago'', achievement.icon = GiftIcon\<rparr>,
      \<lparr>achievement.id' = 3, achievement.name = ''James Garcia'', achievement.achievement = ''Organized virtual alumni reunion'',
       achievement.date = ''Last month'', achievement.icon = HeartIcon\<rparr>,
      \<lparr>achievement.id' = 4, achievement.name = ''Olivia Taylor'', achievement.achievement = ''Created student internship program'',
       achievement.date = ''Last month'', achievement.icon = ThumbsUpIcon\<rparr>]"

definition topInnovators :: "innovator list" where
  "topInnovators =
     [\<lparr>innovator.id' = 1, innovator.name = ''Robert Zhang'', innovator.innovation = ''AI Mentorship Matching Algorithm'',
       innovator.impact = ''Increased successful mentorships by 65%'', innovator.badge = ''Tech Innovator'', innovator.avatar = ''RZ'',
       innovator.points = 4320\<rparr>,
      \<lparr>innovator.id' = 2, innovator.name = ''Aisha Karim'', innovator.innovation = ''Alumni Networking Mobile App'',
       innovator.impact = ''Connected over 5,000 alumni and students'', innovator.badge = ''Digital Pioneer'', innovator.avatar = ''AK'',
       innovator.points = 3950\<rparr>,
      \<lparr>innovator.id' = 3, innovator.name = ''Carlos Mendez'', innovator.innovation = ''Virtual Career Fair Platform'',
       innovator.impact = ''Facilitated 1,200+ job placements'', innovator.badge = ''Career Catalyst'', innovator.avatar = ''CM'',
       innovator.points = 3780\<rparr>]"

subsection \<open>The leaderboards\<close>

datatype medal = GoldMedal | SilverMedal | BronzeMedal

text \<open>\<open>index === 0 ? 'bg-amber-500' : index === 1 ? 'bg-gray-300' : 'bg-amber-700'\<close>.\<close>

definition medal_class :: "nat \<Rightarrow> medal" where
  "medal_class index = (if index = 0 then GoldMedal else if index = 1 then SilverMedal else BronzeMedal)"

text \<open>The rows of \<open>TopContributorsTab\<close>: shown rank \<open>index + 1\<close>, avatar colour, record.\<close>

definition contributor_rows :: "contributor list \<Rightarrow> (nat \<times> medal \<times> contributor) list" where
  "contributor_rows contributors =
     map (\<lambda>(index, c). (index + 1, medal_class index, c)) (zip [0..<length contributors] contributors)"

definition innovator_rows :: "innovator list \<Rightarrow> (nat \<times> innovator) list" where
  "innovator_rows innovators = map (\<lambda>(index, c). (index + 1, c)) (zip [0..<length innovators] innovators)"

text \<open>What a leaderboard row shows beside its rank: the avatar initials, the name, the lines under
  it (a contributor's role and contributions, an innovator's innovation and impact), the points
  badge \<open>{points} pts\<close> and the achievement badge.\<close>

record leader_row =
  lr_rank :: nat
  lr_avatar :: string
  lr_name :: string
  lr_lines :: "string list"
  lr_points :: string
  lr_badge :: string

definition contributor_view :: "contributor list \<Rightarrow> leader_row list" where
  "contributor_view contributors =
     map (\<lambda>(rank, medal, c).
            \<lparr>lr_rank = rank, lr_avatar = contributor.avatar c, lr_name = contributor.name c,
             lr_lines = [contributor.role c, contributor.contributions c],
             lr_points = nat_digits (contributor.points c) @ '' pts'', lr_badge = contributor.badge c\<rparr>)
       (contributor_rows contributors)"

definition innovator_view :: "innovator list \<Rightarrow> leader_row list" where
  "innovator_view innovators =
     map (\<lambda>(rank, c).
            \<lparr>lr_rank = rank, lr_avatar = innovator.avatar c, lr_name = innovator.name c,
             lr_lines = [innovator.innovation c, innovator.impact c],
             lr_points = nat_digits (innovator.points c) @ '' pts'', lr_badge = innovator.badge c\<rparr>)
       (innovator_rows innovators)"

text \<open>The fixed footers of the two leaderboards: the four gamification elements under the
  contributors, and the link to the innovation platform under the innovators.\<close>

definition gamification_elements :: "string list" where
  "gamification_elements = [''Earn Badges'', ''Climb Leaderboards'', ''Complete Missions'', ''Unlock Rewards'']"

datatype hall_tab = LeaderboardTab | AchievementsTab | InnovatorsTab

definition hall_init :: hall_tab where
  "hall_init = LeaderboardTab"

text \<open>The rank a score earns: one more than the number of strictly higher scores.\<close>

definition points_rank :: "nat list \<Rightarrow> nat \<Rightarrow> nat" where
  "points_rank ps p = Suc (length (filter (\<lambda>q. p < q) ps))"

subsection \<open>Recent achievements and the page\<close>

text \<open>The rows of \<open>RecentAchievementsTab\<close>, keyed by \<open>achievement.id\<close>: icon, name, date and text.\<close>

record achievement_row =
  ar_key :: js_id
  ar_icon :: achievement_icon
  ar_name :: string
  ar_date :: string
  ar_text :: string

definition achievement_rows :: "achievement list \<Rightarrow> achievement_row list" where
  "achievement_rows achievements =
     map (\<lambda>a. \<lparr>ar_key = achievement.id' a, ar_icon = achievement.icon a, ar_name = achievement.name a,
                ar_date = achievement.date a, ar_text = achievement.achievement a\<rparr>) achievements"

text \<open>The fixed grid of recognition categories below the list: icon, title, description.\<close>

datatype category_icon = CategoryUsers | CategoryGift | CategoryLightbulb | CategoryCalendar

definition recognition_categories :: "(category_icon \<times> string \<times> string) list" where
  "recognition_categories =
     [(CategoryUsers, ''Mentorship Excellence'', ''Recognized for exceptional guidance and support to students''),
      (CategoryGift, ''Philanthropic Impact'', ''Honored for significant donations and financial support''),
      (CategoryLightbulb, ''Innovation & Ideas'', ''Celebrated for creative solutions and innovative thinking''),
      (CategoryCalendar, ''Event Organization'', ''Recognized for coordinating impactful community events'')]"

text \<open>The panel a tab shows, and the React keys of its list (\<open>contributor.id\<close>, \<open>achievement.id\<close>,
  \<open>innovator.id\<close>).\<close>

datatype hall_panel =
  ContributorsPanel "(nat \<times> medal \<times> contributor) list"
  | AchievementsPanel "achievement_row list" "(category_icon \<times> string \<times> string) list"
  | InnovatorsPanel "(nat \<times> innovator) list"

primrec hall_panel_keys :: "hall_panel \<Rightarrow> js_id list" where
  "hall_panel_keys (ContributorsPanel rs) = map (contributor.id' \<circ> snd \<circ> snd) rs"
| "hall_panel_keys (AchievementsPanel rs cats) = map ar_key rs"
| "hall_panel_keys (InnovatorsPanel rs) = map (innovator.id' \<circ> snd) rs"

text \<open>\<open>HallOfFame\<close>: the \<open>Tabs\<close> (uncontrolled, \<open>defaultValue="leaderboard"\<close>) show the content of
  the selected trigger, each fed its fixture; \<open>createRecentAchievements()\<close> runs on every render
  and returns the same list.\<close>

definition hall_view :: "hall_tab \<Rightarrow> hall_panel" where
  "hall_view tab =
     (case tab of
        LeaderboardTab \<Rightarrow> ContributorsPanel (contributor_rows topContributors)
      | AchievementsTab \<Rightarrow> AchievementsPanel (achievement_rows createRecentAchievements) recognition_categories
      | InnovatorsTab \<Rightarrow> InnovatorsPanel (innovator_rows topInnovators))"

subsection \<open>Lemmas\<close>

lemma rank_of_descending:
  assumes "sorted_wrt (>) (map f xs)"
  shows "map (points_rank (map f xs) \<circ> f) xs = [1..<Suc (length xs)]"
  using assms
proof (induction xs)
  case Nil then show ?case by simp
next
  case (Cons x xs)
  have gt: "\<forall>y \<in> set xs. f y < f x" and s: "sorted_wrt (>) (map f xs)"
    using Cons.prems by (simp_all add: sorted_wrt_map)
  have x: "points_rank (map f (x # xs)) (f x) = 1"
    using gt by (auto simp: points_rank_def filter_empty_conv)
  have r: "map (points_rank (map f (x # xs)) \<circ> f) xs = map (Suc \<circ> (points_rank (map f xs) \<circ> f)) xs"
  proof (rule map_cong [OF refl])
    fix y assume "y \<in> set xs"
    then have "f y < f x" using gt by blast
    then show "(points_rank (map f (x # xs)) \<circ> f) y = (Suc \<circ> (points_rank (map f xs) \<circ> f)) y"
      by (simp add: points_rank_def)
  qed
  have "map (Suc \<circ> (points_rank (map f xs) \<circ> f)) xs = map Suc [1..<Suc (length xs)]"
    using Cons.IH [OF s] by (metis map_map)
  then show ?case using x r by (simp add: map_Suc_upt upt_conv_Cons comp_def del: upt_Suc)
qed

lemma contributor_rows_fst: "map fst (contributor_rows cs) = [1..<Suc (length cs)]"
proof -
  have e: "fst \<circ> (\<lambda>(index, c). (index + 1, medal_class index, c)) = Suc \<circ> (fst :: nat \<times> contributor \<Rightarrow> nat)"
    by (auto simp: fun_eq_iff)
  have "map fst (contributor_rows cs) = map Suc (map fst (zip [0..<length cs] cs))"
    unfolding contributor_rows_def map_map e ..
  then show ?thesis by (simp add: map_Suc_upt)
qed

lemma length_filter_imp: "(\<And>x. P x \<Longrightarrow> Q x) \<Longrightarrow> length (filter P xs) \<le> length (filter Q xs)"
  by (induction xs) auto

lemma points_rank_antimono: "p \<le> q \<Longrightarrow> points_rank ps q \<le> points_rank ps p"
  unfolding points_rank_def by (simp add: length_filter_imp)

text \<open>Conversely, numbering rows \<open>1, 2, \<dots>\<close> gives every row its rank by points only if the list is
  strictly descending: a row whose score is not below an earlier row's has at most that row's rank.\<close>

lemma rank_display_sorted:
  assumes "map (points_rank (map f xs) \<circ> f) xs = [1..<Suc (length xs)]"
  shows "sorted_wrt (>) (map f xs)"
proof -
  let ?ps = "map f xs"
  have r: "points_rank ?ps (?ps ! i) = Suc i" if "i < length xs" for i
    using arg_cong [where f = "\<lambda>l. l ! i", OF assms] that by (simp del: upt_Suc)
  show ?thesis
  proof (subst sorted_wrt_iff_nth_less, intro allI impI)
    fix i j assume ij: "i < j" "j < length ?ps"
    show "?ps ! j < ?ps ! i"
    proof (rule ccontr)
      assume "\<not> ?ps ! j < ?ps ! i"
      then have "points_rank ?ps (?ps ! j) \<le> points_rank ?ps (?ps ! i)"
        by (simp add: points_rank_antimono)
      then show False using r ij by simp
    qed
  qed
qed



lemma innovators_ranked_by_points:
  "map fst (innovator_rows topInnovators) =
     map (points_rank (map innovator.points topInnovators) \<circ> innovator.points) topInnovators"
  by (simp add: innovator_rows_def topInnovators_def points_rank_def upt_rec)

lemma contributor_medals: "map (fst \<circ> snd) (contributor_rows topContributors) = [GoldMedal, SilverMedal, BronzeMedal]"
  by (simp add: contributor_rows_def topContributors_def medal_class_def upt_rec)

text \<open>The rows of every list carry its records unchanged and in order, so a tab shows each record
  of its fixture exactly once.\<close>

lemma contributor_rows_records: "map (snd \<circ> snd) (contributor_rows cs) = cs"
  by (simp add: contributor_rows_def map_zip_map2 comp_def zip_map_fst_snd split_def)

lemma innovator_rows_records: "map snd (innovator_rows cs) = cs"
  by (simp add: innovator_rows_def comp_def split_def)

lemma hall_panel_keys_view:
  "hall_panel_keys (hall_view t) =
     (case t of LeaderboardTab \<Rightarrow> map contributor.id' topContributors
      | AchievementsTab \<Rightarrow> map achievement.id' createRecentAchievements
      | InnovatorsTab \<Rightarrow> map innovator.id' topInnovators)"
proof -
  have c: "map (contributor.id' \<circ> snd \<circ> snd) (contributor_rows topContributors) = map contributor.id' topContributors"
    using contributor_rows_records [of topContributors] by (metis comp_assoc map_map)
  have i: "map (innovator.id' \<circ> snd) (innovator_rows topInnovators) = map innovator.id' topInnovators"
    using innovator_rows_records [of topInnovators] by (metis map_map)
  show ?thesis
    by (cases t) (simp_all add: hall_view_def c [unfolded comp_def] i [unfolded comp_def] achievement_rows_def comp_def)
qed

text \<open>Every tab renders its list with distinct React keys.\<close>

lemma hall_keys_distinct: "distinct (hall_panel_keys (hall_view t))"
  by (cases t) (simp_all add: hall_panel_keys_view topContributors_def createRecentAchievements_def
      topInnovators_def)

lemma hall_achievements_shown:
  "hall_view AchievementsTab =
     AchievementsPanel (achievement_rows createRecentAchievements) recognition_categories \<and>
   map ar_name (achievement_rows createRecentAchievements) =
     [''David Lee'', ''Emma Wilson'', ''James Garcia'', ''Olivia Taylor''] \<and>
   length recognition_categories = 4"
  by (simp add: hall_view_def achievement_rows_def createRecentAchievements_def recognition_categories_def)

text \<open>Each leaderboard's points badge parses back, with \<open>parseInt\<close>, to the points of its row's
  record, and its rank column reads 1, 2, 3, \<open>\<dots>\<close>.\<close>

lemma contributor_view_points:
  "map (js_parseInt \<circ> lr_points) (contributor_view cs) = map (Some \<circ> int \<circ> contributor.points) cs \<and>
   map lr_rank (contributor_view cs) = [1..<Suc (length cs)]"
proof -
  have "map (js_parseInt \<circ> lr_points) (contributor_view cs) =
          map (Some \<circ> int \<circ> contributor.points) (map (snd \<circ> snd) (contributor_rows cs))"
    by (simp add: contributor_view_def split_def js_parseInt_nat_digits_suffix is_digit_def)
  moreover have "map lr_rank (contributor_view cs) = map fst (contributor_rows cs)"
    by (simp add: contributor_view_def split_def)
  ultimately show ?thesis by (simp add: contributor_rows_records contributor_rows_fst)
qed

lemma innovator_view_points:
  "map (js_parseInt \<circ> lr_points) (innovator_view cs) = map (Some \<circ> int \<circ> innovator.points) cs"
proof -
  have "map (js_parseInt \<circ> lr_points) (innovator_view cs) =
          map (Some \<circ> int \<circ> innovator.points) (map snd (innovator_rows cs))"
    by (simp add: innovator_view_def split_def js_parseInt_nat_digits_suffix is_digit_def)
  then show ?thesis by (simp add: innovator_rows_records)
qed

end
