(* ===== verification/Features.thy ===== *)
theory Features
  imports Prelude
begin

text \<open>
  The marketing sections with state: the tabbed feature showcase
  \<open>src/src/components/home/Features.tsx\<close> (eight features; a Radix tab
  trigger per feature sets \<open>activeTab\<close>, and the content panel of a feature
  is shown when its id equals \<open>activeTab\<close>), and the fade-in cards of
  \<open>src/src/pages/Home.tsx\<close>: a \<open>FeatureCard\<close> observes itself with an
  \<open>IntersectionObserver\<close>, and on the first intersection disconnects the
  observer and starts a timer of \<open>delay\<close> ms after which it becomes visible.
\<close>

subsection \<open>The feature tabs\<close>

datatype feature_icon =
  UsersIcon | CalendarIcon | BriefcaseIcon | AwardIcon | BookOpenIcon | BrainCircuitIcon
  | MessageCircleIcon | HandCoinsIcon

record feature =
  id' :: string
  title :: string
  description :: string
  icon :: feature_icon
  details :: "string list"

definition featuresList :: "feature list" where
  "featuresList =
     [
      \<lparr>id' = ''connect'', title = ''AI-Powered Connections'',
       description = ''Connect with alumni and students based on shared interests, skills, and career goals.'',
       icon = UsersIcon,
       details =
        [''Intelligent matching algorithms connect you with relevant professionals'',
         ''Filter connections by industry, graduation year, or interests'',
         ''Build your professional network through personalized recommendations'',
         ''Stay connected with your alma mater and fellow graduates'']\<rparr>,
      \<lparr>id' = ''events'', title = ''Personalized Events'',
       description = ''Discover and participate in events tailored to your interests and career stage.'',
       icon = CalendarIcon,
       details =
        [''Receive notifications for events relevant to your field'',
         ''Seamless RSVP process with calendar synchronization'',
         ''Virtual and in-person networking opportunities'',
         ''Track participation and stay engaged with your community'']\<rparr>,
      \<lparr>id' = ''jobs'', title = ''NLP-Powered Job Matching'',
       description = ''Find the perfect career opportunities through our advanced job matching system.'',
       icon = BriefcaseIcon,
       details =
        [''AI analysis of your skills and experience for precise job matching'',
         ''Personalized job recommendations based on your career goals'',
         ''Direct connections with alumni hiring at top companies'',
         ''Career advancement opportunities specifically for alumni'']\<rparr>,
      \<lparr>id' = ''mentoring'', title = ''Mentorship Programs'',
       description = ''Give back to your community by mentoring students or find a mentor to guide your career.'',
       icon = AwardIcon,
       details =
        [''Connect with experienced professionals in your field'',
         ''Structured mentorship programs with clear objectives'',
         ''Track your mentorship journey and celebrate milestones'',
         ''Build meaningful relationships that advance your career'']\<rparr>,
      \<lparr>id' = ''resources'', title = ''Exclusive Resources'',
       description = ''Access a wealth of resources including workshops, articles, and learning opportunities.'',
       icon = BookOpenIcon,
       details =
        [''Curated content specific to your industry and interests'',
         ''Workshops and webinars led by industry experts'',
         ''Continuous learning opportunities to advance your skills'',
         ''Exclusive alumni resources and benefits'']\<rparr>,
      \<lparr>id' = ''ai'', title = ''AI Recommendations'',
       description = ''Receive personalized recommendations for events, connections, and opportunities.'',
       icon = BrainCircuitIcon,
       details =
        [''Smart content curation based on your profile and activity'',
         ''Discover relevant opportunities you might have missed'',
         ''Continuously improving recommendations based on your feedback'',
         ''Stay updated with the most relevant information for your career'']\<rparr>,
      \<lparr>id' = ''community'', title = ''Community Engagement'',
       description = ''Participate in discussions, forums, and collaborative initiatives with your community.'',
       icon = MessageCircleIcon,
       details =
        [''Engage in topic-specific discussion groups'',
         ''Share insights and experiences with peers'',
         ''Collaborate on initiatives that benefit your alma mater'',
         ''Build a supportive community of like-minded professionals'']\<rparr>,
      \<lparr>id' = ''donations'', title = ''Transparent Donations'',
       description = ''Contribute to your institution with full transparency and track the impact of your donations.'',
       icon = HandCoinsIcon,
       details =
        [''Blockchain-based donation tracking for complete transparency'',
         ''Choose specific initiatives and projects to support'',
         ''See the real-time impact of your contributions'',
         ''Connect with others who share your philanthropic interests'']\<rparr>]"

record features_state =
  activeTab :: string

definition features_init :: features_state where
  "features_init = \<lparr>activeTab = ''connect''\<rparr>"

text \<open>A click on the trigger of a feature; only the rendered triggers, one per feature, can be clicked.\<close>

definition features_step :: "features_state \<Rightarrow> feature \<Rightarrow> features_state" where
  "features_step s f = (if f \<in> set featuresList then s\<lparr>activeTab := id' f\<rparr> else s)"

definition features_run :: "features_state \<Rightarrow> feature list \<Rightarrow> features_state" where
  "features_run s fs = fold (\<lambda>f s. features_step s f) fs s"

text \<open>The \<open>TabsContent\<close> panels shown: those whose value is the active tab.\<close>

definition features_panels :: "features_state \<Rightarrow> feature list" where
  "features_panels s = filter (\<lambda>f. id' f = activeTab s) featuresList"

subsection \<open>The fade-in cards of the home page\<close>

record home_card =
  card_title :: string
  card_description :: string
  card_delay :: nat

definition home_feature_cards :: "home_card list" where
  "home_feature_cards =
     [\<lparr>card_title = ''Connect'', card_description = ''Network with alumni and students in your field of interest'',
       card_delay = 100\<rparr>,
      \<lparr>card_title = ''Learn'', card_description = ''Access exclusive resources and mentorship opportunities'',
       card_delay = 200\<rparr>,
      \<lparr>card_title = ''Grow'', card_description = ''Discover job opportunities through AI-powered recommendations'',
       card_delay = 300\<rparr>,
      \<lparr>card_title = ''Give Back'', card_description = ''Contribute to your institution's growth and legacy'',
       card_delay = 400\<rparr>]"

record card_state =
  isVisible :: bool
  observing :: bool
  timer_armed :: bool
  mounted :: bool

text \<open>After the first render and the effect: the observer watches the card.\<close>

definition card_init :: card_state where
  "card_init = \<lparr>isVisible = False, observing = True, timer_armed = False, mounted = True\<rparr>"

datatype card_event = Intersection bool | DelayElapsed | Unmount

text \<open>The observer callback acts on an intersecting entry only; the timer is never cleared, so it still fires after unmounting, when \<open>setIsVisible\<close> has no effect; the cleanup disconnects the observer.\<close>

fun card_step :: "card_state \<Rightarrow> card_event \<Rightarrow> card_state" where
  "card_step s (Intersection b) =
     (if observing s \<and> b then s\<lparr>timer_armed := True, observing := False\<rparr> else s)"
| "card_step s DelayElapsed =
     (if timer_armed s then s\<lparr>timer_armed := False, isVisible := (isVisible s \<or> mounted s)\<rparr> else s)"
| "card_step s Unmount = s\<lparr>mounted := False, observing := False\<rparr>"

definition card_run :: "card_state \<Rightarrow> card_event list \<Rightarrow> card_state" where
  "card_run s es = fold (\<lambda>e s. card_step s e) es s"

subsection \<open>Lemmas\<close>

lemma featuresList_ids: "map id' featuresList =
  [''connect'', ''events'', ''jobs'', ''mentoring'', ''resources'', ''ai'', ''community'', ''donations'']"
  by (simp add: featuresList_def)

lemma features_tab_valid_run:
  "activeTab s \<in> id' ` set featuresList \<Longrightarrow> activeTab (features_run s fs) \<in> id' ` set featuresList"
  by (induction fs arbitrary: s) (auto simp: features_run_def features_step_def)

lemma features_one_panel:
  assumes "activeTab s \<in> id' ` set featuresList"
  shows "length (features_panels s) = 1"
proof -
  have d: "distinct (map id' featuresList)" by (simp add: featuresList_ids)
  obtain f where f: "f \<in> set featuresList" "activeTab s = id' f" using assms by blast
  have "filter (\<lambda>g. id' g = id' f) featuresList = [f]"
    using filter_key_member [OF d f(1)] .
  then show ?thesis by (simp add: features_panels_def f(2))
qed

text \<open>C8: whatever triggers the user clicks, the feature showcase shows exactly one content panel: the tab ids are distinct and the active tab is always one of them.\<close>

theorem features_exactly_one_panel:
  "length (features_panels (features_run features_init fs)) = 1"
proof (rule features_one_panel, rule features_tab_valid_run)
  have "''connect'' \<in> set (map id' featuresList)" by (simp add: featuresList_ids)
  then show "activeTab features_init \<in> id' ` set featuresList" by (simp add: features_init_def)
qed

lemma card_step_quiet:
  "\<not> isVisible s \<Longrightarrow> \<not> timer_armed s \<Longrightarrow> e \<noteq> Intersection True \<Longrightarrow>
   \<not> isVisible (card_step s e) \<and> \<not> timer_armed (card_step s e)"
  by (cases e) auto

lemma card_run_quiet:
  "\<not> isVisible s \<Longrightarrow> \<not> timer_armed s \<Longrightarrow> Intersection True \<notin> set es \<Longrightarrow>
   \<not> isVisible (card_run s es) \<and> \<not> timer_armed (card_run s es)"
proof (induction es arbitrary: s)
  case Nil then show ?case by (simp add: card_run_def)
next
  case (Cons e es)
  have e: "e \<noteq> Intersection True" and es: "Intersection True \<notin> set es" using Cons.prems(3) by auto
  have "\<not> isVisible (card_step s e) \<and> \<not> timer_armed (card_step s e)"
    using card_step_quiet [OF Cons.prems(1,2) e] .
  then show ?case using Cons.IH [of "card_step s e"] es by (simp add: card_run_def)
qed

lemma card_visible_needs_intersection:
  "isVisible (card_run card_init es) \<Longrightarrow> Intersection True \<in> set es"
  using card_run_quiet [of card_init es] by (auto simp: card_init_def)

lemma card_shows_after_intersection:
  "isVisible (card_run card_init [Intersection True, DelayElapsed])"
  by (simp add: card_run_def card_init_def)

end
