(* ===== verification/AdminPanel.thy ===== *)
theory AdminPanel
  imports Routes
begin

text \<open>
  The admin side that is not a form: the dashboard page
  \<open>src/src/pages/admin/Dashboard.tsx\<close> (four static figures and two charts
  over \<open>chartData\<close>), the chart wrappers of \<open>src/src/components/ui/charts.tsx\<close>,
  which give series \<open>i\<close> the colour \<open>colors[i]\<close> (JavaScript's \<open>undefined\<close>
  past the end, here \<open>None\<close>), and the alternative admin shell
  \<open>src/src/components/admin/AdminLayout.tsx\<close> with its
  \<open>AdminSidebar.tsx\<close>, whose \<open>NavLink\<close>s are active by react-router's rule:
  the lower-cased location equals the target, or, without \<open>end\<close>, extends it
  by a segment.
\<close>

subsection \<open>Chart data and the chart wrappers\<close>

record chart_row =
  row_name :: string
  users :: nat
  events :: nat
  engagement :: nat

definition chartData :: "chart_row list" where
  "chartData =
     [\<lparr>row_name = ''Jan'', users = 400, events = 240, engagement = 67\<rparr>,
      \<lparr>row_name = ''Feb'', users = 450, events = 320, engagement = 75\<rparr>,
      \<lparr>row_name = ''Mar'', users = 480, events = 280, engagement = 72\<rparr>,
      \<lparr>row_name = ''Apr'', users = 520, events = 305, engagement = 70\<rparr>,
      \<lparr>row_name = ''May'', users = 560, events = 350, engagement = 78\<rparr>,
      \<lparr>row_name = ''Jun'', users = 590, events = 390, engagement = 82\<rparr>]"

text \<open>Recharts reads a series by \<open>row[dataKey]\<close>; a key that is not a numeric field is \<open>undefined\<close>.\<close>

definition chart_value :: "chart_row \<Rightarrow> string \<Rightarrow> nat option" where
  "chart_value r k =
     (if k = ''users'' then Some (users r) else if k = ''events'' then Some (events r)
      else if k = ''engagement'' then Some (engagement r) else None)"

text \<open>\<open>colors[i]\<close>: the element, or \<open>undefined\<close> past the end.\<close>

definition js_index :: "'a list \<Rightarrow> nat \<Rightarrow> 'a option" where
  "js_index xs i = (if i < length xs then Some (xs ! i) else None)"

definition default_colors :: "string list" where
  "default_colors = [''#2563eb'']"

text \<open>\<open>AreaChart\<close>: one \<open>linearGradient\<close> per category, with id \<open>color-category\<close> and stop colour \<open>colors[i]\<close>, and one \<open>Area\<close> per category with stroke \<open>colors[i]\<close> and fill the gradient's url.\<close>

record area_series =
  area_key :: string
  area_stroke :: "string option"
  area_fill :: string

definition area_gradients :: "string list \<Rightarrow> string list \<Rightarrow> (string \<times> string option) list" where
  "area_gradients categories colors =
     map (\<lambda>(i, category). (''color-'' @ category, js_index colors i)) (enumerate 0 categories)"

definition area_series :: "string list \<Rightarrow> string list \<Rightarrow> area_series list" where
  "area_series categories colors =
     map (\<lambda>(i, category). \<lparr>area_key = category, area_stroke = js_index colors i,
                            area_fill = ''url(#color-'' @ category @ '')''\<rparr>)
       (enumerate 0 categories)"

text \<open>\<open>BarChart\<close>: one \<open>Bar\<close> per category with fill \<open>colors[i]\<close>.\<close>

definition bar_series :: "string list \<Rightarrow> string list \<Rightarrow> (string \<times> string option) list" where
  "bar_series categories colors = map (\<lambda>(i, category). (category, js_index colors i)) (enumerate 0 categories)"

text \<open>The two charts of the admin dashboard.\<close>

definition activity_chart :: "area_series list" where
  "activity_chart = area_series [''users'', ''events''] [''#2563eb'', ''#9333ea'']"

definition engagement_chart :: "(string \<times> string option) list" where
  "engagement_chart = bar_series [''engagement''] [''#9333ea'']"

record stat_card =
  stat_title :: string
  stat_value :: string
  stat_change :: string

definition stat_cards :: "stat_card list" where
  "stat_cards =
     [\<lparr>stat_title = ''Total Users'', stat_value = ''2,453'', stat_change = ''+12% from last month''\<rparr>,
      \<lparr>stat_title = ''Events'', stat_value = ''36'', stat_change = ''+8% from last month''\<rparr>,
      \<lparr>stat_title = ''Content Pieces'', stat_value = ''128'', stat_change = ''+5% from last month''\<rparr>,
      \<lparr>stat_title = ''Donations'', stat_value = ''$45,324'', stat_change = ''+15% from last month''\<rparr>]"

subsection \<open>The admin shell of \<open>components/admin\<close>\<close>

text \<open>The sidebar's links: label, target, and whether the \<open>end\<close> prop is set.\<close>

definition sidebar_links :: "(string \<times> path \<times> bool) list" where
  "sidebar_links =
     [(''Dashboard'', ''/admin'', True), (''User Management'', ''/admin/users'', False),
      (''Content Management'', ''/admin/content'', False), (''Event Management'', ''/admin/events'', False),
      (''Analytics'', ''/admin/analytics'', False), (''Donations'', ''/admin/donations'', False),
      (''Support'', ''/admin/support'', False), (''Settings'', ''/admin/settings'', False)]"

text \<open>\<open>NavLink\<close>'s \<open>isActive\<close> in react-router v6 (not case-sensitive by default).\<close>

definition navlink_active :: "path \<Rightarrow> path \<Rightarrow> bool \<Rightarrow> bool" where
  "navlink_active loc to end' =
     (let l = js_toLowerCase loc; t = js_toLowerCase to
      in l = t \<or> (\<not> end' \<and> prefix (t @ ''/'') l))"

definition sidebar_active :: "path \<Rightarrow> string list" where
  "sidebar_active loc = map fst (filter (\<lambda>(_, to, e). navlink_active loc to e) sidebar_links)"

record admin_shell =
  shell_sidebar_open :: bool

definition admin_shell_init :: admin_shell where
  "admin_shell_init = \<lparr>shell_sidebar_open = True\<rparr>"

datatype admin_shell_event = MenuButton | BackdropClick

text \<open>The menu button toggles the sidebar; the backdrop exists only while the sidebar is open and toggles it too.\<close>

fun admin_shell_step :: "admin_shell \<Rightarrow> admin_shell_event \<Rightarrow> admin_shell" where
  "admin_shell_step s MenuButton = s\<lparr>shell_sidebar_open := \<not> shell_sidebar_open s\<rparr>"
| "admin_shell_step s BackdropClick =
     (if shell_sidebar_open s then s\<lparr>shell_sidebar_open := False\<rparr> else s)"

subsection \<open>Lemmas\<close>

lemma map_enumerate_fst: "map (\<lambda>(i, c). f i) (enumerate n xs) = map f [n..<n + length xs]"
  by (induction xs arbitrary: n) (simp_all add: upt_rec)

lemma js_index_upt_None: "None \<notin> set (map (js_index cols) [0..<n]) \<longleftrightarrow> n \<le> length cols"
proof
  assume a: "None \<notin> set (map (js_index cols) [0..<n])"
  show "n \<le> length cols"
  proof (rule ccontr)
    assume "\<not> n \<le> length cols"
    then have "js_index cols (length cols) \<in> set (map (js_index cols) [0..<n])" by simp
    then show False using a by (simp add: js_index_def)
  qed
qed (auto simp: js_index_def)

lemma js_index_upt_take: "n \<le> length cols \<Longrightarrow> map (js_index cols) [0..<n] = map Some (take n cols)"
  by (simp add: list_eq_iff_nth_eq js_index_def)

lemma bar_colors: "map snd (bar_series cs cols) = map (js_index cols) [0..<length cs]"
  using map_enumerate_fst [of "js_index cols" 0 cs] by (simp add: bar_series_def split_def comp_def)

lemma area_colors: "map area_stroke (area_series cs cols) = map (js_index cols) [0..<length cs]"
  using map_enumerate_fst [of "js_index cols" 0 cs] by (simp add: area_series_def split_def comp_def)

lemma gradient_colors: "map snd (area_gradients cs cols) = map (js_index cols) [0..<length cs]"
  using map_enumerate_fst [of "js_index cols" 0 cs] by (simp add: area_gradients_def split_def comp_def)

lemma gradient_ids: "map fst (area_gradients cs cols) = map (\<lambda>c. ''color-'' @ c) cs"
proof -
  have "map (\<lambda>(i, c). ''color-'' @ c) (enumerate 0 cs) = map (\<lambda>c. ''color-'' @ c) cs"
    by (induction cs rule: rev_induct) (simp_all add: enumerate_append_eq)
  then show ?thesis by (simp add: area_gradients_def split_def comp_def)
qed

text \<open>Two categories get the same gradient id exactly when they are equal, so the \<open>fill\<close> urls pick the right gradients whenever the categories are distinct.\<close>

lemma gradient_ids_distinct: "distinct (map fst (area_gradients cs cols)) \<longleftrightarrow> distinct cs"
  by (simp add: gradient_ids distinct_map inj_on_def)

lemma chart_keys_resolve:
  "\<forall>r \<in> set chartData. \<forall>k \<in> set (map area_key activity_chart @ map fst engagement_chart). chart_value r k \<noteq> None"
  by (simp add: chartData_def activity_chart_def engagement_chart_def area_series_def bar_series_def chart_value_def)

lemma default_colors_two_categories:
  "map area_stroke (area_series [''users'', ''events''] default_colors) = [Some ''#2563eb'', None]"
  by (simp add: area_colors default_colors_def js_index_def upt_rec)

lemma sidebar_active_own_link: "map (sidebar_active \<circ> fst \<circ> snd) sidebar_links = map (\<lambda>l. [fst l]) sidebar_links"
  by (simp add: sidebar_links_def sidebar_active_def navlink_active_def js_toLowerCase_def js_lower_char_ascii)

lemma sidebar_active_nested: "sidebar_active ''/Admin/Users/42'' = [''User Management'']"
  by (simp add: sidebar_links_def sidebar_active_def navlink_active_def js_toLowerCase_def js_lower_char_ascii)

text \<open>Five of the eight sidebar targets are not routes of \<open>App.tsx\<close>: they render the 404 page.\<close>

lemma sidebar_targets_render:
  "map (rendered_page \<circ> fst \<circ> snd) sidebar_links =
     [Some (Elem AdminDashboardPage), Some (Placeholder ''Users Management''), Some (Elem NotFoundPage),
      Some (Placeholder ''Events Management''), Some (Elem NotFoundPage), Some (Elem NotFoundPage),
      Some (Elem NotFoundPage), Some (Elem NotFoundPage)]"
  by (simp add: sidebar_links_def route_eval)

lemma backdrop_closes: "\<not> shell_sidebar_open (admin_shell_step s BackdropClick)"
  by simp

text \<open>A chart gives every series a colour (never \<open>undefined\<close>) exactly when there are at least as many colours as categories, and then series \<open>i\<close> gets colour \<open>i\<close>; this holds for the bars, the area strokes and the gradient stops.\<close>

theorem chart_colors_bounds:
  "(None \<notin> set (map snd (bar_series cs cols)) \<longleftrightarrow> length cs \<le> length cols) \<and>
   (None \<notin> set (map area_stroke (area_series cs cols)) \<longleftrightarrow> length cs \<le> length cols) \<and>
   (None \<notin> set (map snd (area_gradients cs cols)) \<longleftrightarrow> length cs \<le> length cols) \<and>
   (length cs \<le> length cols \<longrightarrow>
      map snd (bar_series cs cols) = map Some (take (length cs) cols) \<and>
      map area_stroke (area_series cs cols) = map Some (take (length cs) cols) \<and>
      map snd (area_gradients cs cols) = map Some (take (length cs) cols))"
  unfolding bar_colors area_colors gradient_colors js_index_upt_None by (simp add: js_index_upt_take)

lemma chart_colors_bounds_witness:
  "length [''users'', ''events''] \<le> length [''#2563eb'', ''#9333ea''] \<and>
   map area_stroke activity_chart = [Some ''#2563eb'', Some ''#9333ea''] \<and>
   length [''engagement''] \<le> length [''#9333ea''] \<and> map snd engagement_chart = [Some ''#9333ea'']"
proof -
  have a: "length [''users'', ''events''] \<le> length [''#2563eb'', ''#9333ea'']" by simp
  have b: "length [''engagement''] \<le> length [''#9333ea'']" by simp
  show ?thesis
    using chart_colors_bounds [of "[''users'', ''events'']" "[''#2563eb'', ''#9333ea'']"]
      chart_colors_bounds [of "[''engagement'']" "[''#9333ea'']"] a b
    by (simp add: activity_chart_def engagement_chart_def)
qed

end
