(* ===== verification/Landing.thy ===== *)
theory Landing
  imports Complex_Main Prelude
begin

text \<open>
  The landing page \<open>src/src/pages/Index.tsx\<close> and its \<open>Hero\<close>
  (\<open>src/src/components/home/Hero.tsx\<close>), as far as they go beyond markup:
  the two listeners their mount effects register outside React, the
  Hero's \<open>scroll\<close> listener on \<open>window\<close> (a parallax that writes
  \<open>translateY(scrollY * 0.3 px)\<close> into the inline style of \<open>heroRef\<close>) and the
  Index's \<open>click\<close> listener on \<open>document\<close> (a smooth scroll to the element
  named by a \<open>data-scroll-to\<close> attribute).  The DOM is a record: the
  listener lists of the two targets, whether \<open>heroRef.current\<close> is set, the
  Hero's inline offset, the last \<open>window.scrollTo\<close> target and whether the
  last click had its default prevented.  Mounting attaches the ref and then
  runs the effects, the child's (Hero) before the parent's (Index);
  unmounting detaches the ref and runs the cleanups.  The scroll position
  \<open>window.scrollY\<close> is a double; the model keeps it opaque (a type parameter)
  and records, for the inline style, the scroll position the transform string
  \<open>translateY(${scrollY * 0.3}px)\<close> was computed from, leaving the floating-point
  product and its formatting out.
\<close>

subsection \<open>Hero\<close>

text \<open>The four \<open>FeatureCard\<close>s of the Hero in document order: title, description, gradient and
  animation delay in seconds.\<close>

record hero_card =
  hc_title :: string
  hc_description :: string
  hc_color :: string
  hc_delay :: rat

definition hero_cards :: "hero_card list" where
  "hero_cards =
     [\<lparr>hc_title = ''Connect'', hc_description = ''Network with alumni and students in your field of interest'',
       hc_color = ''from-cube-blue/20 to-cube-blue/10'', hc_delay = 1/10\<rparr>,
      \<lparr>hc_title = ''Learn'', hc_description = ''Access exclusive resources and mentorship opportunities'',
       hc_color = ''from-cube-indigo/20 to-cube-indigo/10'', hc_delay = 2/10\<rparr>,
      \<lparr>hc_title = ''Grow'', hc_description = ''Discover job opportunities through AI-powered recommendations'',
       hc_color = ''from-cube-purple/20 to-cube-purple/10'', hc_delay = 3/10\<rparr>,
      \<lparr>hc_title = ''Give Back'', hc_description = ''Contribute to your institution's growth and legacy'',
       hc_color = ''from-cube-pink/20 to-cube-pink/10'', hc_delay = 4/10\<rparr>]"

subsection \<open>The listeners and the DOM they touch\<close>

datatype listener = HeroScroll | IndexScrollTo

record 'y landing_dom =
  index_mounted :: bool
  hero_ref :: bool
  window_scroll :: "listener list"
  document_click :: "listener list"
  hero_translate :: "'y option"
  scroll_request :: "int option"
  click_prevented :: bool

definition landing_init :: "'y landing_dom" where
  "landing_init =
     \<lparr>index_mounted = False, hero_ref = False, window_scroll = [], document_click = [],
      hero_translate = None, scroll_request = None, click_prevented = False\<rparr>"

text \<open>\<open>handleScroll\<close> of the Hero: \<open>if (heroRef.current)\<close> set the inline transform, computed
  from the current \<open>window.scrollY\<close>.\<close>

definition hero_handleScroll :: "'y \<Rightarrow> 'y landing_dom \<Rightarrow> 'y landing_dom" where
  "hero_handleScroll scrollPosition d =
     (if hero_ref d then d\<lparr>hero_translate := Some scrollPosition\<rparr> else d)"

text \<open>\<open>handleScrollTo\<close> of the Index: a truthy \<open>data-scroll-to\<close> attribute of the target prevents the
  default and, when \<open>document.getElementById\<close> finds the element, scrolls to 80 px above its
  \<open>offsetTop\<close>.  \<open>getElementById\<close> gives the offset of the element with that id, if any.\<close>

definition index_handleScrollTo ::
  "(string \<Rightarrow> int option) \<Rightarrow> string option \<Rightarrow> 'y landing_dom \<Rightarrow> 'y landing_dom" where
  "index_handleScrollTo getElementById scrollToAttr d =
     (case scrollToAttr of
        None \<Rightarrow> d
      | Some a \<Rightarrow>
          if a = [] then d
          else d\<lparr>click_prevented := True,
                 scroll_request := (case getElementById a of None \<Rightarrow> scroll_request d
                                    | Some offsetTop \<Rightarrow> Some (offsetTop - 80))\<rparr>)"

text \<open>Dispatch runs the listeners registered on the target, in registration order.\<close>

definition dispatch_scroll :: "'y \<Rightarrow> 'y landing_dom \<Rightarrow> 'y landing_dom" where
  "dispatch_scroll y d =
     fold (\<lambda>l. case l of HeroScroll \<Rightarrow> hero_handleScroll y | IndexScrollTo \<Rightarrow> id) (window_scroll d) d"

definition dispatch_click ::
  "(string \<Rightarrow> int option) \<Rightarrow> string option \<Rightarrow> 'y landing_dom \<Rightarrow> 'y landing_dom" where
  "dispatch_click getElementById attr d =
     fold (\<lambda>l. case l of IndexScrollTo \<Rightarrow> index_handleScrollTo getElementById attr | HeroScroll \<Rightarrow> id)
       (document_click d) (d\<lparr>click_prevented := False\<rparr>)"

datatype 'y landing_event = MountIndex | UnmountIndex | Scroll 'y | Click "string option"

text \<open>The route renders one \<open>Index\<close> at a time.  Mounting attaches \<open>heroRef\<close> to a fresh node (no
  inline transform) and runs the effects, Hero's \<open>addEventListener('scroll')\<close> first; unmounting
  detaches the ref and runs both cleanups (\<open>removeEventListener\<close>).\<close>

fun landing_step ::
  "(string \<Rightarrow> int option) \<Rightarrow> 'y landing_dom \<Rightarrow> 'y landing_event \<Rightarrow> 'y landing_dom" where
  "landing_step byId d MountIndex =
     (if index_mounted d then d
      else d\<lparr>index_mounted := True, hero_ref := True, hero_translate := None,
             window_scroll := window_scroll d @ [HeroScroll],
             document_click := document_click d @ [IndexScrollTo]\<rparr>)"
| "landing_step byId d UnmountIndex =
     (if index_mounted d
      then d\<lparr>index_mounted := False, hero_ref := False, hero_translate := None,
             window_scroll := remove1 HeroScroll (window_scroll d),
             document_click := remove1 IndexScrollTo (document_click d)\<rparr>
      else d)"
| "landing_step byId d (Scroll y) = dispatch_scroll y d"
| "landing_step byId d (Click attr) = dispatch_click byId attr d"

inductive landing_reach :: "(string \<Rightarrow> int option) \<Rightarrow> 'y landing_dom \<Rightarrow> bool" for byId where
  init: "landing_reach byId landing_init"
| step: "landing_reach byId d \<Longrightarrow> landing_reach byId (landing_step byId d e)"

definition landing_inv :: "'y landing_dom \<Rightarrow> bool" where
  "landing_inv d =
     (hero_ref d = index_mounted d \<and>
      window_scroll d = (if index_mounted d then [HeroScroll] else []) \<and>
      document_click d = (if index_mounted d then [IndexScrollTo] else []) \<and>
      (\<not> index_mounted d \<longrightarrow> hero_translate d = None))"

subsection \<open>Lemmas\<close>

lemma hero_cards_staggered: "sorted_wrt (<) (map hc_delay hero_cards) \<and> distinct (map hc_title hero_cards)"
  by (simp add: hero_cards_def)

text \<open>With the listeners of the invariant, a scroll runs the Hero's handler once while mounted,
  and a click the Index's handler once.\<close>

lemma dispatch_scroll_inv:
  "landing_inv d \<Longrightarrow>
   dispatch_scroll y d = (if index_mounted d then d\<lparr>hero_translate := Some y\<rparr> else d)"
  by (auto simp: landing_inv_def dispatch_scroll_def hero_handleScroll_def)

lemma dispatch_click_inv:
  "landing_inv d \<Longrightarrow>
   dispatch_click byId attr d =
     (if index_mounted d then index_handleScrollTo byId attr (d\<lparr>click_prevented := False\<rparr>)
      else d\<lparr>click_prevented := False\<rparr>)"
  by (auto simp: landing_inv_def dispatch_click_def)

lemma index_handleScrollTo_fields:
  "index_mounted (index_handleScrollTo byId attr d) = index_mounted d \<and>
   hero_ref (index_handleScrollTo byId attr d) = hero_ref d \<and>
   window_scroll (index_handleScrollTo byId attr d) = window_scroll d \<and>
   document_click (index_handleScrollTo byId attr d) = document_click d \<and>
   hero_translate (index_handleScrollTo byId attr d) = hero_translate d"
  by (simp add: index_handleScrollTo_def split: option.split)

lemma landing_inv_init: "landing_inv landing_init"
  by (simp add: landing_inv_def landing_init_def)

lemma landing_inv_step:
  assumes "landing_inv d"
  shows "landing_inv (landing_step byId d e)"
proof (cases e)
  case (Scroll y)
  then show ?thesis using assms by (simp add: dispatch_scroll_inv landing_inv_def)
next
  case (Click attr)
  then show ?thesis using assms by (simp add: dispatch_click_inv index_handleScrollTo_fields landing_inv_def)
qed (use assms in \<open>auto simp: landing_inv_def\<close>)

lemma landing_reach_inv: "landing_reach byId d \<Longrightarrow> landing_inv d"
  by (induction d rule: landing_reach.induct) (simp_all add: landing_inv_init landing_inv_step)

text \<open>C4: the landing page never leaks a listener: in every reachable state the window holds
  exactly the Hero's scroll listener and the document exactly the Index's click listener while the
  page is mounted, and neither once it is unmounted; a scroll then recomputes the Hero's
  transform from the new scroll position while mounted and leaves no transform otherwise.\<close>

theorem landing_listeners_balanced:
  assumes "landing_reach byId d"
  shows "window_scroll d = (if index_mounted d then [HeroScroll] else []) \<and>
         document_click d = (if index_mounted d then [IndexScrollTo] else []) \<and>
         hero_translate (landing_step byId d (Scroll y)) =
           (if index_mounted d then Some y else None)"
  using landing_reach_inv [OF assms] by (simp add: dispatch_scroll_inv) (simp add: landing_inv_def)

lemma landing_listeners_balanced_witness:
  "landing_reach (\<lambda>_. None)
     (landing_step (\<lambda>_. None) (landing_step (\<lambda>_. None) (landing_step (\<lambda>_. None) landing_init MountIndex) (Scroll (100::int)))
        UnmountIndex) \<and>
   window_scroll (landing_step (\<lambda>_. None) (landing_step (\<lambda>_. None)
     (landing_step (\<lambda>_. None) landing_init MountIndex) (Scroll (100::int))) UnmountIndex) = [] \<and>
   hero_translate (landing_step (\<lambda>_. None) (landing_step (\<lambda>_. None) (landing_step (\<lambda>_. None)
     (landing_step (\<lambda>_. None) landing_init MountIndex) (Scroll (100::int))) UnmountIndex) (Scroll 40)) = None"
proof -
  define d where "d = landing_step (\<lambda>_. None) (landing_step (\<lambda>_. None)
     (landing_step (\<lambda>_. None) landing_init MountIndex) (Scroll (100::int))) UnmountIndex"
  have r: "landing_reach (\<lambda>_. None) d"
    unfolding d_def by (intro landing_reach.step landing_reach.init)
  have m: "\<not> index_mounted d"
    by (simp add: d_def landing_init_def dispatch_scroll_def hero_handleScroll_def)
  show ?thesis
    using landing_listeners_balanced [OF r, of 40] r m unfolding d_def [symmetric] by simp
qed

text \<open>No element of the landing page carries \<open>data-scroll-to\<close>, so every click reaches the
  handler with no attribute and it neither prevents the default (a \<open>Link\<close> still navigates) nor
  scrolls.\<close>

lemma index_click_inert:
  "landing_reach byId d \<Longrightarrow> landing_step byId d (Click None) = d\<lparr>click_prevented := False\<rparr>"
  by (simp add: dispatch_click_inv landing_reach_inv index_handleScrollTo_def)

end
