(* ===== verification/FormPage.thy ===== *)
theory FormPage
  imports Validation
begin

text \<open>
  The react-hook-form page the three forms of the application share
  (\<open>pages/Login.tsx\<close>, \<open>pages/Register.tsx\<close>, \<open>pages/admin/Register.tsx\<close>):
  each calls \<open>useForm\<close> with \<open>zodResolver(schema)\<close> and the default modes,
  wraps \<open>onSubmit\<close> in \<open>handleSubmit\<close>, registers its text inputs with
  \<open>register(name)\<close>, and shows \<open>errors.name.message\<close> under each field.
  The page state is a record over the type \<open>'v\<close> of the form's values; a
  page is given by a record of its functions (\<open>form_def\<close>): the resolver,
  the browser's constraint validation of the form (none of the forms sets
  \<open>noValidate\<close>), the submission outcome, the names and setters of its
  registered inputs, and the items of its selects (\<open>setValue\<close>, which
  neither validates nor clears an error).

  Semantics, as react-hook-form implements it: a submission the browser
  blocks changes nothing; otherwise the resolver runs on all values, and
  either its errors are shown or \<open>onSubmit\<close> runs; the form is marked
  submitted either way.  Before the first submission (\<open>mode: 'onSubmit'\<close>)
  changes do not validate; after it (\<open>reValidateMode: 'onChange'\<close>) a change
  of a registered input re-runs the resolver and replaces that field's
  error.  After \<open>onSubmit\<close> navigates, the page is unmounted.
\<close>

record 'v form_page =
  fp_values :: 'v
  fp_submitted :: bool
  fp_errors :: field_errors
  fp_toasts :: "toast list"
  fp_navigation :: "path option"

record ('v, 'i, 's) form_def =
  fd_schema :: "'v \<Rightarrow> field_errors"
  fd_native :: "'v \<Rightarrow> bool"
  fd_submit :: "'v \<Rightarrow> form_outcome"
  fd_input_name :: "'i \<Rightarrow> string"
  fd_set_input :: "'i \<Rightarrow> string \<Rightarrow> 'v \<Rightarrow> 'v"
  fd_choose :: "'s \<Rightarrow> string \<Rightarrow> 'v \<Rightarrow> 'v option"

definition form_init :: "'v \<Rightarrow> 'v form_page" where
  "form_init v0 = \<lparr>fp_values = v0, fp_submitted = False, fp_errors = [], fp_toasts = [], fp_navigation = None\<rparr>"

datatype ('i, 's) form_event = TypeInput 'i string | ChooseOption 's string | SubmitForm

definition errors_for :: "string \<Rightarrow> field_errors \<Rightarrow> field_errors" where
  "errors_for f errs = filter (\<lambda>e. fst e = f) errs"

text \<open>The message shown under a field: \<open>errors.field.message\<close>.\<close>

definition shown_error :: "'v form_page \<Rightarrow> string \<Rightarrow> string option" where
  "shown_error s f = map_option snd (find (\<lambda>e. fst e = f) (fp_errors s))"

text \<open>\<open>handleSubmit(onSubmit)\<close> once the browser lets the submit event through.\<close>

definition form_handleSubmit :: "('v, 'i, 's) form_def \<Rightarrow> 'v form_page \<Rightarrow> 'v form_page" where
  "form_handleSubmit F s =
     (case fd_submit F (fp_values s) of
        Rejected errs \<Rightarrow> s\<lparr>fp_errors := errs, fp_submitted := True\<rparr>
      | Submitted ts p \<Rightarrow> s\<lparr>fp_errors := [], fp_submitted := True, fp_toasts := fp_toasts s @ ts,
                           fp_navigation := Some p\<rparr>)"

text \<open>A registered input's \<open>onChange\<close>: the value, and after the first submission its field's error.\<close>

definition form_change :: "('v, 'i, 's) form_def \<Rightarrow> 'i \<Rightarrow> string \<Rightarrow> 'v form_page \<Rightarrow> 'v form_page" where
  "form_change F f v s =
     (let d = fd_set_input F f v (fp_values s); n = fd_input_name F f
      in if fp_submitted s
         then s\<lparr>fp_values := d, fp_errors := filter (\<lambda>e. fst e \<noteq> n) (fp_errors s) @ errors_for n (fd_schema F d)\<rparr>
         else s\<lparr>fp_values := d\<rparr>)"

fun form_handle :: "('v, 'i, 's) form_def \<Rightarrow> 'v form_page \<Rightarrow> ('i, 's) form_event \<Rightarrow> 'v form_page" where
  "form_handle F s (TypeInput f v) = form_change F f v s"
| "form_handle F s (ChooseOption sel v) =
     (case fd_choose F sel v (fp_values s) of None \<Rightarrow> s | Some d \<Rightarrow> s\<lparr>fp_values := d\<rparr>)"
| "form_handle F s SubmitForm =
     (if fd_native F (fp_values s) then form_handleSubmit F s else s)"

text \<open>The page reacts only while it is mounted.\<close>

definition form_step :: "('v, 'i, 's) form_def \<Rightarrow> 'v form_page \<Rightarrow> ('i, 's) form_event \<Rightarrow> 'v form_page" where
  "form_step F s e = (if fp_navigation s = None then form_handle F s e else s)"

inductive form_reach :: "('v, 'i, 's) form_def \<Rightarrow> 'v \<Rightarrow> 'v form_page \<Rightarrow> bool" for F v0 where
  form_reach_init: "form_reach F v0 (form_init v0)"
| form_reach_step: "form_reach F v0 s \<Longrightarrow> form_reach F v0 (form_step F s e)"

text \<open>What makes revalidation on change sound: distinct input names, a resolver whose verdict on a registered input depends on that input only, and a submission that rejects with exactly the resolver's errors.\<close>

definition form_local :: "('v, 'i, 's) form_def \<Rightarrow> bool" where
  "form_local F =
     (inj (fd_input_name F) \<and>
      (\<forall>f g v d. f \<noteq> g \<longrightarrow>
         errors_for (fd_input_name F f) (fd_schema F (fd_set_input F g v d)) =
         errors_for (fd_input_name F f) (fd_schema F d)) \<and>
      (\<forall>f sel v d d'. fd_choose F sel v d = Some d' \<longrightarrow>
         errors_for (fd_input_name F f) (fd_schema F d') = errors_for (fd_input_name F f) (fd_schema F d)) \<and>
      (\<forall>d errs. fd_submit F d = Rejected errs \<longrightarrow> errs = fd_schema F d))"

text \<open>What a page renders of a registered input: the \<open>Label\<close>'s text, the input's \<open>id\<close> (the name it
  is registered under) and \<open>type\<close>, and the message under it.\<close>

record field_view =
  fv_label :: string
  fv_id :: string
  fv_type :: string
  fv_message :: "string option"

definition form_fields_view ::
  "('v, 'i, 's) form_def \<Rightarrow> (string \<times> 'i \<times> string) list \<Rightarrow> 'v form_page \<Rightarrow> field_view list" where
  "form_fields_view F inputs s =
     map (\<lambda>(label, i, type).
            \<lparr>fv_label = label, fv_id = fd_input_name F i, fv_type = type,
             fv_message = shown_error s (fd_input_name F i)\<rparr>) inputs"

subsection \<open>Lemmas\<close>

lemma check_set: "e \<in> set (check ok f m) \<Longrightarrow> fst e = f \<and> snd e = m \<and> \<not> ok"
  by (auto simp: check_def split: if_splits)

lemma first_error_set:
  assumes "e \<in> set (first_error f cs)"
  shows "fst e = f \<and> (False, snd e) \<in> set cs"
proof (cases "find (\<lambda>c. \<not> fst c) cs")
  case None then show ?thesis using assms by (simp add: first_error_def)
next
  case (Some c)
  then have "c \<in> set cs \<and> \<not> fst c" by (rule find_Some_set)
  moreover have "e = (f, snd c)" using assms Some by (simp add: first_error_def)
  ultimately show ?thesis by (cases c) auto
qed

lemma errors_for_append [simp]: "errors_for f (xs @ ys) = errors_for f xs @ errors_for f ys"
  by (simp add: errors_for_def)

lemma errors_for_check [simp]: "errors_for f (check ok g m) = (if f = g then check ok g m else [])"
  by (simp add: errors_for_def check_def)

lemma errors_for_first_error [simp]:
  "errors_for f (first_error g cs) = (if f = g then first_error g cs else [])"
  by (simp add: errors_for_def first_error_def split: option.split)

lemma errors_for_filter_other [simp]:
  "f \<noteq> g \<Longrightarrow> errors_for f (filter (\<lambda>e. fst e \<noteq> g) xs) = errors_for f xs"
  by (induction xs) (auto simp: errors_for_def)

lemma errors_for_filter_same [simp]: "errors_for f (filter (\<lambda>e. fst e \<noteq> f) xs) = []"
  by (induction xs) (auto simp: errors_for_def)

lemma errors_for_errors_for [simp]: "errors_for f (errors_for f xs) = errors_for f xs"
  by (simp add: errors_for_def)

lemma errors_for_errors_for_other: "f \<noteq> g \<Longrightarrow> errors_for f (errors_for g xs) = []"
  by (simp add: errors_for_def)

lemma shown_error_Some: "shown_error s f = Some m \<Longrightarrow> (f, m) \<in> set (fp_errors s)"
proof -
  assume "shown_error s f = Some m"
  then obtain e where "find (\<lambda>e. fst e = f) (fp_errors s) = Some e" "snd e = m"
    by (auto simp: shown_error_def)
  then show ?thesis by (cases e) (auto dest: find_Some_set)
qed

lemma form_step_unmounted: "fp_navigation s \<noteq> None \<Longrightarrow> form_step F s e = s"
  by (auto simp: form_step_def)

lemma form_change_fields [simp]:
  "fp_submitted (form_change F f v s) = fp_submitted s"
  "fp_navigation (form_change F f v s) = fp_navigation s"
  "fp_toasts (form_change F f v s) = fp_toasts s"
  "fp_values (form_change F f v s) = fd_set_input F f v (fp_values s)"
  by (simp_all add: form_change_def Let_def)

text \<open>The error of the input that changed is the resolver's new verdict; the errors of the other inputs stay.\<close>

lemma form_change_errors:
  "fp_submitted s \<Longrightarrow> errors_for n (fp_errors (form_change F f v s)) =
     (if n = fd_input_name F f then errors_for n (fd_schema F (fd_set_input F f v (fp_values s)))
      else errors_for n (fp_errors s))"
  by (simp add: form_change_def Let_def errors_for_errors_for_other)

text \<open>Revalidation keeps the errors of the registered inputs current: once the form has been submitted and is still mounted, the errors under every registered input are the resolver's verdict on the current values.\<close>

definition inputs_current :: "('v, 'i, 's) form_def \<Rightarrow> 'v form_page \<Rightarrow> bool" where
  "inputs_current F s =
     (fp_submitted s \<and> fp_navigation s = None \<longrightarrow>
        (\<forall>f. errors_for (fd_input_name F f) (fp_errors s) = errors_for (fd_input_name F f) (fd_schema F (fp_values s))))"

lemma inputs_current_step:
  assumes loc: "form_local F" and cur: "inputs_current F s"
  shows "inputs_current F (form_step F s e)"
proof (cases "fp_navigation s = None")
  case False then show ?thesis using cur by (simp add: form_step_unmounted)
next
  case True
  note l = loc [unfolded form_local_def]
  show ?thesis
  proof (cases e)
    case (TypeInput g v)
    have "errors_for (fd_input_name F f) (fp_errors (form_change F g v s)) =
          errors_for (fd_input_name F f) (fd_schema F (fd_set_input F g v (fp_values s)))"
      if "fp_submitted s" for f
    proof (cases "f = g")
      case False
      then have "fd_input_name F f \<noteq> fd_input_name F g" using l by (auto dest: injD)
      then show ?thesis using that True cur False l by (simp add: form_change_errors inputs_current_def)
    qed (simp add: form_change_errors that)
    then show ?thesis using True TypeInput by (simp add: inputs_current_def form_step_def)
  next
    case (ChooseOption sel v)
    then show ?thesis using True cur l
      by (auto simp: inputs_current_def form_step_def split: option.split)
  next
    case SubmitForm
    then show ?thesis using True cur l
      by (cases "fd_submit F (fp_values s)")
        (auto simp: inputs_current_def form_step_def form_handleSubmit_def)
  qed
qed

lemma form_reach_inputs_current:
  assumes "form_local F" and "form_reach F v0 s"
  shows "inputs_current F s"
  using assms(2)
proof (induction rule: form_reach.induct)
  case form_reach_init then show ?case by (simp add: inputs_current_def form_init_def)
next
  case (form_reach_step s e) show ?case by (rule inputs_current_step [OF assms(1) form_reach_step.IH])
qed

text \<open>An invariant of a page is kept along every reachable state once the initial page has it and every step of a mounted page keeps it.\<close>

lemma form_reach_invariant:
  assumes "form_reach F v0 s" and "P (form_init v0)"
    and "\<And>s e. P s \<Longrightarrow> fp_navigation s = None \<Longrightarrow> P (form_handle F s e)"
  shows "P s"
  using assms(1) by (induction rule: form_reach.induct) (auto simp: assms(2,3) form_step_def)

text \<open>A page navigates only by a submission the browser let through and the resolver accepted: the values on a navigated page are those \<open>onSubmit\<close> received.\<close>

lemma form_handle_navigation:
  assumes "fp_navigation s = None" and "fp_navigation (form_handle F s e) = Some p"
  shows "fd_native F (fp_values (form_handle F s e)) \<and> (\<exists>ts. fd_submit F (fp_values (form_handle F s e)) = Submitted ts p)"
  using assms
  by (cases e) (auto simp: form_change_def Let_def form_handleSubmit_def split: option.splits form_outcome.splits if_splits)

lemma form_reach_navigation:
  assumes "form_reach F v0 s" and "fp_navigation s = Some p"
  shows "fd_native F (fp_values s) \<and> (\<exists>ts. fd_submit F (fp_values s) = Submitted ts p)"
proof -
  have "\<forall>p. fp_navigation s = Some p \<longrightarrow> fd_native F (fp_values s) \<and> (\<exists>ts. fd_submit F (fp_values s) = Submitted ts p)"
    using assms(1) by (rule form_reach_invariant) (auto simp: form_init_def dest: form_handle_navigation)
  then show ?thesis using assms(2) by blast
qed

text \<open>Before the first submission, typing and choosing only change the values.\<close>

lemma form_step_init_type [simp]:
  "form_step F (form_init d) (TypeInput f v) = form_init (fd_set_input F f v d)"
  by (simp add: form_step_def form_init_def form_change_def Let_def)

lemma form_step_init_choose:
  "fd_choose F sel v d = Some d' \<Longrightarrow> form_step F (form_init d) (ChooseOption sel v) = form_init d'"
  by (simp add: form_step_def form_init_def)

lemma form_step_init_submit:
  "fd_native F d \<Longrightarrow> fd_submit F d = Submitted ts p \<Longrightarrow>
   fp_navigation (form_step F (form_init d) SubmitForm) = Some p \<and> fp_values (form_step F (form_init d) SubmitForm) = d"
  by (simp add: form_step_def form_init_def form_handleSubmit_def)

lemma find_errors_for: "find (\<lambda>e. fst e = f) es = find (\<lambda>e. fst e = f) (errors_for f es)"
  by (induction es) (auto simp: errors_for_def)

text \<open>After a submission, a mounted page shows under every registered input the resolver's first
  message for that input on the current values.\<close>

lemma form_reach_fields_view:
  assumes "form_local F" and "form_reach F v0 s" and "fp_submitted s" and "fp_navigation s = None"
  shows "form_fields_view F inputs s =
           map (\<lambda>(label, i, type).
                  \<lparr>fv_label = label, fv_id = fd_input_name F i, fv_type = type,
                   fv_message = map_option snd (find (\<lambda>e. fst e = fd_input_name F i) (fd_schema F (fp_values s)))\<rparr>)
             inputs"
proof -
  have cur: "errors_for (fd_input_name F i) (fp_errors s) = errors_for (fd_input_name F i) (fd_schema F (fp_values s))"
    for i using form_reach_inputs_current [OF assms(1,2)] assms(3,4) by (simp add: inputs_current_def)
  have "shown_error s (fd_input_name F i) =
          map_option snd (find (\<lambda>e. fst e = fd_input_name F i) (fd_schema F (fp_values s)))" for i
    by (simp only: shown_error_def find_errors_for [of _ "fp_errors s"] cur) (simp only: find_errors_for [symmetric])
  then show ?thesis by (simp add: form_fields_view_def split_def)
qed

end
