(* ===== verification/RegisterPage.thy ===== *)
theory RegisterPage
  imports Register AuthForm FormPage
begin

text \<open>
  The registration page as the user drives it (\<open>src/src/pages/Register.tsx\<close>),
  an instance of the react-hook-form page of \<open>FormPage\<close>: the registered
  inputs (\<open>register('fullName')\<close> and so on), the three selects that write
  their value with \<open>setValue(name, value)\<close> and offer only their
  \<open>SelectItem\<close>s, the resolver \<open>registrationSchema\<close>, \<open>onSubmit\<close>, and the
  browser's constraint validation of the \<open>type="email"\<close> and
  \<open>type="url"\<close> inputs (the form has no \<open>noValidate\<close>): a non-empty value
  that is not a valid e-mail address (\<open>html_email_ok\<close>) or URL (the
  parameter \<open>is_url\<close>, the WHATWG URL parser that zod also uses) blocks the
  submit event.
\<close>

text \<open>Untouched registered inputs hold the empty string; the selects are \<open>undefined\<close>.\<close>

definition empty_registration :: registration_form where
  "empty_registration =
     \<lparr>fullName = [], registration_form.email = [], registration_form.password = [], degree = None,
      batchYear = None, collegeName = None, phoneNumber = [], linkedinProfile = []\<rparr>"

type_synonym register_page = "registration_form form_page"

definition register_page_init :: register_page where
  "register_page_init = form_init empty_registration"

datatype register_input = FullNameInput | EmailInput | PasswordInput | PhoneInput | LinkedinInput

datatype register_select = DegreeSelect | BatchYearSelect | CollegeSelect

primrec input_name :: "register_input \<Rightarrow> string" where
  "input_name FullNameInput = ''fullName''"
| "input_name EmailInput = ''email''"
| "input_name PasswordInput = ''password''"
| "input_name PhoneInput = ''phoneNumber''"
| "input_name LinkedinInput = ''linkedinProfile''"

primrec set_input :: "register_input \<Rightarrow> string \<Rightarrow> registration_form \<Rightarrow> registration_form" where
  "set_input FullNameInput v d = d\<lparr>fullName := v\<rparr>"
| "set_input EmailInput v d = d\<lparr>registration_form.email := v\<rparr>"
| "set_input PasswordInput v d = d\<lparr>registration_form.password := v\<rparr>"
| "set_input PhoneInput v d = d\<lparr>phoneNumber := v\<rparr>"
| "set_input LinkedinInput v d = d\<lparr>linkedinProfile := v\<rparr>"

definition degree_options :: "string list" where
  "degree_options = [''btech'', ''mtech'', ''bca'', ''mca'', ''bba'', ''mba'']"

definition college_options :: "string list" where
  "college_options = [''iit'', ''nit'', ''bits'', ''vit'', ''manipal'']"

text \<open>The values a select offers: its \<open>SelectItem\<close>s.\<close>

primrec select_options :: "int \<Rightarrow> register_select \<Rightarrow> string list" where
  "select_options cy DegreeSelect = degree_options"
| "select_options cy BatchYearSelect = batch_year_options cy"
| "select_options cy CollegeSelect = college_options"

primrec set_select :: "register_select \<Rightarrow> string \<Rightarrow> registration_form \<Rightarrow> registration_form" where
  "set_select DegreeSelect v d = d\<lparr>degree := Some v\<rparr>"
| "set_select BatchYearSelect v d = d\<lparr>batchYear := Some v\<rparr>"
| "set_select CollegeSelect v d = d\<lparr>collegeName := Some v\<rparr>"

text \<open>\<open>onValueChange={(value) => setValue(name, value)}\<close>: a select can only be set to one of its items.\<close>

definition register_choose :: "int \<Rightarrow> register_select \<Rightarrow> string \<Rightarrow> registration_form \<Rightarrow> registration_form option" where
  "register_choose cy sel v d = (if v \<in> set (select_options cy sel) then Some (set_select sel v d) else None)"

text \<open>The browser's constraint validation of the form: \<open>type="email"\<close> and \<open>type="url"\<close> accept the empty string or a valid value; \<open>type="tel"\<close>, \<open>type="password"\<close> and the text input have no constraint, and no input is \<open>required\<close>.\<close>

definition register_native_valid :: "(string \<Rightarrow> bool) \<Rightarrow> registration_form \<Rightarrow> bool" where
  "register_native_valid is_url d =
     ((registration_form.email d = [] \<or> html_email_ok (registration_form.email d)) \<and>
      (linkedinProfile d = [] \<or> is_url (linkedinProfile d)))"

definition register_form ::
  "(string \<Rightarrow> bool) \<Rightarrow> int \<Rightarrow> (registration_form, register_input, register_select) form_def" where
  "register_form is_url cy =
     \<lparr>fd_schema = registrationSchema is_url, fd_native = register_native_valid is_url,
      fd_submit = register_submit is_url cy, fd_input_name = input_name, fd_set_input = set_input,
      fd_choose = register_choose cy\<rparr>"

type_synonym register_event = "(register_input, register_select) form_event"

definition register_step :: "(string \<Rightarrow> bool) \<Rightarrow> int \<Rightarrow> register_page \<Rightarrow> register_event \<Rightarrow> register_page" where
  "register_step is_url cy s e = form_step (register_form is_url cy) s e"

definition register_reach :: "(string \<Rightarrow> bool) \<Rightarrow> int \<Rightarrow> register_page \<Rightarrow> bool" where
  "register_reach is_url cy s = form_reach (register_form is_url cy) empty_registration s"

definition select_messages :: "string set" where
  "select_messages = {''Please select a degree'', ''Please select a batch year'', ''Please select a college''}"

text \<open>A select holds nothing or one of its items.\<close>

definition select_ok :: "string list \<Rightarrow> string option \<Rightarrow> bool" where
  "select_ok opts v = (case v of None \<Rightarrow> True | Some x \<Rightarrow> x \<in> set opts)"

definition register_page_inv :: "int \<Rightarrow> register_page \<Rightarrow> bool" where
  "register_page_inv cy s =
     (select_ok degree_options (degree (fp_values s)) \<and>
      select_ok (batch_year_options cy) (batchYear (fp_values s)) \<and>
      select_ok college_options (collegeName (fp_values s)) \<and>
      (\<forall>e \<in> set (fp_errors s). snd e \<notin> select_messages))"

subsection \<open>Lemmas\<close>

text \<open>The resolver's verdict on a text input depends on that input's value only.\<close>

lemma schema_input_errors:
  "errors_for (input_name f) (registrationSchema is_url d) =
     (case f of
        FullNameInput \<Rightarrow> check (2 \<le> length (fullName d)) ''fullName'' ''Name must be at least 2 characters''
      | EmailInput \<Rightarrow> check (zod_email (registration_form.email d)) ''email'' ''Invalid email address''
      | PasswordInput \<Rightarrow> first_error ''password'' (password_checks (registration_form.password d))
      | PhoneInput \<Rightarrow> check (phone_ok (phoneNumber d)) ''phoneNumber'' ''Phone number must be 10 digits''
      | LinkedinInput \<Rightarrow> check (linkedinProfile d = [] \<or> is_url (linkedinProfile d))
          ''linkedinProfile'' ''Invalid LinkedIn URL'')"
  by (cases f) (simp_all add: registrationSchema_def)

lemma schema_input_set_input:
  "f \<noteq> g \<Longrightarrow> errors_for (input_name f) (registrationSchema is_url (set_input g v d)) =
     errors_for (input_name f) (registrationSchema is_url d)"
  by (cases f; cases g) (simp_all add: registrationSchema_def)

lemma schema_input_set_select:
  "errors_for (input_name f) (registrationSchema is_url (set_select sel v d)) =
     errors_for (input_name f) (registrationSchema is_url d)"
  by (cases f; cases sel) (simp_all add: registrationSchema_def)

lemma input_name_inj: "inj input_name"
  by (rule injI) (case_tac x; case_tac y; simp)

lemma register_form_local: "form_local (register_form is_url cy)"
  unfolding form_local_def register_form_def
  by (auto simp: input_name_inj schema_input_set_input schema_input_set_select register_choose_def
      register_submit_def submit_with_def split: if_splits)

text \<open>A select message comes only from a select holding the empty string.\<close>

lemma schema_select_message:
  assumes "e \<in> set (registrationSchema is_url d)" and "snd e \<in> select_messages"
  shows "Some [] \<in> {degree d, batchYear d, collegeName d} \<and> fst e \<in> {''degree'', ''batchYear'', ''collegeName''}"
proof -
  have sel: "(False, m) \<in> set (select_checks v msg) \<Longrightarrow> m \<in> select_messages \<Longrightarrow> v = Some [] \<and> m = msg" for v m msg
    by (cases v) (auto simp: select_checks_def select_messages_def Suc_le_eq)
  have pw: "(False, m) \<in> set (password_checks p) \<Longrightarrow> m \<notin> select_messages" for p m
    by (auto simp: password_checks_def select_messages_def)
  show ?thesis
    using assms unfolding registrationSchema_def set_append Un_iff
    by (elim disjE; auto dest!: check_set first_error_set dest: sel pw simp: select_messages_def)
qed

lemma options_not_empty:
  "[] \<notin> set degree_options" "[] \<notin> set college_options" "[] \<notin> set (batch_year_options cy)"
  by (auto simp: degree_options_def college_options_def batch_year_options_def js_int_toString_def
      not_sym [OF nat_digits_not_Nil])

lemma select_ok_not_empty: "select_ok opts v \<Longrightarrow> [] \<notin> set opts \<Longrightarrow> v \<noteq> Some []"
  by (auto simp: select_ok_def)

lemma register_page_inv_handle:
  assumes "register_page_inv cy s"
  shows "register_page_inv cy (form_handle (register_form is_url cy) s e)"
proof -
  note inv = assms [unfolded register_page_inv_def]
  show ?thesis
  proof (cases e)
    case (TypeInput f v)
    have sel: "degree (set_input f v d) = degree d \<and> batchYear (set_input f v d) = batchYear d \<and>
               collegeName (set_input f v d) = collegeName d" for d
      by (cases f) simp_all
    have "snd e' \<notin> select_messages" if "e' \<in> set (errors_for (input_name f) (registrationSchema is_url d))" for e' d
    proof
      assume "snd e' \<in> select_messages"
      moreover have "e' \<in> set (registrationSchema is_url d)" "fst e' = input_name f"
        using that by (auto simp: errors_for_def)
      ultimately show False by (cases f) (auto dest: schema_select_message)
    qed
    then show ?thesis using inv TypeInput sel
      by (auto simp: register_page_inv_def form_change_def register_form_def Let_def)
  next
    case (ChooseOption sel v)
    then show ?thesis using inv
      by (cases sel) (auto simp: register_page_inv_def register_form_def register_choose_def select_ok_def)
  next
    case SubmitForm
    have "degree (fp_values s) \<noteq> Some []" "batchYear (fp_values s) \<noteq> Some []" "collegeName (fp_values s) \<noteq> Some []"
      using inv select_ok_not_empty options_not_empty(1,2) options_not_empty(3) [of cy] by blast+
    then have ne: "Some [] \<notin> {degree (fp_values s), batchYear (fp_values s), collegeName (fp_values s)}"
      by auto
    have "snd e' \<notin> select_messages" if "e' \<in> set (registrationSchema is_url (fp_values s))" for e'
      using schema_select_message [OF that] ne by blast
    then show ?thesis using inv SubmitForm
      by (auto simp: register_page_inv_def register_form_def form_handleSubmit_def register_submit_def
          submit_with_def)
  qed
qed

lemma register_reach_inv: "register_reach is_url cy s \<Longrightarrow> register_page_inv cy s"
  unfolding register_reach_def
  by (erule form_reach_invariant,
      simp add: register_page_inv_def form_init_def empty_registration_def select_ok_def,
      erule register_page_inv_handle)

lemma register_step_reach_example:
  "register_reach u cy (register_step u cy register_page_init SubmitForm)"
  "register_reach u cy (register_step u cy (register_step u cy register_page_init SubmitForm) e)"
  unfolding register_reach_def register_step_def register_page_init_def
  by (intro form_reach.intros)+

lemma register_empty_submit:
  "fp_errors (register_step u cy register_page_init SubmitForm) =
     [(''fullName'', ''Name must be at least 2 characters''), (''email'', ''Invalid email address''),
      (''password'', ''Password must be at least 8 characters''), (''degree'', ''Required''),
      (''batchYear'', ''Required''), (''collegeName'', ''Required''),
      (''phoneNumber'', ''Phone number must be 10 digits'')] \<and>
   fp_submitted (register_step u cy register_page_init SubmitForm) \<and>
   fp_navigation (register_step u cy register_page_init SubmitForm) = None"
proof -
  have "registrationSchema u empty_registration =
     [(''fullName'', ''Name must be at least 2 characters''), (''email'', ''Invalid email address''),
      (''password'', ''Password must be at least 8 characters''), (''degree'', ''Required''),
      (''batchYear'', ''Required''), (''collegeName'', ''Required''),
      (''phoneNumber'', ''Phone number must be 10 digits'')]"
    by (simp add: registrationSchema_def empty_registration_def password_checks_def select_checks_def
        js_simps del: js_includes_sublist)
  then show ?thesis
    by (simp add: register_step_def form_step_def register_page_init_def form_init_def register_form_def
        form_handleSubmit_def register_submit_def submit_with_def register_native_valid_def empty_registration_def)
qed

text \<open>The registration page navigates only after the browser and the resolver accepted the values, and always to the login page.\<close>

lemma register_page_navigation:
  assumes "register_reach is_url cy s" and "fp_navigation s = Some p"
  shows "registrationSchema is_url (fp_values s) = [] \<and> register_native_valid is_url (fp_values s) \<and> p = ''/login''"
  using form_reach_navigation [OF assms(1) [unfolded register_reach_def] assms(2)]
  by (auto simp: register_form_def register_submit_def submit_with_def register_onSubmit_def split: if_splits)

text \<open>An e-mail address the browser rejects blocks the submission: nothing happens, and zod's message is not shown.\<close>

lemma register_submit_blocked_email:
  "register_step u cy (register_page_init\<lparr>fp_values := empty_registration\<lparr>registration_form.email := ''abc''\<rparr>\<rparr>) SubmitForm =
     register_page_init\<lparr>fp_values := empty_registration\<lparr>registration_form.email := ''abc''\<rparr>\<rparr>"
  by (simp add: register_step_def form_step_def register_page_init_def form_init_def register_form_def
      register_native_valid_def html_email_ok_def)

text \<open>Choosing a degree after a failed submission leaves its Required message on screen although the resolver would now accept the degree: \<open>setValue\<close> does not revalidate.\<close>

lemma select_error_stale:
  "shown_error (register_step u cy (register_step u cy register_page_init SubmitForm) (ChooseOption DegreeSelect ''btech''))
     ''degree'' = Some ''Required'' \<and>
   degree (fp_values (register_step u cy (register_step u cy register_page_init SubmitForm)
     (ChooseOption DegreeSelect ''btech''))) = Some ''btech''"
proof -
  define s1 where "s1 = register_step u cy register_page_init SubmitForm"
  have n: "fp_navigation s1 = None" and errs: "fp_errors s1 =
     [(''fullName'', ''Name must be at least 2 characters''), (''email'', ''Invalid email address''),
      (''password'', ''Password must be at least 8 characters''), (''degree'', ''Required''),
      (''batchYear'', ''Required''), (''collegeName'', ''Required''),
      (''phoneNumber'', ''Phone number must be 10 digits'')]"
    using register_empty_submit [of u cy] unfolding s1_def by simp_all
  have "register_step u cy s1 (ChooseOption DegreeSelect ''btech'') =
          s1\<lparr>fp_values := (fp_values s1)\<lparr>degree := Some ''btech''\<rparr>\<rparr>"
    by (simp add: register_step_def form_step_def n register_form_def register_choose_def degree_options_def)
  then show ?thesis unfolding s1_def [symmetric] by (simp add: shown_error_def errs)
qed

text \<open>C23: in every reachable state of the registration page no field ever shows the schema's messages Please select a degree, Please select a batch year or Please select a college: the selects hold nothing (reported as Required) or one of their non-empty items.\<close>

theorem register_select_message_never_shown:
  assumes "register_reach is_url cy s" and "m \<in> select_messages"
  shows "shown_error s f \<noteq> Some m"
proof
  assume "shown_error s f = Some m"
  then have "(f, m) \<in> set (fp_errors s)" by (rule shown_error_Some)
  then show False using register_reach_inv [OF assms(1)] assms(2) by (auto simp: register_page_inv_def)
qed

lemma register_select_message_never_shown_witness:
  "register_reach (\<lambda>_. False) 2025 (register_step (\<lambda>_. False) 2025 register_page_init SubmitForm) \<and>
   ''Please select a degree'' \<in> select_messages \<and>
   shown_error (register_step (\<lambda>_. False) 2025 register_page_init SubmitForm) ''degree'' \<noteq> Some ''Please select a degree''"
proof -
  have r: "register_reach (\<lambda>_. False) 2025 (register_step (\<lambda>_. False) 2025 register_page_init SubmitForm)"
    by (rule register_step_reach_example(1))
  have m: "''Please select a degree'' \<in> select_messages" by (simp add: select_messages_def)
  show ?thesis using register_select_message_never_shown [OF r m] r m by simp
qed

text \<open>C2: once the registration form has been submitted and is still on screen, the error under each text input (name, e-mail, password, phone, LinkedIn) is exactly the resolver's verdict on the input's current value: every keystroke revalidates its own field.\<close>

theorem register_input_errors_current:
  assumes "register_reach is_url cy s" and "fp_submitted s" and "fp_navigation s = None"
  shows "errors_for (input_name f) (fp_errors s) = errors_for (input_name f) (registrationSchema is_url (fp_values s))"
  using form_reach_inputs_current [OF register_form_local assms(1) [unfolded register_reach_def]] assms(2,3)
  by (simp add: inputs_current_def register_form_def)

lemma register_input_errors_current_witness:
  "register_reach (\<lambda>_. False) 2025 (register_step (\<lambda>_. False) 2025 (register_step (\<lambda>_. False) 2025 register_page_init SubmitForm)
      (TypeInput FullNameInput ''Jal'')) \<and>
   fp_submitted (register_step (\<lambda>_. False) 2025 (register_step (\<lambda>_. False) 2025 register_page_init SubmitForm)
      (TypeInput FullNameInput ''Jal'')) \<and>
   fp_navigation (register_step (\<lambda>_. False) 2025 (register_step (\<lambda>_. False) 2025 register_page_init SubmitForm)
      (TypeInput FullNameInput ''Jal'')) = None \<and>
   errors_for ''fullName'' (fp_errors (register_step (\<lambda>_. False) 2025
      (register_step (\<lambda>_. False) 2025 register_page_init SubmitForm) (TypeInput FullNameInput ''Jal''))) = []"
proof -
  define s1 where "s1 = register_step (\<lambda>_. False) 2025 register_page_init SubmitForm"
  have n: "fp_navigation s1 = None" and sub: "fp_submitted s1"
    using register_empty_submit [of "\<lambda>_. False" 2025] unfolding s1_def by simp_all
  define s where "s = register_step (\<lambda>_. False) 2025 s1 (TypeInput FullNameInput ''Jal'')"
  have r: "register_reach (\<lambda>_. False) 2025 s" unfolding s_def s1_def by (rule register_step_reach_example(2))
  have e: "fp_submitted s \<and> fp_navigation s = None"
    by (simp add: s_def register_step_def form_step_def n sub)
  have v: "fullName (fp_values s) = ''Jal''"
    by (simp add: s_def register_step_def form_step_def n register_form_def)
  have "errors_for (input_name FullNameInput) (fp_errors s) =
        errors_for (input_name FullNameInput) (registrationSchema (\<lambda>_. False) (fp_values s))"
    using register_input_errors_current [OF r] e by blast
  moreover have "errors_for (input_name FullNameInput) (registrationSchema (\<lambda>_. False) (fp_values s)) = []"
    unfolding schema_input_errors [where f = FullNameInput] by (simp add: v check_def)
  ultimately have "errors_for ''fullName'' (fp_errors s) = []" by simp
  then show ?thesis using r e unfolding s_def s1_def by simp
qed

end
