(* ===== verification/FormPages.thy ===== *)
theory FormPages
  imports Login AdminRegister AuthForm FormPage
begin

text \<open>
  The sign-in page (\<open>src/src/pages/Login.tsx\<close>) and the admin sign-up page
  (\<open>src/src/pages/admin/Register.tsx\<close>) as instances of the react-hook-form
  page of \<open>FormPage\<close>: their registered inputs, their resolvers
  \<open>loginSchema\<close> and \<open>adminRegistrationSchema\<close>, their \<open>onSubmit\<close>, and the
  browser's constraint validation of their one \<open>type="email"\<close> input
  (neither form sets \<open>noValidate\<close>; \<open>type="password"\<close> has no constraint).
  Neither page has a select.
\<close>

subsection \<open>The sign-in page\<close>

datatype login_input = LoginEmailInput | LoginPasswordInput

primrec login_input_name :: "login_input \<Rightarrow> string" where
  "login_input_name LoginEmailInput = ''email''"
| "login_input_name LoginPasswordInput = ''password''"

primrec login_set_input :: "login_input \<Rightarrow> string \<Rightarrow> login_form \<Rightarrow> login_form" where
  "login_set_input LoginEmailInput v d = d\<lparr>login_form.email := v\<rparr>"
| "login_set_input LoginPasswordInput v d = d\<lparr>login_form.password := v\<rparr>"

definition empty_login :: login_form where
  "empty_login = \<lparr>login_form.email = [], login_form.password = []\<rparr>"

definition login_native_valid :: "login_form \<Rightarrow> bool" where
  "login_native_valid d = (login_form.email d = [] \<or> html_email_ok (login_form.email d))"

definition login_page_form :: "(login_form, login_input, unit) form_def" where
  "login_page_form =
     \<lparr>fd_schema = loginSchema, fd_native = login_native_valid, fd_submit = login_submit,
      fd_input_name = login_input_name, fd_set_input = login_set_input, fd_choose = (\<lambda>_ _ _. None)\<rparr>"

definition login_page_step :: "login_form form_page \<Rightarrow> (login_input, unit) form_event \<Rightarrow> login_form form_page" where
  "login_page_step s e = form_step login_page_form s e"

definition login_page_reach :: "login_form form_page \<Rightarrow> bool" where
  "login_page_reach s = form_reach login_page_form empty_login s"

subsection \<open>The admin sign-up page\<close>

datatype admin_input = AdminNameInput | AdminEmailInput | AdminPasswordInput | AdminCodeInput

primrec admin_input_name :: "admin_input \<Rightarrow> string" where
  "admin_input_name AdminNameInput = ''fullName''"
| "admin_input_name AdminEmailInput = ''email''"
| "admin_input_name AdminPasswordInput = ''password''"
| "admin_input_name AdminCodeInput = ''adminCode''"

primrec admin_set_input :: "admin_input \<Rightarrow> string \<Rightarrow> admin_registration_form \<Rightarrow> admin_registration_form" where
  "admin_set_input AdminNameInput v d = d\<lparr>admin_registration_form.fullName := v\<rparr>"
| "admin_set_input AdminEmailInput v d = d\<lparr>admin_registration_form.email := v\<rparr>"
| "admin_set_input AdminPasswordInput v d = d\<lparr>admin_registration_form.password := v\<rparr>"
| "admin_set_input AdminCodeInput v d = d\<lparr>adminCode := v\<rparr>"

definition empty_admin_registration :: admin_registration_form where
  "empty_admin_registration =
     \<lparr>admin_registration_form.fullName = [], admin_registration_form.email = [],
      admin_registration_form.password = [], adminCode = []\<rparr>"

definition admin_native_valid :: "admin_registration_form \<Rightarrow> bool" where
  "admin_native_valid d =
     (admin_registration_form.email d = [] \<or> html_email_ok (admin_registration_form.email d))"

definition admin_page_form :: "(admin_registration_form, admin_input, unit) form_def" where
  "admin_page_form =
     \<lparr>fd_schema = adminRegistrationSchema, fd_native = admin_native_valid, fd_submit = admin_submit,
      fd_input_name = admin_input_name, fd_set_input = admin_set_input, fd_choose = (\<lambda>_ _ _. None)\<rparr>"

definition admin_page_step ::
  "admin_registration_form form_page \<Rightarrow> (admin_input, unit) form_event \<Rightarrow> admin_registration_form form_page" where
  "admin_page_step s e = form_step admin_page_form s e"

definition admin_page_reach :: "admin_registration_form form_page \<Rightarrow> bool" where
  "admin_page_reach s = form_reach admin_page_form empty_admin_registration s"

subsection \<open>What the two pages render\<close>

text \<open>The registered inputs of each page in document order with their labels and \<open>type\<close>s (the
  full-name input sets none, so it is a text input), and the message under each.\<close>

definition login_page_view :: "login_form form_page \<Rightarrow> field_view list" where
  "login_page_view s =
     form_fields_view login_page_form
       [(''Email'', LoginEmailInput, ''email''), (''Password'', LoginPasswordInput, ''password'')] s"

definition admin_page_view :: "admin_registration_form form_page \<Rightarrow> field_view list" where
  "admin_page_view s =
     form_fields_view admin_page_form
       [(''Full Name'', AdminNameInput, ''text''), (''Email'', AdminEmailInput, ''email''),
        (''Password'', AdminPasswordInput, ''password''), (''Admin Code'', AdminCodeInput, ''password'')] s"

subsection \<open>Lemmas\<close>

lemma login_page_form_local: "form_local login_page_form"
proof -
  have i: "inj login_input_name" by (rule injI) (case_tac x; case_tac y; simp)
  have l: "f \<noteq> g \<Longrightarrow> errors_for (login_input_name f) (loginSchema (login_set_input g v d)) =
             errors_for (login_input_name f) (loginSchema d)" for f g v d
    by (cases f; cases g) (simp_all add: loginSchema_def)
  show ?thesis unfolding form_local_def login_page_form_def
    using i l by (auto simp: login_submit_def submit_with_def split: if_splits)
qed

lemma admin_page_form_local: "form_local admin_page_form"
proof -
  have i: "inj admin_input_name" by (rule injI) (case_tac x; case_tac y; simp)
  have l: "f \<noteq> g \<Longrightarrow> errors_for (admin_input_name f) (adminRegistrationSchema (admin_set_input g v d)) =
             errors_for (admin_input_name f) (adminRegistrationSchema d)" for f g v d
    by (cases f; cases g) (simp_all add: adminRegistrationSchema_def)
  show ?thesis unfolding form_local_def admin_page_form_def
    using i l by (auto simp: admin_submit_def submit_with_def split: if_splits)
qed

text \<open>The sign-in page navigates only after the browser and the resolver accepted the values, and then to the admin dashboard exactly when the address contains admin.\<close>

lemma login_page_navigation:
  assumes "login_page_reach s" and "fp_navigation s = Some p"
  shows "loginSchema (fp_values s) = [] \<and> login_native_valid (fp_values s) \<and>
         p = (if sublist ''admin'' (login_form.email (fp_values s)) then ''/admin'' else ''/dashboard'')"
  using form_reach_navigation [OF assms(1) [unfolded login_page_reach_def] assms(2)]
  by (auto simp: login_page_form_def login_submit_def submit_with_def login_onSubmit_def split: if_splits)

lemma admin_page_navigation:
  assumes "admin_page_reach s" and "fp_navigation s = Some p"
  shows "adminRegistrationSchema (fp_values s) = [] \<and> admin_native_valid (fp_values s) \<and> p = ''/admin''"
  using form_reach_navigation [OF assms(1) [unfolded admin_page_reach_def] assms(2)]
  by (auto simp: admin_page_form_def admin_submit_def submit_with_def admin_onSubmit_def split: if_splits)

lemma login_page_errors_current:
  assumes "login_page_reach s" and "fp_submitted s" and "fp_navigation s = None"
  shows "errors_for (login_input_name f) (fp_errors s) = errors_for (login_input_name f) (loginSchema (fp_values s))"
  using form_reach_inputs_current [OF login_page_form_local assms(1) [unfolded login_page_reach_def]] assms(2,3)
  by (simp add: inputs_current_def login_page_form_def)

lemma admin_page_errors_current:
  assumes "admin_page_reach s" and "fp_submitted s" and "fp_navigation s = None"
  shows "errors_for (admin_input_name f) (fp_errors s) =
           errors_for (admin_input_name f) (adminRegistrationSchema (fp_values s))"
  using form_reach_inputs_current [OF admin_page_form_local assms(1) [unfolded admin_page_reach_def]] assms(2,3)
  by (simp add: inputs_current_def admin_page_form_def)

text \<open>C20: in every reachable state of the sign-in page after a submission, the message shown under
  the email input and under the password input is the resolver's first message for that field on
  the values currently typed, never a stale one: react-hook-form revalidates a field on each change.\<close>

lemma login_page_view_current:
  assumes "login_page_reach s" and "fp_submitted s" and "fp_navigation s = None"
  shows "map fv_message (login_page_view s) =
           map (\<lambda>n. map_option snd (find (\<lambda>e. fst e = n) (loginSchema (fp_values s)))) [''email'', ''password'']"
  using form_reach_fields_view [OF login_page_form_local assms(1) [unfolded login_page_reach_def] assms(2,3)]
  by (simp add: login_page_view_def login_page_form_def)

text \<open>Submitting the empty sign-in form and then typing a valid address: the email message is gone,
  the password message stays.\<close>

lemma login_page_view_current_witness:
  "login_page_reach (login_page_step (login_page_step (form_init empty_login) SubmitForm)
     (TypeInput LoginEmailInput ''jal@linkcube.com'')) \<and>
   fp_submitted (login_page_step (login_page_step (form_init empty_login) SubmitForm)
     (TypeInput LoginEmailInput ''jal@linkcube.com'')) \<and>
   fp_navigation (login_page_step (login_page_step (form_init empty_login) SubmitForm)
     (TypeInput LoginEmailInput ''jal@linkcube.com'')) = None \<and>
   map fv_message (login_page_view (login_page_step (login_page_step (form_init empty_login) SubmitForm)
     (TypeInput LoginEmailInput ''jal@linkcube.com''))) =
     [None, Some ''Password must be at least 6 characters'']"
proof -
  define s where "s = login_page_step (login_page_step (form_init empty_login) SubmitForm)
     (TypeInput LoginEmailInput ''jal@linkcube.com'')"
  have e0: "loginSchema empty_login =
     [(''email'', ''Invalid email address''), (''password'', ''Password must be at least 6 characters'')]"
    by (simp add: loginSchema_def empty_login_def js_simps del: js_includes_sublist)
  have n0: "login_native_valid empty_login" by (simp add: login_native_valid_def empty_login_def)
  have s1: "login_page_step (form_init empty_login) SubmitForm =
     (form_init empty_login)\<lparr>fp_submitted := True, fp_errors := loginSchema empty_login\<rparr>"
    using n0 e0 by (simp add: login_page_step_def form_step_def form_init_def login_page_form_def
        form_handleSubmit_def login_submit_def submit_with_def)
  have f: "fp_submitted s \<and> fp_navigation s = None \<and>
      fp_values s = empty_login\<lparr>login_form.email := ''jal@linkcube.com''\<rparr>"
    unfolding s_def s1 by (simp add: login_page_step_def form_step_def form_init_def login_page_form_def
        form_change_def Let_def)
  have e1: "loginSchema (empty_login\<lparr>login_form.email := ''jal@linkcube.com''\<rparr>) =
     [(''password'', ''Password must be at least 6 characters'')]"
    by (simp add: loginSchema_def empty_login_def js_simps del: js_includes_sublist)
  have r: "login_page_reach s"
    unfolding login_page_reach_def s_def login_page_step_def by (intro form_reach_step form_reach_init)
  show ?thesis
    using login_page_view_current [OF r] r f e1 unfolding s_def [symmetric] by simp
qed

text \<open>C32: in every reachable state of the admin sign-up page after a submission, the message shown
  under each of its four inputs (full name, email, password, admin code) is the resolver's first
  message for that field on the current values.\<close>

lemma admin_page_view_current:
  assumes "admin_page_reach s" and "fp_submitted s" and "fp_navigation s = None"
  shows "map fv_message (admin_page_view s) =
           map (\<lambda>n. map_option snd (find (\<lambda>e. fst e = n) (adminRegistrationSchema (fp_values s))))
             [''fullName'', ''email'', ''password'', ''adminCode'']"
  using form_reach_fields_view [OF admin_page_form_local assms(1) [unfolded admin_page_reach_def] assms(2,3)]
  by (simp add: admin_page_view_def admin_page_form_def)

text \<open>The empty admin form passes the browser (an empty \<open>type="email"\<close> input is valid) and shows a
  message under each of its four inputs.\<close>

lemma admin_page_view_current_witness:
  "admin_page_reach (admin_page_step (form_init empty_admin_registration) SubmitForm) \<and>
   fp_submitted (admin_page_step (form_init empty_admin_registration) SubmitForm) \<and>
   fp_navigation (admin_page_step (form_init empty_admin_registration) SubmitForm) = None \<and>
   map fv_message (admin_page_view (admin_page_step (form_init empty_admin_registration) SubmitForm)) =
     [Some ''Name must be at least 2 characters'', Some ''Invalid email address'',
      Some ''Password must be at least 8 characters'', Some ''Admin code must be at least 6 characters'']"
proof -
  define s where "s = admin_page_step (form_init empty_admin_registration) SubmitForm"
  have e: "adminRegistrationSchema empty_admin_registration =
     [(''fullName'', ''Name must be at least 2 characters''), (''email'', ''Invalid email address''),
      (''password'', ''Password must be at least 8 characters''),
      (''adminCode'', ''Admin code must be at least 6 characters'')]"
    by (simp add: adminRegistrationSchema_def empty_admin_registration_def password_checks_def
        js_simps del: js_includes_sublist)
  have s: "s = (form_init empty_admin_registration)\<lparr>fp_submitted := True, fp_errors :=
     adminRegistrationSchema empty_admin_registration\<rparr>"
  proof -
    have "admin_native_valid empty_admin_registration"
      by (simp add: admin_native_valid_def empty_admin_registration_def)
    then show ?thesis unfolding s_def
      by (simp add: admin_page_step_def form_step_def form_init_def admin_page_form_def form_handleSubmit_def
          admin_submit_def submit_with_def e)
  qed
  have r: "admin_page_reach s"
    unfolding admin_page_reach_def s_def admin_page_step_def by (intro form_reach_step form_reach_init)
  show ?thesis
    using admin_page_view_current [OF r] r unfolding s_def [symmetric] by (simp add: s form_init_def e)
qed

text \<open>An address the browser rejects never reaches zod: submitting \<open>abc\<close> on the sign-in page changes nothing.\<close>

lemma login_blocked_email:
  "login_page_step (form_init (empty_login\<lparr>login_form.email := ''abc''\<rparr>)) SubmitForm =
     form_init (empty_login\<lparr>login_form.email := ''abc''\<rparr>)"
  by (simp add: login_page_step_def form_step_def form_init_def login_page_form_def login_native_valid_def
      html_email_ok_def empty_login_def)

end
