(* ===== verification/Spec2Isabelle.thy ===== *)
theory Spec2Isabelle
  imports Prelude SearchFilter Jobs Events Connect Resources Validation Login Register AdminRegister
    AuthForm Routes Dashboard Layouts ChatBot HallOfFame Features AdminPanel Landing
    RegisterPage FormPage FormPages
begin

text \<open>
  \<^bold>\<open>LinkCube, a verification development.\<close>
  LinkCube (\<open>src/src\<close>) is a client-side React application for an alumni
  network.  It has no backend: every page holds a fixture array, filters it
  by a search box, splits it into tabs, and answers each button with a toast;
  the forms validate with zod and navigate; react-router maps paths to pages.
  The development models each part as executable HOL and proves what the
  code guarantees and where it departs from its specification.

  \<^bold>\<open>Theories.\<close>
  \<^item> \<open>Prelude\<close>: the JavaScript built-ins the pages use, with their
    ECMAScript meaning: \<open>toLowerCase\<close> (ASCII), \<open>includes\<close> (proved equal to
    \<open>sublist\<close>), \<open>trim\<close>, \<open>new Date(y, m, d)\<close> as milliseconds (UTC, so the
    host time zone is fixed), and the sonner toast as a record; \<open>emit\<close>
    appends the toast of a handler that found its record.
  \<^item> \<open>SearchFilter\<close>: the specification's Filter Predicate (4.1) and View
    Partitioner (4.2) as abstract contracts \<open>matches_query\<close>,
    \<open>query_filter\<close> and \<open>is_partition\<close> (multiset union plus order).
  \<^item> \<open>Jobs\<close>, \<open>Events\<close>, \<open>Connect\<close>, \<open>Resources\<close>: the four list pages
    (\<open>src/src/pages/*.tsx\<close>).  Each has its fixture, its handlers (the Action
    Dispatcher of 4.3: a lookup by id, a toast, a silent no-op when absent),
    its \<open>filtered*\<close> function, its tab lists, and the page as a record
    (query, tab, toasts; Events also a clock) with a step function over the
    events the page reacts to; card buttons act only on rendered cards and
    respect the \<open>disabled\<close> and conditional rendering of the JSX; a view
    function gives what each card shows (badges, counts printed with
    \<open>toString\<close>, the Events date badge with date-fns \<open>format\<close>).
  \<^item> \<open>Validation\<close>: the zod checks the schemas use (the email pattern written
    out as checks on local part and labels, \<open>min\<close>, the character-class
    regexes, the phone pattern), react-hook-form submission as
    \<open>Rejected\<close>/\<open>Submitted\<close>, \<open>parseInt\<close> and integer \<open>toString\<close>.
  \<^item> \<open>Login\<close>, \<open>Register\<close>, \<open>AdminRegister\<close>: the three form pages, each a
    schema and an \<open>onSubmit\<close>; \<open>z.string().url()\<close> is a parameter (the WHATWG
    URL parser is not in the repository); the current year is a parameter.
  \<^item> \<open>FormPage\<close>: the react-hook-form page the three forms share, as a
    record over the form's values with a step function over typing,
    choosing and submitting: the browser's constraint validation first (no
    form sets \<open>noValidate\<close>), \<open>handleSubmit\<close> with the zod resolver,
    revalidation of a registered input on change after the first
    submission, \<open>setValue\<close> without validation, unmount on navigation; and
    its reachable states, with the generic invariants that errors stay
    current and that navigation follows only an accepted submission, and
    what a registered input renders (label, \<open>id\<close>, \<open>type\<close>, message).
  \<^item> \<open>RegisterPage\<close>, \<open>FormPages\<close>: the registration, sign-in and admin
    sign-up pages as instances of \<open>FormPage\<close>; the sign-in and admin pages
    also with the inputs and messages they render.
  \<^item> \<open>AuthForm\<close>: \<open>components/auth/AuthForms.tsx\<close> as a state machine with the
    pending 1500 ms timers counted (they outlive the unmounted form), its
    reachable states (\<open>auth_reach\<close>),
    the specification's phases idle/submitting/resolved as an abstract
    machine it refines, the rendered view (\<open>auth_render\<close>: titles, password
    input type, submit label and \<open>disabled\<close>, link targets), and \<open>pages/Auth.tsx\<close>
    with its links (\<open>auth_page_links\<close>).
  \<^item> \<open>Routes\<close>: the route table of \<open>App.tsx\<close> with react-router's flattening,
    ranking and case-insensitive matching, the navigation menus of the two
    layouts, and the links of every routed page.
  \<^item> \<open>Dashboard\<close>: \<open>pages/Dashboard.tsx\<close>: fixtures, the staggered fade-in
    of notifications, the RSVP buttons of the Overview tab, and the date
    badges, with ECMAScript's date-only parse (UTC) and
    \<open>toLocaleDateString\<close> in a local zone given by its offset.
  \<^item> \<open>Layouts\<close>: \<open>components/layout/Navbar.tsx\<close> (scroll, theme toggle on a
    DOM class, mobile menu closed on navigation), \<open>MainLayout.tsx\<close> and
    \<open>AdminLayout.tsx\<close> (menu and sidebar state, active-item highlighting),
    each with a render function giving what its markup shows; the admin
    layout also on a screen whose width crosses the \<open>lg\<close> breakpoint
    (\<open>admin_screen_step\<close>: the menu button is clickable only below
    \<open>lg\<close>).
  \<^item> \<open>ChatBot\<close>: \<open>components/ui/ChatBot.tsx\<close> with its reply timers and
    \<open>Math.random()\<close> as an event parameter in \<open>[0, 1)\<close>; reachable
    transcripts by rule induction.
  \<^item> \<open>HallOfFame\<close>: \<open>data/hall-of-fame-data.ts\<close>, the page and the panel
    each tab shows: the leaderboards, whose shown rank is the row index
    (compared with \<open>points_rank\<close>, one more than the number of higher scores) and
    whose points badge parses back to the points, and
    \<open>RecentAchievements.tsx\<close> (rows and recognition categories).
  \<^item> \<open>Landing\<close>: \<open>pages/Index.tsx\<close> and \<open>components/home/Hero.tsx\<close> as the
    DOM their effects touch: the Hero's parallax \<open>scroll\<close> listener on the
    window, the Index's smooth-scroll \<open>click\<close> listener on the document,
    their registration on mount and removal on unmount, and the Hero's
    cards.  \<open>window.scrollY\<close> is a double and stays opaque (a type
    parameter): the Hero's inline style records the scroll position its
    transform string was computed from.
  \<^item> \<open>Features\<close>: \<open>components/home/Features.tsx\<close> (the tabbed feature
    showcase: the active tab and the panel it shows) and the \<open>FeatureCard\<close>
    of \<open>pages/Home.tsx\<close> (intersection observer, delay timer, unmount).
  \<^item> \<open>AdminPanel\<close>: \<open>pages/admin/Dashboard.tsx\<close> (figures and chart data),
    the chart wrappers of \<open>components/ui/charts.tsx\<close> with JavaScript's
    out-of-range array read as \<open>None\<close>, and the unmounted admin shell
    \<open>components/admin/AdminLayout.tsx\<close> and \<open>AdminSidebar.tsx\<close> with
    react-router's \<open>NavLink\<close> activity rule.

  \<^bold>\<open>What is proved.\<close>
  Refinement of the Filter Predicate by every page's search; the empty query
  returns the fixture; tab splits are partitions (Events by the clock,
  Connect by a status string, which is a partition only because the
  fixture's statuses are the two literals); handlers are no-ops on unknown
  ids; bookmark, connect and RSVP buttons do what the code does (which is not
  a toggle); the download toast only for downloadable resources (a run
  invariant); the zod checks and the forms' outcomes, the registration page's errors (current for the
  text inputs after a submission, stale for the selects, never a select's
  custom message), the role
  computation and the parse/print round trip of the batch-year select;
  the auth form's reachable-state invariant, its refinement of the phase
  machine and its termination in the resolved phase; totality of routing
  within two navigations and the exact set of dead links; the dashboard's
  date badges one day early everywhere west of UTC; the Navbar's theme icon
  in or out of step with the page for ever after mounting; every chat
  message answered once by a canned reply; leaderboard ranks equal to ranks
  by points exactly when the list is sorted by descending points; exactly one feature panel shown
  whatever tabs are clicked, and a fade-in card shown only after it
  intersected the viewport; every chart series coloured exactly when the
  colour list is long enough; a collapsed admin sidebar covering the content
  once the window is widened, and for every later event sequence that keeps
  it wide; each form page navigating only after an
  accepted submission; the landing page's listeners registered exactly
  while it is mounted, with the parallax transform recomputed from each
  scroll only then; at most one pending timer of the auth form, exactly
  while its button reads Loading... and is disabled; the sign-in and admin
  sign-up pages' messages current on the values typed;
  distinct React keys in every Hall of Fame tab.  Properties that
  span components (the forms' targets render real pages) are stated below.

  \<^bold>\<open>Bounds and fuel.\<close>
  \<open>app_navigate\<close> is given fuel 2: a \<open><Navigate>\<close> leaf of the table points
  to a path whose leaf is a page, so two hops suffice for every path
  (\<open>Routes.app_navigate_total\<close>).  Strings are lists of characters, and
  lower-casing is ASCII only, which is all the fixtures and paths contain
  (\<open>js_lower_char_ascii\<close> tabulates it for evaluation).  Local time zone
  offsets are taken strictly within one day of UTC, which covers every real
  zone (UTC-12 to UTC+14).  \<open>Math.random()\<close> is a rational in \<open>[0, 1)\<close>.

  \<^bold>\<open>Not modelled.\<close>
  Styling, animation and layout-only components (\<open>components/ui\<close> other
  than the chat bot and the chart wrappers, the static markup of
  \<open>Home\<close> and \<open>Index\<close> beyond their links and cards; the parallax product
  \<open>scrollY * 0.3\<close> in doubles and its formatting into the transform string); the drawing
  done by recharts itself; \<open>AnimatedCard.tsx\<close>, which only animates on
  hover; the Navbar's own scroll listener lives in \<open>Layouts\<close> as an event,
  not in the listener lists of \<open>Landing\<close>; the
  \<open>ThemeProvider\<close> that \<open>App.tsx\<close> imports from
  \<open>./components/theme-provider\<close>, a file absent from the repository;
  browser scrolling and media queries (the admin layout's \<open>lg\<close>
  breakpoint is a boolean of the screen, resizes and scroll offsets are
  events); the
  URL parser behind \<open>z.string().url()\<close> and \<open>type="url"\<close>, a parameter
  \<open>is_url\<close>.
\<close>

subsection \<open>Properties across components\<close>

text \<open>C36: every navigation a form performs reaches a routed page: a valid login renders the admin dashboard or the user dashboard, a registration the login page, an admin registration the admin dashboard, and the stub auth form the dashboard or the login page; none reaches the 404 page.\<close>

theorem form_targets_render:
  "(\<forall>d ts p. login_submit d = Submitted ts p \<longrightarrow>
      rendered_page p \<in> {Some (Elem AdminDashboardPage), Some (Elem DashboardPage)}) \<and>
   (\<forall>u y d ts p. register_submit u y d = Submitted ts p \<longrightarrow> rendered_page p = Some (Elem LoginPage)) \<and>
   (\<forall>d ts p. admin_submit d = Submitted ts p \<longrightarrow> rendered_page p = Some (Elem AdminDashboardPage)) \<and>
   (\<forall>t. rendered_page (auth_target t) \<in> {Some (Elem DashboardPage), Some (Elem LoginPage)})"
proof (intro conjI allI impI)
  fix t show "rendered_page (auth_target t) \<in> {Some (Elem DashboardPage), Some (Elem LoginPage)}"
    using rendered_targets by (cases t) (simp_all add: auth_target_def)
qed (use rendered_targets login_submit_Submitted register_submit_Submitted admin_submit_Submitted in
      \<open>fastforce+\<close>)

lemma form_targets_render_witness:
  "login_submit \<lparr>Login.login_form.email = ''admin@linkcube.com'', password = ''secret1''\<rparr> =
     Submitted [] ''/admin'' \<and>
   rendered_page ''/admin'' \<in> {Some (Elem AdminDashboardPage), Some (Elem DashboardPage)}"
proof -
  have s: "login_submit \<lparr>Login.login_form.email = ''admin@linkcube.com'', password = ''secret1''\<rparr> =
     Submitted [] ''/admin''"
    by (simp add: login_submit_def submit_with_def login_onSubmit_def loginSchema_def js_simps
        del: js_includes_sublist)
  show ?thesis using form_targets_render s by blast
qed

text \<open>C34: each of the three form pages navigates only after a submission that the browser's constraint validation and the zod resolver both accepted, on exactly the values onSubmit received: the sign-in page to the admin dashboard when the address contains admin and to the dashboard otherwise, the registration page to the login page, the admin sign-up page to the admin dashboard.\<close>

theorem forms_navigate_only_when_valid:
  "(login_page_reach s \<and> fp_navigation s = Some p \<longrightarrow>
      loginSchema (fp_values s) = [] \<and> login_native_valid (fp_values s) \<and>
      p = (if sublist ''admin'' (login_form.email (fp_values s)) then ''/admin'' else ''/dashboard'')) \<and>
   (register_reach is_url cy r \<and> fp_navigation r = Some q \<longrightarrow>
      registrationSchema is_url (fp_values r) = [] \<and> register_native_valid is_url (fp_values r) \<and> q = ''/login'') \<and>
   (admin_page_reach a \<and> fp_navigation a = Some t \<longrightarrow>
      adminRegistrationSchema (fp_values a) = [] \<and> admin_native_valid (fp_values a) \<and> t = ''/admin'')"
  using login_page_navigation register_page_navigation admin_page_navigation by blast

lemma forms_navigate_only_when_valid_witness:
  "login_page_reach (login_page_step (login_page_step (login_page_step (form_init empty_login)
      (TypeInput LoginEmailInput ''admin@linkcube.com'')) (TypeInput LoginPasswordInput ''secret1'')) SubmitForm) \<and>
   fp_navigation (login_page_step (login_page_step (login_page_step (form_init empty_login)
      (TypeInput LoginEmailInput ''admin@linkcube.com'')) (TypeInput LoginPasswordInput ''secret1'')) SubmitForm) =
     Some ''/admin'' \<and>
   register_reach (\<lambda>_. False) 2025
     (register_step (\<lambda>_. False) 2025 (register_step (\<lambda>_. False) 2025 (register_step (\<lambda>_. False) 2025
      (register_step (\<lambda>_. False) 2025 (register_step (\<lambda>_. False) 2025 (register_step (\<lambda>_. False) 2025
      (register_step (\<lambda>_. False) 2025 (register_step (\<lambda>_. False) 2025 register_page_init
        (TypeInput FullNameInput ''Jal Patel'')) (TypeInput EmailInput ''jal@linkcube.com''))
        (TypeInput PasswordInput ''Secret123'')) (TypeInput PhoneInput ''9876543210''))
        (ChooseOption DegreeSelect ''btech'')) (ChooseOption BatchYearSelect ''2020''))
        (ChooseOption CollegeSelect ''iit'')) SubmitForm) \<and>
   fp_navigation
     (register_step (\<lambda>_. False) 2025 (register_step (\<lambda>_. False) 2025 (register_step (\<lambda>_. False) 2025
      (register_step (\<lambda>_. False) 2025 (register_step (\<lambda>_. False) 2025 (register_step (\<lambda>_. False) 2025
      (register_step (\<lambda>_. False) 2025 (register_step (\<lambda>_. False) 2025 register_page_init
        (TypeInput FullNameInput ''Jal Patel'')) (TypeInput EmailInput ''jal@linkcube.com''))
        (TypeInput PasswordInput ''Secret123'')) (TypeInput PhoneInput ''9876543210''))
        (ChooseOption DegreeSelect ''btech'')) (ChooseOption BatchYearSelect ''2020''))
        (ChooseOption CollegeSelect ''iit'')) SubmitForm) = Some ''/login'' \<and>
   admin_page_reach (admin_page_step (admin_page_step (admin_page_step (admin_page_step (admin_page_step
      (form_init empty_admin_registration) (TypeInput AdminNameInput ''Jal Patel''))
      (TypeInput AdminEmailInput ''jal@linkcube.com'')) (TypeInput AdminPasswordInput ''Secret123''))
      (TypeInput AdminCodeInput ''123456'')) SubmitForm) \<and>
   fp_navigation (admin_page_step (admin_page_step (admin_page_step (admin_page_step (admin_page_step
      (form_init empty_admin_registration) (TypeInput AdminNameInput ''Jal Patel''))
      (TypeInput AdminEmailInput ''jal@linkcube.com'')) (TypeInput AdminPasswordInput ''Secret123''))
      (TypeInput AdminCodeInput ''123456'')) SubmitForm) = Some ''/admin'' \<and>
   loginSchema \<lparr>login_form.email = ''admin@linkcube.com'', login_form.password = ''secret1''\<rparr> = []"
proof -
  let ?l = "login_page_step (login_page_step (login_page_step (form_init empty_login)
      (TypeInput LoginEmailInput ''admin@linkcube.com'')) (TypeInput LoginPasswordInput ''secret1'')) SubmitForm"
  have lr: "login_page_reach ?l" unfolding login_page_reach_def login_page_step_def
    by (intro form_reach.intros)
  have lv: "\<lparr>login_form.email = ''admin@linkcube.com'', login_form.password = ''secret1''\<rparr> =
      login_set_input LoginPasswordInput ''secret1'' (login_set_input LoginEmailInput ''admin@linkcube.com'' empty_login)"
    by (simp add: empty_login_def)
  have ls: "loginSchema \<lparr>login_form.email = ''admin@linkcube.com'', login_form.password = ''secret1''\<rparr> = []"
    by (simp add: loginSchema_def js_simps del: js_includes_sublist)
  have ln: "login_native_valid \<lparr>login_form.email = ''admin@linkcube.com'', login_form.password = ''secret1''\<rparr>"
    by (simp add: login_native_valid_def html_email_ok_def html_atext_def html_label_ok_def is_alnum_def is_alpha_def is_digit_def is_upper_def is_lower_def)
  have lsub: "login_submit \<lparr>login_form.email = ''admin@linkcube.com'', login_form.password = ''secret1''\<rparr> = Submitted [] ''/admin''"
    using ls by (simp add: login_submit_def submit_with_def login_onSubmit_def)
  have l1: "?l = form_step login_page_form (form_init \<lparr>login_form.email = ''admin@linkcube.com'', login_form.password = ''secret1''\<rparr>) SubmitForm"
    by (simp add: login_page_step_def login_page_form_def empty_login_def)
  have "fd_native login_page_form \<lparr>login_form.email = ''admin@linkcube.com'', login_form.password = ''secret1''\<rparr>"
       "fd_submit login_page_form \<lparr>login_form.email = ''admin@linkcube.com'', login_form.password = ''secret1''\<rparr> = Submitted [] ''/admin''"
    using ln lsub by (simp_all add: login_page_form_def)
  then have lnav: "fp_navigation ?l = Some ''/admin''" unfolding l1 by (rule form_step_init_submit [THEN conjunct1])
  define r where "r =
     register_step (\<lambda>_. False) 2025 (register_step (\<lambda>_. False) 2025 (register_step (\<lambda>_. False) 2025
      (register_step (\<lambda>_. False) 2025 (register_step (\<lambda>_. False) 2025 (register_step (\<lambda>_. False) 2025
      (register_step (\<lambda>_. False) 2025 (register_step (\<lambda>_. False) 2025 register_page_init
        (TypeInput FullNameInput ''Jal Patel'')) (TypeInput EmailInput ''jal@linkcube.com''))
        (TypeInput PasswordInput ''Secret123'')) (TypeInput PhoneInput ''9876543210''))
        (ChooseOption DegreeSelect ''btech'')) (ChooseOption BatchYearSelect ''2020''))
        (ChooseOption CollegeSelect ''iit'')) SubmitForm"
  have rr: "register_reach (\<lambda>_. False) 2025 r" unfolding r_def register_reach_def register_step_def register_page_init_def
    by (intro form_reach.intros)
  have y: "''2020'' \<in> set (batch_year_options 2025)"
    by (simp add: batch_year_options_def years_expand js_int_toString_def nat_digits.simps digit_char_def)
  have r7: "register_step (\<lambda>_. False) 2025 (register_step (\<lambda>_. False) 2025 (register_step (\<lambda>_. False) 2025
      (register_step (\<lambda>_. False) 2025 (register_step (\<lambda>_. False) 2025 (register_step (\<lambda>_. False) 2025
      (register_step (\<lambda>_. False) 2025 register_page_init
        (TypeInput FullNameInput ''Jal Patel'')) (TypeInput EmailInput ''jal@linkcube.com''))
        (TypeInput PasswordInput ''Secret123'')) (TypeInput PhoneInput ''9876543210''))
        (ChooseOption DegreeSelect ''btech'')) (ChooseOption BatchYearSelect ''2020''))
        (ChooseOption CollegeSelect ''iit'') = form_init sample_registration"
    using y by (simp add: register_step_def register_page_init_def form_step_init_choose register_form_def
        register_choose_def degree_options_def college_options_def empty_registration_def sample_registration_def)
  have rn: "register_native_valid (\<lambda>_. False) sample_registration"
    by (simp add: register_native_valid_def sample_registration_def html_email_ok_def html_atext_def html_label_ok_def
        is_alnum_def is_alpha_def is_digit_def is_upper_def is_lower_def)
  have rs: "register_submit (\<lambda>_. False) 2025 sample_registration = Submitted [mk_toast ''Registration successful!'' []] ''/login''"
    using sample_registration_valid [of "\<lambda>_. False"]
    by (simp add: register_submit_def submit_with_def register_onSubmit_def)
  have r1: "r = form_step (register_form (\<lambda>_. False) 2025) (form_init sample_registration) SubmitForm"
    unfolding r_def by (subst r7) (simp add: register_step_def)
  have "fd_native (register_form (\<lambda>_. False) 2025) sample_registration"
       "fd_submit (register_form (\<lambda>_. False) 2025) sample_registration = Submitted [mk_toast ''Registration successful!'' []] ''/login''"
    using rn rs by (simp_all add: register_form_def)
  then have rnav: "fp_navigation r = Some ''/login''" unfolding r1 by (rule form_step_init_submit [THEN conjunct1])
  let ?a = "admin_page_step (admin_page_step (admin_page_step (admin_page_step (admin_page_step
      (form_init empty_admin_registration) (TypeInput AdminNameInput ''Jal Patel''))
      (TypeInput AdminEmailInput ''jal@linkcube.com'')) (TypeInput AdminPasswordInput ''Secret123''))
      (TypeInput AdminCodeInput ''123456'')) SubmitForm"
  have ar: "admin_page_reach ?a" unfolding admin_page_reach_def admin_page_step_def by (intro form_reach.intros)
  define av where "av = \<lparr>admin_registration_form.fullName = ''Jal Patel'', admin_registration_form.email = ''jal@linkcube.com'',
      admin_registration_form.password = ''Secret123'', adminCode = ''123456''\<rparr>"
  have as: "admin_submit av = Submitted [mk_toast ''Admin registration successful!'' []] ''/admin''"
    by (simp add: av_def admin_submit_def submit_with_def admin_onSubmit_def adminRegistrationSchema_def
        password_checks_def js_simps del: js_includes_sublist)
  have an: "admin_native_valid av"
    by (simp add: av_def admin_native_valid_def html_email_ok_def html_atext_def html_label_ok_def
        is_alnum_def is_alpha_def is_digit_def is_upper_def is_lower_def)
  have a1: "?a = form_step admin_page_form (form_init av) SubmitForm"
    by (simp add: admin_page_step_def admin_page_form_def av_def empty_admin_registration_def)
  have "fd_native admin_page_form av" "fd_submit admin_page_form av = Submitted [mk_toast ''Admin registration successful!'' []] ''/admin''"
    using an as by (simp_all add: admin_page_form_def)
  then have anav: "fp_navigation ?a = Some ''/admin''" unfolding a1 by (rule form_step_init_submit [THEN conjunct1])
  have "loginSchema (fp_values ?l) = [] \<and> login_native_valid (fp_values ?l) \<and>
        ''/admin'' = (if sublist ''admin'' (login_form.email (fp_values ?l)) then ''/admin'' else ''/dashboard'')"
    using forms_navigate_only_when_valid [of ?l "''/admin''"] lr lnav by blast
  moreover have "registrationSchema (\<lambda>_. False) (fp_values r) = [] \<and> register_native_valid (\<lambda>_. False) (fp_values r)"
    using forms_navigate_only_when_valid [of _ _ "\<lambda>_. False" 2025 r "''/login''"] rr rnav by blast
  moreover have "adminRegistrationSchema (fp_values ?a) = [] \<and> admin_native_valid (fp_values ?a)"
    using forms_navigate_only_when_valid [of _ _ _ _ _ _ ?a "''/admin''"] ar anav by blast
  ultimately show ?thesis using lr lnav rr rnav ar anav ls unfolding r_def by blast
qed

text \<open>The links of \<open>Auth.tsx\<close>, whatever its \<open>authType\<close>: the two brand logos and the form's back-home link render the index page, the form's sign-up link the registration page, and its \<open>Forgot password?\<close> link the 404 page, since no route declares \<open>/auth/reset-password\<close>.\<close>

lemma auth_page_links_render:
  "map rendered_page (auth_page_links authType) =
     [Some (Elem IndexPage), Some (Elem IndexPage), Some (Elem IndexPage), Some (Elem NotFoundPage),
      Some (Elem RegisterPage)]"
  by (simp add: auth_page_links_def auth_render_def auth_page_form_def auth_init_def route_eval)
end
